theory Spec2Isabelle
  imports Complex_Main
begin

section \<open>Common data model\<close>

text \<open>
  A call either returns a value or stops the program (a failed \<^verbatim>\<open>CHECK\<close>, a
  \<^verbatim>\<open>LOG(FATAL)\<close>, \<^verbatim>\<open>ABSL_DIE_IF_NULL\<close>).
\<close>

datatype 'a outcome = Aborted | Returned 'a

text \<open>
  \<^verbatim>\<open>AudioBuffer\<close> (audio_buffer.h): planar storage, every channel view has
  \<^verbatim>\<open>num_frames\<close> samples. The sample type is a parameter; alignment padding between
  channels is not part of the model.
\<close>

record 'f AudioBuffer =
  num_frames :: nat
  channel_views :: "'f list list"

definition num_channels :: "'f AudioBuffer \<Rightarrow> nat" where
  "num_channels b = length (channel_views b)"

definition wf_buffer :: "'f AudioBuffer \<Rightarrow> bool" where
  "wf_buffer b = list_all (\<lambda>ch. length ch = num_frames b) (channel_views b)"

section \<open>Peak limiter (peak_limiter.h, peak_limiter.cc)\<close>

text \<open>
  The limiter works on \<^verbatim>\<open>float\<close> samples (type \<open>'f\<close>) and keeps its ceiling, its
  release coefficient and its envelope in \<^verbatim>\<open>double\<close> (type \<open>'d\<close>). The primitive
  operations it uses are collected in a record, so that the limiter is read with any
  arithmetic: with the rounding, the infinities and the NaN of binary32 and binary64
  as well as without. \<open>f_abs\<close> and \<open>d_abs\<close> are what the unqualified \<^verbatim>\<open>abs\<close> of the
  source resolves to on a \<^verbatim>\<open>float\<close> and on a \<^verbatim>\<open>double\<close>, \<open>d_of_int\<close> is the
  conversion of an \<^verbatim>\<open>int\<close>, \<open>f_to_d\<close> and \<open>d_to_f\<close> are the conversions between the
  two formats, \<open>d_pow\<close> and \<open>d_exp\<close> are \<^verbatim>\<open>std::pow\<close> and \<^verbatim>\<open>std::exp\<close>.
\<close>

record ('f, 'd) limiter_arith =
  f_zero :: 'f
  f_abs :: "'f \<Rightarrow> 'f"
  f_max :: "'f \<Rightarrow> 'f \<Rightarrow> 'f"
  f_mul :: "'f \<Rightarrow> 'f \<Rightarrow> 'f"
  f_to_d :: "'f \<Rightarrow> 'd"
  d_to_f :: "'d \<Rightarrow> 'f"
  d_one :: 'd
  d_of_int :: "int \<Rightarrow> 'd"
  d_abs :: "'d \<Rightarrow> 'd"
  d_less :: "'d \<Rightarrow> 'd \<Rightarrow> bool"
  d_add :: "'d \<Rightarrow> 'd \<Rightarrow> 'd"
  d_sub :: "'d \<Rightarrow> 'd \<Rightarrow> 'd"
  d_mul :: "'d \<Rightarrow> 'd \<Rightarrow> 'd"
  d_div :: "'d \<Rightarrow> 'd \<Rightarrow> 'd"
  d_pow :: "'d \<Rightarrow> 'd \<Rightarrow> 'd"
  d_exp :: "'d \<Rightarrow> 'd"

text \<open>
  One arithmetic for concrete runs: the real numbers, without rounding. It has no
  infinity, so it stands for the code only in runs in which no divisor is zero.
\<close>

definition real_arith :: "(real, real) limiter_arith" where
  "real_arith = \<lparr> f_zero = 0, f_abs = abs, f_max = max, f_mul = (*),
     f_to_d = (\<lambda>x. x), d_to_f = (\<lambda>x. x), d_one = 1, d_of_int = of_int, d_abs = abs,
     d_less = (<), d_add = (+), d_sub = (-), d_mul = (*), d_div = (/),
     d_pow = (powr), d_exp = exp \<rparr>"

record 'd PeakLimiter =
  pl_sampling_rate :: int
  pl_ceiling :: 'd
  pl_release_time_constant :: 'd
  pl_env :: 'd

text \<open>
  The constructor: \<^verbatim>\<open>std::pow(10, ceiling_db / 20)\<close>,
  \<^verbatim>\<open>std::exp(-3 / (sampling_rate_ * release_ms / 1000))\<close> and \<^verbatim>\<open>env_(1.0)\<close>, the
  integers being converted to \<^verbatim>\<open>double\<close> where they meet one.
\<close>

definition PeakLimiter_new ::
  "('f, 'd) limiter_arith \<Rightarrow> int \<Rightarrow> 'd \<Rightarrow> 'd \<Rightarrow> 'd PeakLimiter" where
  "PeakLimiter_new A sampling_rate release_ms ceiling_db =
     \<lparr> pl_sampling_rate = sampling_rate,
       pl_ceiling = d_pow A (d_of_int A 10) (d_div A ceiling_db (d_of_int A 20)),
       pl_release_time_constant =
         d_exp A (d_div A (d_of_int A (- 3))
                    (d_div A (d_mul A (d_of_int A sampling_rate) release_ms)
                       (d_of_int A 1000))),
       pl_env = d_one A \<rparr>"

definition GetMaximumRequiredGain ::
  "('f, 'd) limiter_arith \<Rightarrow> 'd PeakLimiter \<Rightarrow> 'd \<Rightarrow> 'd" where
  "GetMaximumRequiredGain A pl sample =
     (if d_less A (pl_ceiling pl) (d_abs A sample)
      then d_div A (pl_ceiling pl) (d_abs A sample)
      else d_one A)"

text \<open>
  First loop of \<^verbatim>\<open>Process\<close>: one pass of the inner loop over the frames of a channel,
  then the outer loop over the channels, starting from a vector of zeros.
\<close>

definition max_samples_channel ::
  "('f, 'd) limiter_arith \<Rightarrow> nat \<Rightarrow> 'f list \<Rightarrow> 'f list \<Rightarrow> 'f list" where
  "max_samples_channel A n max_samples channel =
     map (\<lambda>frame. f_max A (max_samples ! frame) (f_abs A (channel ! frame))) [0..<n]"

definition max_samples_of ::
  "('f, 'd) limiter_arith \<Rightarrow> 'f AudioBuffer \<Rightarrow> 'f list" where
  "max_samples_of A input =
     foldl (max_samples_channel A (num_frames input))
       (replicate (num_frames input) (f_zero A)) (channel_views input)"

text \<open>
  Second loop: the envelope follower, frame after frame. It returns the final value of
  \<^verbatim>\<open>env_\<close> and the vector \<^verbatim>\<open>limiter_env\<close>.
\<close>

definition env_step :: "('f, 'd) limiter_arith \<Rightarrow> 'd PeakLimiter \<Rightarrow> 'd \<Rightarrow> 'f \<Rightarrow> 'd" where
  "env_step A pl env m =
     (let max_req_gain = GetMaximumRequiredGain A pl (f_to_d A m)
      in if d_less A max_req_gain env then max_req_gain
         else d_add A (d_mul A (pl_release_time_constant pl) (d_sub A env max_req_gain))
                max_req_gain)"

fun limiter_env_loop ::
  "('f, 'd) limiter_arith \<Rightarrow> 'd PeakLimiter \<Rightarrow> 'd \<Rightarrow> 'f list \<Rightarrow> 'd \<times> 'f list" where
  "limiter_env_loop A pl env [] = (env, [])"
| "limiter_env_loop A pl env (m # ms) =
     (let env' = env_step A pl env m;
          (e, out) = limiter_env_loop A pl env' ms
      in (e, d_to_f A env' # out))"

text \<open>Third loop: every sample is multiplied by the envelope of its frame.\<close>

definition apply_limiter_env ::
  "('f, 'd) limiter_arith \<Rightarrow> 'f AudioBuffer \<Rightarrow> 'f list \<Rightarrow> 'f AudioBuffer" where
  "apply_limiter_env A input limiter_env =
     \<lparr> num_frames = num_frames input,
       channel_views =
         map (\<lambda>channel. map (\<lambda>frame. f_mul A (channel ! frame) (limiter_env ! frame))
                          [0..<num_frames input])
             (channel_views input) \<rparr>"

text \<open>
  \<^verbatim>\<open>PeakLimiter::Process\<close>. The two \<^verbatim>\<open>CHECK_EQ\<close> compare the shape of the input with
  the shape of the buffer the result is written to.
\<close>

definition PeakLimiter_Process ::
  "('f, 'd) limiter_arith \<Rightarrow> 'd PeakLimiter \<Rightarrow> 'f AudioBuffer \<Rightarrow> 'f AudioBuffer
     \<Rightarrow> ('d PeakLimiter \<times> 'f AudioBuffer) outcome" where
  "PeakLimiter_Process A pl input output =
     (if num_channels input \<noteq> num_channels output then Aborted
      else if num_frames input \<noteq> num_frames output then Aborted
      else let (e, limiter_env) = limiter_env_loop A pl (pl_env pl) (max_samples_of A input)
           in Returned (pl\<lparr>pl_env := e\<rparr>, apply_limiter_env A input limiter_env))"

subsection \<open>Feeding a signal block by block\<close>

text \<open>
  The frames \<open>start, \<dots>, start + len - 1\<close> of a buffer, as a buffer of its own; a
  signal cut into consecutive blocks of the given sizes; and the blocks fed to
  \<^verbatim>\<open>Process\<close> in order and in place, as the renderer does, the limiter object being
  carried from one call to the next.
\<close>

definition slice_frames :: "nat \<Rightarrow> nat \<Rightarrow> 'f AudioBuffer \<Rightarrow> 'f AudioBuffer" where
  "slice_frames start len b =
     \<lparr> num_frames = len, channel_views = map (\<lambda>ch. take len (drop start ch)) (channel_views b) \<rparr>"

fun split_blocks :: "nat list \<Rightarrow> 'f AudioBuffer \<Rightarrow> 'f AudioBuffer list" where
  "split_blocks [] b = []"
| "split_blocks (n # ns) b =
     slice_frames 0 n b # split_blocks ns (slice_frames n (num_frames b - n) b)"

fun process_blocks ::
  "('f, 'd) limiter_arith \<Rightarrow> 'd PeakLimiter \<Rightarrow> 'f AudioBuffer list
     \<Rightarrow> ('d PeakLimiter \<times> 'f AudioBuffer list) outcome" where
  "process_blocks A pl [] = Returned (pl, [])"
| "process_blocks A pl (b # bs) =
     (case PeakLimiter_Process A pl b b of
        Aborted \<Rightarrow> Aborted
      | Returned (pl', out) \<Rightarrow>
          (case process_blocks A pl' bs of
             Aborted \<Rightarrow> Aborted
           | Returned (pl'', outs) \<Rightarrow> Returned (pl'', out # outs)))"

subsection \<open>The limiter as the specification words it\<close>

text \<open>
  The cross-channel peak of frame \<open>i\<close> as a \<^verbatim>\<open>float\<close>: the maximum, taken from zero
  and channel after channel, of the absolute values of the samples of the frame.
\<close>

definition peak_at :: "('f, 'd) limiter_arith \<Rightarrow> 'f list list \<Rightarrow> nat \<Rightarrow> 'f" where
  "peak_at A chs i = foldl (\<lambda>m ch. f_max A m (f_abs A (ch ! i))) (f_zero A) chs"

text \<open>
  The quantities of the specification, each with the operations of the arithmetic: the
  peak \<open>m\<^sub>i\<close> of frame \<open>i\<close> (converted to \<^verbatim>\<open>double\<close>, and its absolute value taken
  once more, as \<^verbatim>\<open>GetMaximumRequiredGain\<close> does), the required gain \<open>c / m\<close> if
  \<open>m > c\<close> and 1 otherwise, the envelope update \<open>g\<close> if \<open>g < e\<close> and
  \<open>\<alpha> (e - g) + g\<close> otherwise, the envelope after frame \<open>i\<close> of a block entered with
  envelope \<open>e0\<close>, the ceiling \<open>10\<^bsup>C/20\<^esup>\<close> and the release coefficient
  \<open>exp (-3 / (f\<^sub>s T\<^sub>r / 1000))\<close>.
\<close>

definition spec_peak :: "('f, 'd) limiter_arith \<Rightarrow> 'f list list \<Rightarrow> nat \<Rightarrow> 'd" where
  "spec_peak A xs i = d_abs A (f_to_d A (peak_at A xs i))"

definition spec_required_gain :: "('f, 'd) limiter_arith \<Rightarrow> 'd \<Rightarrow> 'd \<Rightarrow> 'd" where
  "spec_required_gain A c m = (if d_less A c m then d_div A c m else d_one A)"

definition spec_env_update :: "('f, 'd) limiter_arith \<Rightarrow> 'd \<Rightarrow> 'd \<Rightarrow> 'd \<Rightarrow> 'd" where
  "spec_env_update A \<alpha> e g =
     (if d_less A g e then g else d_add A (d_mul A \<alpha> (d_sub A e g)) g)"

fun spec_envelope ::
  "('f, 'd) limiter_arith \<Rightarrow> 'd \<Rightarrow> 'd \<Rightarrow> 'd \<Rightarrow> 'f list list \<Rightarrow> nat \<Rightarrow> 'd" where
  "spec_envelope A c \<alpha> e0 xs 0 =
     spec_env_update A \<alpha> e0 (spec_required_gain A c (spec_peak A xs 0))"
| "spec_envelope A c \<alpha> e0 xs (Suc i) =
     spec_env_update A \<alpha> (spec_envelope A c \<alpha> e0 xs i)
       (spec_required_gain A c (spec_peak A xs (Suc i)))"

definition spec_ceiling :: "('f, 'd) limiter_arith \<Rightarrow> 'd \<Rightarrow> 'd" where
  "spec_ceiling A C = d_pow A (d_of_int A 10) (d_div A C (d_of_int A 20))"

definition spec_release :: "('f, 'd) limiter_arith \<Rightarrow> int \<Rightarrow> 'd \<Rightarrow> 'd" where
  "spec_release A fs Tr =
     d_exp A (d_div A (d_of_int A (- 3))
                (d_div A (d_mul A (d_of_int A fs) Tr) (d_of_int A 1000)))"

text \<open>A limiter and a two-channel signal of three frames, for concrete runs.\<close>

definition pl0 :: "real PeakLimiter" where
  "pl0 = \<lparr> pl_sampling_rate = 48000, pl_ceiling = 1, pl_release_time_constant = 1/2, pl_env = 1 \<rparr>"

definition x0 :: "real AudioBuffer" where
  "x0 = \<lparr> num_frames = 3, channel_views = [[2, 0, 1/2], [-4, 0, 0]] \<rparr>"

text \<open>A second signal: three channels of four frames, with peaks below the ceiling too.\<close>

definition x1 :: "real AudioBuffer" where
  "x1 = \<lparr> num_frames = 4,
           channel_views = [[1, 1/2, -2, 0], [-2, 1/4, 1, 0], [1/2, -1, 0, 0]] \<rparr>"

section \<open>Sample type conversion (sample_type_conversion.h)\<close>

text \<open>
  The conversions work in \<^verbatim>\<open>float\<close>, and whether a sample survives the round trip
  is a question of rounding, so here the arithmetic is IEEE 754 binary32 itself: a
  finite \<^verbatim>\<open>float\<close> is the real number it denotes, and an operation is the exact
  operation followed by rounding to the nearest binary32 value, ties to even. Overflow
  to infinity and NaN do not occur for the values the conversions meet and are not
  modelled.

  \<open>pow2 e\<close> is \<open>2\<close> to the (possibly negative) power \<open>e\<close>; \<open>f32_exponent x\<close> is the
  exponent of the binade of \<open>x\<close>, found by searching downwards from 127, and is -126
  for subnormal \<open>x\<close>; a binary32 value has 24 significant bits, so the spacing of the
  values around \<open>x\<close> is \<open>pow2 (f32_exponent x - 23)\<close>.
\<close>

definition pow2 :: "int \<Rightarrow> real" where
  "pow2 e = (if 0 \<le> e then 2 ^ nat e else 1 / 2 ^ nat (- e))"

fun binade :: "nat \<Rightarrow> int \<Rightarrow> real \<Rightarrow> int" where
  "binade 0 e x = e"
| "binade (Suc n) e x = (if pow2 e \<le> \<bar>x\<bar> then e else binade n (e - 1) x)"

definition f32_exponent :: "real \<Rightarrow> int" where
  "f32_exponent x = binade 253 127 x"

definition round_half_even :: "real \<Rightarrow> int" where
  "round_half_even q =
     (let f = \<lfloor>q\<rfloor>; r = q - of_int f
      in if r < 1 / 2 then f
         else if 1 / 2 < r then f + 1
         else if even f then f else f + 1)"

definition f32_round :: "real \<Rightarrow> real" where
  "f32_round x =
     of_int (round_half_even (x / pow2 (f32_exponent x - 23))) * pow2 (f32_exponent x - 23)"

definition f32_mul :: "real \<Rightarrow> real \<Rightarrow> real" where
  "f32_mul x y = f32_round (x * y)"

definition f32_div :: "real \<Rightarrow> real \<Rightarrow> real" where
  "f32_div x y = f32_round (x / y)"

text \<open>\<^verbatim>\<open>static_cast<int16_t>\<close> of a \<^verbatim>\<open>float\<close> discards the fraction (rounds towards zero).\<close>

definition truncate_to_int :: "real \<Rightarrow> int" where
  "truncate_to_int q = (if 0 \<le> q then \<lfloor>q\<rfloor> else \<lceil>q\<rceil>)"

text \<open>
  The \<^verbatim>\<open>int16_t\<close> overloads. An \<^verbatim>\<open>int16_t\<close> is an integer (every one of them is a
  binary32 value, so the conversion of the operand is exact); \<^verbatim>\<open>std::min\<close> and
  \<^verbatim>\<open>std::max\<close> on finite values are \<open>min\<close> and \<open>max\<close>.
\<close>

definition ConvertSampleToFloatFormat :: "int \<Rightarrow> real" where
  "ConvertSampleToFloatFormat input =
     (let kInt16Max = of_int 0x7FFF;
          kInt16ToFloat = f32_div 1 kInt16Max
      in f32_mul (of_int input) kInt16ToFloat)"

definition ConvertSampleFromFloatFormat :: "real \<Rightarrow> int" where
  "ConvertSampleFromFloatFormat input =
     (let kInt16Min = of_int (- 0x7FFF);
          kInt16Max = of_int 0x7FFF;
          kFloatToInt16 = kInt16Max;
          scaled_value = f32_mul input kFloatToInt16;
          clamped_value = min kInt16Max (max kInt16Min scaled_value)
      in truncate_to_int clamped_value)"

section \<open>Ambisonic encoder (ambisonic_encoder.cc)\<close>

text \<open>
  From here on a \<^verbatim>\<open>float\<close> is kept as the real number it stands for (no NaN, no
  infinity, no negative zero), so that \<^verbatim>\<open>==\<close>, \<^verbatim>\<open><\<close> and \<^verbatim>\<open>std::max\<close> on
  \<^verbatim>\<open>float\<close> are those of the reals. The operations of the encoder that round are
  not fixed: the multiplication, the division, \<^verbatim>\<open>std::sin\<close>, \<^verbatim>\<open>std::cos\<close> and the
  conversion of an \<^verbatim>\<open>int\<close> are fields of a record, and so is what the encoder takes
  from files that are not among the sources: the constants \<^verbatim>\<open>kNegative120dbInAmplitude\<close>
  and \<^verbatim>\<open>kRadiansFromDegrees\<close> of \<^verbatim>\<open>constants.h\<close>, \<^verbatim>\<open>Sn3dNormalization\<close> of
  \<^verbatim>\<open>ambisonic_utils.h\<close>, and the value that the generator of associated Legendre
  polynomials returns for \<open>x\<close> at \<^verbatim>\<open>GetIndex(degree, order)\<close>. The encoder is read with
  any such record, the binary32 operations of the code being one.
\<close>

type_synonym sample = real

record encoder_arith =
  fl_mul :: "real \<Rightarrow> real \<Rightarrow> real"
  fl_div :: "real \<Rightarrow> real \<Rightarrow> real"
  fl_sin :: "real \<Rightarrow> real"
  fl_cos :: "real \<Rightarrow> real"
  fl_of_int :: "int \<Rightarrow> real"
  fl_kNegative120dbInAmplitude :: real
  fl_kRadiansFromDegrees :: real
  fl_Sn3dNormalization :: "int \<Rightarrow> int \<Rightarrow> real"
  fl_AssociatedLegendre :: "nat \<Rightarrow> nat \<Rightarrow> real \<Rightarrow> real"

record SourceProperties =
  gain :: real
  azimuth :: real
  elevation :: real
  distance :: real

text \<open>
  The encoding matrix has one row per output (ACN) channel and one column per input
  channel; it is kept as the list of its rows. \<^verbatim>\<open>sources_\<close> maps an input channel to
  the properties last set for it.
\<close>

record AmbisonicEncoder =
  number_of_input_channels :: nat
  number_of_output_channels :: nat
  ambisonic_order :: nat
  sources :: "nat \<rightharpoonup> SourceProperties"
  encoding_matrix :: "real list list"

definition matrix_col :: "real list list \<Rightarrow> nat \<Rightarrow> real list" where
  "matrix_col m c = map (\<lambda>row. row ! c) m"

definition set_col_zero :: "real list list \<Rightarrow> nat \<Rightarrow> real list list" where
  "set_col_zero m c = map (\<lambda>row. row[c := 0]) m"

definition set_col :: "real list list \<Rightarrow> nat \<Rightarrow> real list \<Rightarrow> real list list" where
  "set_col m c vs = map (\<lambda>i. (m ! i)[c := vs ! i]) [0..<length m]"

definition AmbisonicEncoder_new :: "nat \<Rightarrow> nat \<Rightarrow> AmbisonicEncoder outcome" where
  "AmbisonicEncoder_new n_in order =
     (if \<not> n_in > 0 then Aborted
      else if \<not> order > 0 then Aborted
      else Returned
        \<lparr> number_of_input_channels = n_in,
          number_of_output_channels = (order + 1) * (order + 1),
          ambisonic_order = order,
          sources = Map.empty,
          encoding_matrix = replicate ((order + 1) * (order + 1)) (replicate n_in 0) \<rparr>)"

subsection \<open>Spherical harmonics\<close>

text \<open>
  Modelled from the spec: \<^verbatim>\<open>AcnSequence\<close> of \<^verbatim>\<open>ambisonic_utils.h\<close> is not among the
  sources; it is \<open>\<ell>(\<ell> + 1) + m\<close> (section 4.2 and glossary).
\<close>

definition AcnSequence :: "int \<Rightarrow> int \<Rightarrow> int" where
  "AcnSequence degree order = degree * (degree + 1) + order"

text \<open>
  Modelled from the spec: the constants and helpers as the specification gives them, in
  exact arithmetic. \<open>kNegative120dbInAmplitude\<close> is \<open>10\<^sup>-\<^sup>6\<close> (section 4.3: "if
  \<open>g < 10\<^sup>-\<^sup>6\<close> zero column"), \<open>Sn3dNormalization\<close> is
  \<open>sqrt ((2 - \<delta>\<^sub>m\<^sub>0) (\<ell> - |m|)! / (\<ell> + |m|)!)\<close> and \<open>AssociatedLegendre \<ell> m x\<close> follows
  the recurrence of section 4.2 (no Condon-Shortley phase). They make up the record
  \<open>exact_arith\<close>, the encoder without rounding, which is used for concrete runs.
\<close>

definition kNegative120dbInAmplitude :: real where
  "kNegative120dbInAmplitude = 1 / 1000000"

definition kRadiansFromDegrees :: real where
  "kRadiansFromDegrees = pi / 180"

definition Sn3dNormalization :: "int \<Rightarrow> int \<Rightarrow> real" where
  "Sn3dNormalization degree order =
     sqrt ((2 - (if order = 0 then 1 else 0))
           * fact (nat (degree - \<bar>order\<bar>)) / fact (nat (degree + \<bar>order\<bar>)))"

fun AssociatedLegendre :: "nat \<Rightarrow> nat \<Rightarrow> real \<Rightarrow> real" where
  "AssociatedLegendre 0 m x = 1"
| "AssociatedLegendre (Suc l) m x =
     (if m = Suc l then
        (2 * real (Suc l) - 1) * sqrt (1 - x\<^sup>2) * AssociatedLegendre l l x
      else if m = l then
        (2 * real (Suc l) - 1) * x * AssociatedLegendre l l x
      else
        ((2 * real (Suc l) - 1) * x * AssociatedLegendre l m x
           - (real (Suc l) + real m - 1) * AssociatedLegendre (l - 1) m x)
        / (real (Suc l) - real m))"

definition exact_arith :: encoder_arith where
  "exact_arith =
     \<lparr> fl_mul = (*), fl_div = (/), fl_sin = sin, fl_cos = cos, fl_of_int = of_int,
       fl_kNegative120dbInAmplitude = kNegative120dbInAmplitude,
       fl_kRadiansFromDegrees = kRadiansFromDegrees,
       fl_Sn3dNormalization = Sn3dNormalization,
       fl_AssociatedLegendre = AssociatedLegendre \<rparr>"

text \<open>
  \<^verbatim>\<open>GetShCoeffs\<close>. The two nested loops visit the pairs (degree, order) in the order of
  \<open>sh_loop_indices\<close>; the body of the inner loop is \<open>sh_store\<close>. \<^verbatim>\<open>coeffs.at(row)\<close>
  throws for a row outside the vector, which ends the program.
\<close>

definition sh_loop_indices :: "nat \<Rightarrow> (int \<times> int) list" where
  "sh_loop_indices order_max =
     concat (map (\<lambda>degree. map (\<lambda>order. (degree, order)) [- degree..degree])
                 [0..int order_max])"

definition sh_value :: "encoder_arith \<Rightarrow> real \<Rightarrow> real \<Rightarrow> int \<times> int \<Rightarrow> real" where
  "sh_value F azimuth_rad x p =
     (let degree = fst p; order = snd p;
          last_term = (if order \<ge> 0 then fl_cos F (fl_mul F (fl_of_int F order) azimuth_rad)
                       else fl_sin F (fl_mul F (fl_of_int F (- order)) azimuth_rad))
      in fl_mul F
           (fl_mul F (fl_Sn3dNormalization F degree order)
              (fl_AssociatedLegendre F (nat degree) (nat \<bar>order\<bar>) x))
           last_term)"

definition sh_store ::
  "encoder_arith \<Rightarrow> real \<Rightarrow> real \<Rightarrow> real list outcome \<Rightarrow> int \<times> int \<Rightarrow> real list outcome"
  where
  "sh_store F azimuth_rad x acc p =
     (case acc of
        Aborted \<Rightarrow> Aborted
      | Returned coeffs \<Rightarrow>
          (let row = AcnSequence (fst p) (snd p)
           in if row = - 1 then Returned coeffs
              else if row < 0 \<or> nat row \<ge> length coeffs then Aborted
              else Returned (coeffs[nat row := sh_value F azimuth_rad x p])))"

definition GetShCoeffs ::
  "encoder_arith \<Rightarrow> real \<Rightarrow> real \<Rightarrow> nat \<Rightarrow> real list \<Rightarrow> real list outcome" where
  "GetShCoeffs F az el order_max coeffs =
     (let azimuth_rad = fl_mul F az (fl_kRadiansFromDegrees F);
          elevation_rad = fl_mul F el (fl_kRadiansFromDegrees F)
      in foldl (sh_store F azimuth_rad (fl_sin F elevation_rad)) (Returned coeffs)
           (sh_loop_indices order_max))"

subsection \<open>Setting, removing and applying sources\<close>

definition SetSource ::
  "encoder_arith \<Rightarrow> AmbisonicEncoder \<Rightarrow> nat \<Rightarrow> real \<Rightarrow> real \<Rightarrow> real \<Rightarrow> real
     \<Rightarrow> AmbisonicEncoder outcome" where
  "SetSource F enc input_channel g az el d =
     (if number_of_input_channels enc = 0 then Aborted
      else if number_of_output_channels enc = 0 then Aborted
      else if \<not> input_channel < number_of_input_channels enc then Aborted
      else
        let srcs = (if sources enc input_channel = None
                    then (sources enc)(input_channel \<mapsto>
                           \<lparr> gain = 0, azimuth = 0, elevation = 0, distance = 0 \<rparr>)
                    else sources enc);
            cur = the (srcs input_channel)
        in if gain cur = g \<and> azimuth cur = az \<and> elevation cur = el \<and> distance cur = d
           then Returned (enc\<lparr>sources := srcs\<rparr>)
           else
             let srcs' = srcs(input_channel \<mapsto>
                           \<lparr> gain = g, azimuth = az, elevation = el, distance = d \<rparr>);
                 overall_gain = fl_div F g (max d (1 / 2))
             in if overall_gain < fl_kNegative120dbInAmplitude F
                then Returned (enc\<lparr>sources := srcs',
                        encoding_matrix := set_col_zero (encoding_matrix enc) input_channel\<rparr>)
                else
                  (case GetShCoeffs F az el (ambisonic_order enc)
                          (replicate (number_of_output_channels enc) 0) of
                     Aborted \<Rightarrow> Aborted
                   | Returned sh_coeffs \<Rightarrow>
                       Returned (enc\<lparr>sources := srcs',
                         encoding_matrix :=
                           set_col (encoding_matrix enc) input_channel
                             (map (\<lambda>i. fl_mul F (sh_coeffs ! i) overall_gain)
                                  [0..<number_of_output_channels enc])\<rparr>)))"

definition RemoveSource :: "AmbisonicEncoder \<Rightarrow> nat \<Rightarrow> AmbisonicEncoder" where
  "RemoveSource enc input_channel =
     enc\<lparr>sources := (sources enc)(input_channel := None),
         encoding_matrix := set_col_zero (encoding_matrix enc) input_channel\<rparr>"

text \<open>
  \<^verbatim>\<open>ProcessPlanarAudioData\<close>: the output buffer receives the product of the encoding
  matrix with the input, frame by frame. The product is left to Eigen, which fixes no
  order of summation; it is read without rounding.
\<close>

definition ProcessPlanarAudioData ::
  "AmbisonicEncoder \<Rightarrow> sample AudioBuffer \<Rightarrow> sample AudioBuffer \<Rightarrow> sample AudioBuffer outcome"
  where
  "ProcessPlanarAudioData enc input_buffer output_buffer =
     (if number_of_input_channels enc \<noteq> num_channels input_buffer then Aborted
      else if number_of_output_channels enc \<noteq> num_channels output_buffer then Aborted
      else if num_frames input_buffer \<noteq> num_frames output_buffer then Aborted
      else Returned
        \<lparr> num_frames = num_frames output_buffer,
          channel_views =
            map (\<lambda>row. map (\<lambda>frame.
                   (\<Sum>c \<leftarrow> [0..<number_of_input_channels enc].
                      row ! c * (channel_views input_buffer ! c) ! frame))
                   [0..<num_frames output_buffer])
                (encoding_matrix enc) \<rparr>)"

subsection \<open>The column the specification asks for\<close>

text \<open>
  The overall gain of a source, and the encoder states in which the matrix agrees with
  the cache of source properties: the column of a channel that has no entry is zero,
  and the column of a channel with an entry holds what \<^verbatim>\<open>SetSource\<close> computes for
  that entry. The constructor gives such a state and the operations keep it, provided
  that the gain zero is muted: zero divided by one half is below the threshold (it is
  zero in binary32).
\<close>

definition overall_gain_of :: "encoder_arith \<Rightarrow> real \<Rightarrow> real \<Rightarrow> real" where
  "overall_gain_of F g d = fl_div F g (max d (1 / 2))"

definition zero_gain_muted :: "encoder_arith \<Rightarrow> bool" where
  "zero_gain_muted F = (fl_div F 0 (1 / 2) < fl_kNegative120dbInAmplitude F)"

definition source_column :: "encoder_arith \<Rightarrow> nat \<Rightarrow> SourceProperties \<Rightarrow> real list" where
  "source_column F order_max s =
     (let n = (order_max + 1) * (order_max + 1);
          og = overall_gain_of F (gain s) (distance s)
      in if og < fl_kNegative120dbInAmplitude F then replicate n 0
         else (case GetShCoeffs F (azimuth s) (elevation s) order_max (replicate n 0) of
                 Aborted \<Rightarrow> replicate n 0
               | Returned sh \<Rightarrow> map (\<lambda>i. fl_mul F (sh ! i) og) [0..<n]))"

definition encoder_consistent :: "encoder_arith \<Rightarrow> AmbisonicEncoder \<Rightarrow> bool" where
  "encoder_consistent F enc =
     (0 < number_of_input_channels enc \<and>
      number_of_output_channels enc = (ambisonic_order enc + 1) * (ambisonic_order enc + 1) \<and>
      length (encoding_matrix enc) = number_of_output_channels enc \<and>
      list_all (\<lambda>row. length row = number_of_input_channels enc) (encoding_matrix enc) \<and>
      list_all (\<lambda>c. matrix_col (encoding_matrix enc) c =
                  (case sources enc c of
                     None \<Rightarrow> replicate (number_of_output_channels enc) 0
                   | Some s \<Rightarrow> source_column F (ambisonic_order enc) s))
               [0..<number_of_input_channels enc])"

text \<open>
  The real spherical harmonic of degree \<open>\<ell>\<close> and order \<open>m\<close> for an azimuth and an
  elevation in degrees, as \<^verbatim>\<open>GetShCoeffs\<close> puts it together: normalisation times
  Legendre value at the sine of the elevation, times the cosine of \<open>m\<close> times the
  azimuth for \<open>m \<ge> 0\<close> and the sine of \<open>-m\<close> times the azimuth for \<open>m < 0\<close>.
\<close>

definition spherical_harmonic :: "encoder_arith \<Rightarrow> int \<Rightarrow> int \<Rightarrow> real \<Rightarrow> real \<Rightarrow> real" where
  "spherical_harmonic F l m az el =
     fl_mul F
       (fl_mul F (fl_Sn3dNormalization F l m)
          (fl_AssociatedLegendre F (nat l) (nat \<bar>m\<bar>)
             (fl_sin F (fl_mul F el (fl_kRadiansFromDegrees F)))))
       (if 0 \<le> m
        then fl_cos F (fl_mul F (fl_of_int F m) (fl_mul F az (fl_kRadiansFromDegrees F)))
        else fl_sin F (fl_mul F (fl_of_int F (- m)) (fl_mul F az (fl_kRadiansFromDegrees F))))"

text \<open>A first-order encoder with two inputs, for concrete runs.\<close>

definition enc0 :: AmbisonicEncoder where
  "enc0 = \<lparr> number_of_input_channels = 2, number_of_output_channels = 4,
            ambisonic_order = 1, sources = Map.empty,
            encoding_matrix = [[0, 0], [0, 0], [0, 0], [0, 0]] \<rparr>"

text \<open>The same encoder after a source straight ahead has been set on channel 0.\<close>

definition enc1 :: AmbisonicEncoder where
  "enc1 = \<lparr> number_of_input_channels = 2, number_of_output_channels = 4,
            ambisonic_order = 1,
            sources = [0 \<mapsto> \<lparr> gain = 1, azimuth = 0, elevation = 0, distance = 1 \<rparr>],
            encoding_matrix = [[1, 0], [0, 0], [0, 0], [1, 0]] \<rparr>"

definition out0 :: "sample AudioBuffer" where
  "out0 = \<lparr> num_frames = 3, channel_views = [[0, 0, 0], [0, 0, 0], [0, 0, 0], [0, 0, 0]] \<rparr>"

text \<open>
  The encoder \<open>enc0\<close> after a source of gain 2 at azimuth 60 degrees, elevation 0 and
  distance 4 has been set on channel 1, without rounding.
\<close>

definition enc2 :: AmbisonicEncoder where
  "enc2 = \<lparr> number_of_input_channels = 2, number_of_output_channels = 4,
            ambisonic_order = 1,
            sources = [1 \<mapsto> \<lparr> gain = 2, azimuth = 60, elevation = 0, distance = 4 \<rparr>],
            encoding_matrix = [[0, 1 / 2], [0, sqrt 3 / 4], [0, 0], [0, 1 / 4]] \<rparr>"

section \<open>Audio element types and configurations\<close>

text \<open>
  Modelled from the spec: \<^verbatim>\<open>audio_element_type.h\<close> and \<^verbatim>\<open>constants.h\<close> are not among
  the sources. The element types are the ones of section 2 (Ambisonics of order 1 to 7,
  loudspeaker layouts from mono to 9.1.6, mono objects), with the names and the
  classification that \<^verbatim>\<open>audio_element_type_test.cc\<close> pins down; the supported orders
  are 1 to 7 and the renderer has two output channels.
\<close>

datatype AudioElementType =
    k1OA | k2OA | k3OA | k4OA | k5OA | k6OA | k7OA
  | kLayoutMono | kLayoutStereo | kLayout3_1_2_ch | kLayout5_1_0_ch | kLayout5_1_2_ch
  | kLayout5_1_4_ch | kLayout7_1_0_ch | kLayout7_1_2_ch | kLayout7_1_4_ch
  | kLayout9_1_0_ch | kLayout9_1_2_ch | kLayout9_1_4_ch | kLayout9_1_6_ch
  | kObjectMono

fun GetAmbisonicOrder :: "AudioElementType \<Rightarrow> nat option" where
  "GetAmbisonicOrder k1OA = Some 1"
| "GetAmbisonicOrder k2OA = Some 2"
| "GetAmbisonicOrder k3OA = Some 3"
| "GetAmbisonicOrder k4OA = Some 4"
| "GetAmbisonicOrder k5OA = Some 5"
| "GetAmbisonicOrder k6OA = Some 6"
| "GetAmbisonicOrder k7OA = Some 7"
| "GetAmbisonicOrder _ = None"

definition IsAmbisonicsType :: "AudioElementType \<Rightarrow> bool" where
  "IsAmbisonicsType t = (t \<in> {k1OA, k2OA, k3OA, k4OA, k5OA, k6OA, k7OA})"

definition IsObjectType :: "AudioElementType \<Rightarrow> bool" where
  "IsObjectType t = (t = kObjectMono)"

definition IsLoudspeakerLayoutType :: "AudioElementType \<Rightarrow> bool" where
  "IsLoudspeakerLayoutType t = (\<not> IsAmbisonicsType t \<and> \<not> IsObjectType t)"

definition kMinSupportedAmbisonicOrder :: nat where
  "kMinSupportedAmbisonicOrder = 1"

definition kMaxSupportedAmbisonicOrder :: nat where
  "kMaxSupportedAmbisonicOrder = 7"

definition kNumBinauralChannels :: nat where
  "kNumBinauralChannels = 2"

subsection \<open>Input channels (input_channel_config.h) and loudspeaker layouts\<close>

record InputChannelConfigBase =
  channel_id :: string
  input_channel_index :: nat

type_synonym AmbisonicSceneInputChannel = InputChannelConfigBase

record LoudspeakerLayoutInputChannel = InputChannelConfigBase +
  ls_azimuth :: real
  ls_elevation :: real
  ls_distance :: real
  is_LFE :: bool

record AudioObjectInputChannel = InputChannelConfigBase +
  obj_gain :: real
  obj_azimuth :: real
  obj_elevation :: real
  obj_distance :: real

definition AmbisonicSceneInputChannel_new :: "string \<Rightarrow> AmbisonicSceneInputChannel" where
  "AmbisonicSceneInputChannel_new i = \<lparr> channel_id = i, input_channel_index = 0 \<rparr>"

definition LoudspeakerLayoutInputChannel_new ::
  "string \<Rightarrow> real \<Rightarrow> real \<Rightarrow> real \<Rightarrow> bool \<Rightarrow> LoudspeakerLayoutInputChannel" where
  "LoudspeakerLayoutInputChannel_new i az el d lfe =
     \<lparr> channel_id = i, input_channel_index = 0,
       ls_azimuth = az, ls_elevation = el, ls_distance = d, is_LFE = lfe \<rparr>"

definition AudioObjectInputChannel_new ::
  "string \<Rightarrow> real \<Rightarrow> real \<Rightarrow> real \<Rightarrow> AudioObjectInputChannel" where
  "AudioObjectInputChannel_new i az el d =
     \<lparr> channel_id = i, input_channel_index = 0,
       obj_gain = 1, obj_azimuth = az, obj_elevation = el, obj_distance = d \<rparr>"

datatype VirtualLoudspeaker =
    kC | kLFE | kL30 | kR30 | kL45 | kR45 | kL60 | kR60 | kL90 | kR90 | kL110 | kR110
  | kL135 | kR135 | kTL30 | kTR30 | kTL45 | kTR45 | kTL90 | kTR90 | kTL135 | kTR135
  | kTL150 | kTR150

fun loudspeaker_map :: "VirtualLoudspeaker \<Rightarrow> LoudspeakerLayoutInputChannel" where
  "loudspeaker_map kC = LoudspeakerLayoutInputChannel_new ''kC'' 0 0 1 False"
| "loudspeaker_map kLFE = LoudspeakerLayoutInputChannel_new ''kLFE'' 0 (- 30) 1 True"
| "loudspeaker_map kL30 = LoudspeakerLayoutInputChannel_new ''kL30'' 30 0 1 False"
| "loudspeaker_map kR30 = LoudspeakerLayoutInputChannel_new ''kR30'' (- 30) 0 1 False"
| "loudspeaker_map kL45 = LoudspeakerLayoutInputChannel_new ''kL45'' 45 0 1 False"
| "loudspeaker_map kR45 = LoudspeakerLayoutInputChannel_new ''kR45'' (- 45) 0 1 False"
| "loudspeaker_map kL60 = LoudspeakerLayoutInputChannel_new ''kL60'' 60 0 1 False"
| "loudspeaker_map kR60 = LoudspeakerLayoutInputChannel_new ''kR60'' (- 60) 0 1 False"
| "loudspeaker_map kL90 = LoudspeakerLayoutInputChannel_new ''kL90'' 90 0 1 False"
| "loudspeaker_map kR90 = LoudspeakerLayoutInputChannel_new ''kR90'' (- 90) 0 1 False"
| "loudspeaker_map kL110 = LoudspeakerLayoutInputChannel_new ''kL110'' 110 0 1 False"
| "loudspeaker_map kR110 = LoudspeakerLayoutInputChannel_new ''kR110'' (- 110) 0 1 False"
| "loudspeaker_map kL135 = LoudspeakerLayoutInputChannel_new ''kL135'' 135 0 1 False"
| "loudspeaker_map kR135 = LoudspeakerLayoutInputChannel_new ''kR135'' (- 135) 0 1 False"
| "loudspeaker_map kTL30 = LoudspeakerLayoutInputChannel_new ''kTL30'' 30 45 1 False"
| "loudspeaker_map kTR30 = LoudspeakerLayoutInputChannel_new ''kTR30'' (- 30) 45 1 False"
| "loudspeaker_map kTL45 = LoudspeakerLayoutInputChannel_new ''kTL45'' 45 45 1 False"
| "loudspeaker_map kTR45 = LoudspeakerLayoutInputChannel_new ''kTR45'' (- 45) 45 1 False"
| "loudspeaker_map kTL90 = LoudspeakerLayoutInputChannel_new ''kTL90'' 90 45 1 False"
| "loudspeaker_map kTR90 = LoudspeakerLayoutInputChannel_new ''kTR90'' (- 90) 45 1 False"
| "loudspeaker_map kTL135 = LoudspeakerLayoutInputChannel_new ''kTL135'' 135 45 1 False"
| "loudspeaker_map kTR135 = LoudspeakerLayoutInputChannel_new ''kTR135'' (- 135) 45 1 False"
| "loudspeaker_map kTL150 = LoudspeakerLayoutInputChannel_new ''kTL150'' 150 45 1 False"
| "loudspeaker_map kTR150 = LoudspeakerLayoutInputChannel_new ''kTR150'' (- 150) 45 1 False"

fun layout_map :: "AudioElementType \<Rightarrow> VirtualLoudspeaker list option" where
  "layout_map kLayoutMono = Some [kC]"
| "layout_map kLayoutStereo = Some [kL30, kR30]"
| "layout_map kLayout3_1_2_ch = Some [kL45, kR45, kC, kLFE, kTL30, kTR30]"
| "layout_map kLayout5_1_0_ch = Some [kL30, kR30, kC, kLFE, kL110, kR110]"
| "layout_map kLayout5_1_2_ch = Some [kL30, kR30, kC, kLFE, kL110, kR110, kTL90, kTR90]"
| "layout_map kLayout5_1_4_ch =
     Some [kL30, kR30, kC, kLFE, kL110, kR110, kTL45, kTR45, kTL135, kTR135]"
| "layout_map kLayout7_1_0_ch = Some [kL30, kR30, kC, kLFE, kL90, kR90, kL135, kR135]"
| "layout_map kLayout7_1_2_ch =
     Some [kL30, kR30, kC, kLFE, kL90, kR90, kL135, kR135, kTL90, kTR90]"
| "layout_map kLayout7_1_4_ch =
     Some [kL30, kR30, kC, kLFE, kL90, kR90, kL135, kR135, kTL45, kTR45, kTL135, kTR135]"
| "layout_map kLayout9_1_0_ch =
     Some [kL30, kR30, kC, kLFE, kL60, kR60, kL90, kR90, kL135, kR135]"
| "layout_map kLayout9_1_2_ch =
     Some [kL30, kR30, kC, kLFE, kL60, kR60, kL90, kR90, kL135, kR135, kTL90, kTR90]"
| "layout_map kLayout9_1_4_ch =
     Some [kL30, kR30, kC, kLFE, kL60, kR60, kL90, kR90, kL135, kR135, kTL45, kTR45,
           kTL135, kTR135]"
| "layout_map kLayout9_1_6_ch =
     Some [kL30, kR30, kC, kLFE, kL60, kR60, kL90, kR90, kL135, kR135, kTL30, kTR30,
           kTL90, kTR90, kTL150, kTR150]"
| "layout_map _ = None"

definition getLoudspeakerLayout :: "AudioElementType \<Rightarrow> LoudspeakerLayoutInputChannel list" where
  "getLoudspeakerLayout t =
     (case layout_map t of
        None \<Rightarrow> []
      | Some loudspeakers \<Rightarrow> map loudspeaker_map loudspeakers)"

subsection \<open>Audio element configuration (audio_element_config.cc)\<close>

record AudioElementConfig =
  ae_type :: AudioElementType
  first_channel_index :: nat
  ae_number_of_input_channels :: nat
  binaural_filters_ambisonic_order :: nat
  ambisonic_channels :: "AmbisonicSceneInputChannel list"
  loudspeaker_channels :: "LoudspeakerLayoutInputChannel list"
  object_channels :: "AudioObjectInputChannel list"

text \<open>\<^verbatim>\<open>std::to_string\<close> of a size.\<close>

fun to_string :: "nat \<Rightarrow> string" where
  "to_string n =
     (if n < 10 then [''0123456789'' ! n]
      else to_string (n div 10) @ [''0123456789'' ! (n mod 10)])"

definition set_channel_indices ::
  "nat \<Rightarrow> ('a InputChannelConfigBase_scheme) list \<Rightarrow> ('a InputChannelConfigBase_scheme) list"
  where
  "set_channel_indices first_channel chs =
     map (\<lambda>i. (chs ! i)\<lparr>input_channel_index := first_channel + i\<rparr>) [0..<length chs]"

definition SetFirstChannelIndex :: "AudioElementConfig \<Rightarrow> nat \<Rightarrow> AudioElementConfig" where
  "SetFirstChannelIndex cfg first_channel =
     cfg\<lparr>first_channel_index := first_channel,
         ambisonic_channels := set_channel_indices first_channel (ambisonic_channels cfg),
         loudspeaker_channels := set_channel_indices first_channel (loudspeaker_channels cfg),
         object_channels := set_channel_indices first_channel (object_channels cfg)\<rparr>"

text \<open>
  The constructor. Its \<^verbatim>\<open>CHECK\<close>s stop the program; an unsupported object type or an
  unknown type is only logged and leaves an element without channels.
\<close>

definition AudioElementConfig_new :: "AudioElementType \<Rightarrow> AudioElementConfig outcome" where
  "AudioElementConfig_new t =
     (let cfg0 = \<lparr> ae_type = t, first_channel_index = 0, ae_number_of_input_channels = 0,
                   binaural_filters_ambisonic_order = 0, ambisonic_channels = [],
                   loudspeaker_channels = [], object_channels = [] \<rparr>
      in if IsAmbisonicsType t then
           (case GetAmbisonicOrder t of
              None \<Rightarrow> Aborted
            | Some order \<Rightarrow>
                if \<not> order \<ge> kMinSupportedAmbisonicOrder then Aborted
                else if \<not> order \<le> kMaxSupportedAmbisonicOrder then Aborted
                else Returned (SetFirstChannelIndex
                  (cfg0\<lparr>binaural_filters_ambisonic_order := order,
                        ae_number_of_input_channels := (order + 1) * (order + 1),
                        ambisonic_channels :=
                          map (\<lambda>i. AmbisonicSceneInputChannel_new (''kACN'' @ to_string i))
                              [0..<(order + 1) * (order + 1)]\<rparr>) 0))
         else if IsLoudspeakerLayoutType t then
           Returned (SetFirstChannelIndex
             (cfg0\<lparr>loudspeaker_channels := getLoudspeakerLayout t,
                   binaural_filters_ambisonic_order := kMaxSupportedAmbisonicOrder,
                   ae_number_of_input_channels := length (getLoudspeakerLayout t)\<rparr>) 0)
         else if IsObjectType t then
           (let object_channels' =
                  (if t = kObjectMono then [AudioObjectInputChannel_new ''kMono'' 0 0 1]
                   else [])
            in Returned (SetFirstChannelIndex
                 (cfg0\<lparr>object_channels := object_channels',
                       binaural_filters_ambisonic_order := kMaxSupportedAmbisonicOrder,
                       ae_number_of_input_channels := length object_channels'\<rparr>) 0))
         else Returned (SetFirstChannelIndex cfg0 0))"

section \<open>Loading the SH-HRIRs (sh_hrir_creator.cc, wav.cc)\<close>

datatype Status =
    OkStatus
  | FailedPreconditionError string
  | ResourceExhaustedError string
  | InvalidArgumentError string

record Wav =
  wav_num_channels :: nat
  wav_sample_rate :: int
  interleaved_samples :: "int list"

text \<open>
  What the renderer uses and the sources do not contain is collected in an environment:
  the limit \<^verbatim>\<open>kMaxSupportedNumInputChannels\<close> of \<^verbatim>\<open>constants.h\<close>, the embedded assets
  behind \<^verbatim>\<open>BinauralFiltersWrapper::GetFile\<close> (a null pointer for a name without asset
  is \<open>None\<close>), the WAV parser behind \<^verbatim>\<open>Wav::CreateOrNull\<close>, \<^verbatim>\<open>IsValidAmbisonicOrder\<close>,
  \<^verbatim>\<open>FillAudioBuffer\<close>, the resampler, the rotator (state type \<open>'r\<close>) and the partitioned
  filters of the binaural decoder (state type \<open>'dc\<close>). The environment also holds the
  arithmetic of the encoder and of the limiter. The claims are proved for every
  environment.
\<close>

record ('r, 'dc) obr_env =
  float_ops :: encoder_arith
  limiter_ops :: "(sample, real) limiter_arith"
  kMaxSupportedNumInputChannels :: nat
  GetFile :: "string \<Rightarrow> string option"
  Wav_CreateOrNull :: "string \<Rightarrow> Wav option"
  IsValidAmbisonicOrder :: "nat \<Rightarrow> bool"
  FillAudioBuffer :: "int list \<Rightarrow> nat \<Rightarrow> sample AudioBuffer"
  AreSampleRatesSupported :: "int \<Rightarrow> int \<Rightarrow> bool"
  Resample :: "int \<Rightarrow> int \<Rightarrow> sample AudioBuffer \<Rightarrow> sample AudioBuffer"
  AmbisonicRotator_new :: "nat \<Rightarrow> 'r"
  AmbisonicRotator_Process ::
    "'r \<Rightarrow> real \<times> real \<times> real \<times> real \<Rightarrow> sample AudioBuffer \<Rightarrow> 'r \<times> sample AudioBuffer"
  PartitionedFilters_new :: "sample AudioBuffer \<Rightarrow> sample AudioBuffer \<Rightarrow> nat \<Rightarrow> 'dc"
  PartitionedFilters_Process ::
    "'dc \<Rightarrow> sample AudioBuffer \<Rightarrow> sample AudioBuffer \<Rightarrow> 'dc \<times> sample AudioBuffer"

text \<open>
  \<^verbatim>\<open>CreateShHrirsFromWav\<close> returns a buffer, not a status: the \<^verbatim>\<open>CHECK\<close>s and the
  \<^verbatim>\<open>LOG(FATAL)\<close> for an unsupported pair of sampling rates stop the program.
\<close>

definition CreateShHrirsFromWav ::
  "('r, 'dc) obr_env \<Rightarrow> Wav \<Rightarrow> int \<Rightarrow> sample AudioBuffer outcome" where
  "CreateShHrirsFromWav env wav target_sample_rate_hz =
     (let num_channels = wav_num_channels wav
      in if \<not> IsValidAmbisonicOrder env num_channels then Aborted
         else
           let sh_hrirs = FillAudioBuffer env (interleaved_samples wav) num_channels;
               wav_sample_rate_hz = wav_sample_rate wav
           in if \<not> wav_sample_rate_hz > 0 then Aborted
              else if \<not> target_sample_rate_hz > 0 then Aborted
              else if wav_sample_rate_hz \<noteq> target_sample_rate_hz then
                (if \<not> AreSampleRatesSupported env wav_sample_rate_hz target_sample_rate_hz
                 then Aborted
                 else Returned (Resample env wav_sample_rate_hz target_sample_rate_hz sh_hrirs))
              else Returned sh_hrirs)"

text \<open>
  \<^verbatim>\<open>CreateShHrirsFromAssets\<close>: a missing asset is logged and then \<^verbatim>\<open>ABSL_DIE_IF_NULL\<close>
  stops the program; a WAV that does not parse is a null pointer that is dereferenced.
\<close>

definition CreateShHrirsFromAssets ::
  "('r, 'dc) obr_env \<Rightarrow> string \<Rightarrow> int \<Rightarrow> sample AudioBuffer outcome" where
  "CreateShHrirsFromAssets env filename target_sample_rate_hz =
     (case GetFile env filename of
        None \<Rightarrow> Aborted
      | Some sh_hrir_data \<Rightarrow>
          (case Wav_CreateOrNull env sh_hrir_data of
             None \<Rightarrow> Aborted
           | Some wav \<Rightarrow> CreateShHrirsFromWav env wav target_sample_rate_hz))"

section \<open>Binaural decoder (ambisonic_binaural_decoder.cc)\<close>

definition AmbisonicBinauralDecoder_new ::
  "('r, 'dc) obr_env \<Rightarrow> sample AudioBuffer \<Rightarrow> sample AudioBuffer \<Rightarrow> nat \<Rightarrow> 'dc outcome" where
  "AmbisonicBinauralDecoder_new env sh_hrirs_L sh_hrirs_R frames_per_buffer =
     (if frames_per_buffer = 0 then Aborted
      else if num_channels sh_hrirs_L = 0 then Aborted
      else if num_frames sh_hrirs_L = 0 then Aborted
      else if num_channels sh_hrirs_R \<noteq> num_channels sh_hrirs_L then Aborted
      else Returned (PartitionedFilters_new env sh_hrirs_L sh_hrirs_R frames_per_buffer))"

section \<open>The renderer (obr_impl.cc)\<close>

definition AudioBuffer_new :: "nat \<Rightarrow> nat \<Rightarrow> sample AudioBuffer" where
  "AudioBuffer_new n_channels n_frames =
     \<lparr> num_frames = n_frames, channel_views = replicate n_channels (replicate n_frames 0) \<rparr>"

definition AudioBuffer_Clear :: "sample AudioBuffer \<Rightarrow> sample AudioBuffer" where
  "AudioBuffer_Clear b = b\<lparr>channel_views := map (\<lambda>ch. replicate (length ch) 0) (channel_views b)\<rparr>"

text \<open>\<^verbatim>\<open>ChannelView::operator+=\<close>: pointwise addition over the size of the left operand.\<close>

definition ChannelView_add :: "sample list \<Rightarrow> sample list \<Rightarrow> sample list" where
  "ChannelView_add this other = map (\<lambda>i. this ! i + other ! i) [0..<length this]"

record ('r, 'dc) ObrImpl =
  buffer_size_per_channel :: nat
  sampling_rate :: int
  head_tracking_enabled :: bool
  world_rotation :: "real \<times> real \<times> real \<times> real"
  audio_elements :: "AudioElementConfig list"
  ambisonic_encoder :: "AmbisonicEncoder option"
  ambisonic_encoder_input_buffer :: "sample AudioBuffer"
  ambisonic_rotator :: "'r option"
  sh_hrirs_L :: "sample AudioBuffer option"
  sh_hrirs_R :: "sample AudioBuffer option"
  ambisonic_binaural_decoder :: "'dc option"
  peak_limiter :: "real PeakLimiter option"
  ambisonic_mix_bed :: "sample AudioBuffer"

text \<open>
  The constructor. A \<^verbatim>\<open>WorldRotation\<close> is a quaternion, kept as its four components
  \<open>(w, x, y, z)\<close>; the class is not among the sources and is taken to store what it is
  given, the default being the identity.
\<close>

definition ObrImpl_new :: "int \<Rightarrow> int \<Rightarrow> ('r, 'dc) ObrImpl outcome" where
  "ObrImpl_new buffer_size rate =
     (if \<not> buffer_size > 0 then Aborted
      else if \<not> rate > 0 then Aborted
      else Returned
        \<lparr> buffer_size_per_channel = nat buffer_size,
          sampling_rate = rate,
          head_tracking_enabled = False,
          world_rotation = (1, 0, 0, 0),
          audio_elements = [],
          ambisonic_encoder = None,
          ambisonic_encoder_input_buffer = AudioBuffer_new 0 0,
          ambisonic_rotator = None,
          sh_hrirs_L = None,
          sh_hrirs_R = None,
          ambisonic_binaural_decoder = None,
          peak_limiter = None,
          ambisonic_mix_bed = AudioBuffer_new 0 0 \<rparr>)"

definition GetNumberOfInputChannels :: "('r, 'dc) ObrImpl \<Rightarrow> nat" where
  "GetNumberOfInputChannels s = sum_list (map ae_number_of_input_channels (audio_elements s))"

definition GetNumberOfOutputChannels :: nat where
  "GetNumberOfOutputChannels = kNumBinauralChannels"

definition GetAmbisonicEncoderSourceChannelIndices :: "('r, 'dc) ObrImpl \<Rightarrow> nat list" where
  "GetAmbisonicEncoderSourceChannelIndices s =
     concat (map (\<lambda>audio_element.
                    if IsLoudspeakerLayoutType (ae_type audio_element)
                       \<or> IsObjectType (ae_type audio_element)
                    then map (\<lambda>i. first_channel_index audio_element + i)
                             [0..<ae_number_of_input_channels audio_element]
                    else [])
                 (audio_elements s))"

definition ResetDsp :: "('r, 'dc) ObrImpl \<Rightarrow> Status \<times> ('r, 'dc) ObrImpl" where
  "ResetDsp s =
     (OkStatus,
      s\<lparr>ambisonic_binaural_decoder := None,
        sh_hrirs_L := None,
        sh_hrirs_R := None,
        ambisonic_encoder := None,
        peak_limiter := None,
        ambisonic_rotator := None,
        ambisonic_mix_bed := AudioBuffer_Clear (ambisonic_mix_bed s)\<rparr>)"

text \<open>
  \<^verbatim>\<open>UpdateAmbisonicEncoder\<close>: the loudspeaker channels and then the object channels of
  every element, in order, are set as sources on consecutive encoder inputs.
\<close>

definition encoder_sources :: "AudioElementConfig list \<Rightarrow> (real \<times> real \<times> real) list" where
  "encoder_sources elements =
     concat (map (\<lambda>audio_element.
                    map (\<lambda>source. (ls_azimuth source, ls_elevation source, ls_distance source))
                        (loudspeaker_channels audio_element)
                    @ map (\<lambda>source. (obj_azimuth source, obj_elevation source, obj_distance source))
                        (object_channels audio_element))
                 elements)"

fun set_sources ::
  "encoder_arith \<Rightarrow> AmbisonicEncoder \<Rightarrow> nat \<Rightarrow> (real \<times> real \<times> real) list
     \<Rightarrow> AmbisonicEncoder outcome" where
  "set_sources F enc index [] = Returned enc"
| "set_sources F enc index ((az, el, d) # rest) =
     (case SetSource F enc index 1 az el d of
        Aborted \<Rightarrow> Aborted
      | Returned enc' \<Rightarrow> set_sources F enc' (index + 1) rest)"

definition UpdateAmbisonicEncoder ::
  "('r, 'dc) obr_env \<Rightarrow> ('r, 'dc) ObrImpl \<Rightarrow> (Status \<times> ('r, 'dc) ObrImpl) outcome" where
  "UpdateAmbisonicEncoder env s =
     (case ambisonic_encoder s of
        Some enc \<Rightarrow>
          (case set_sources (float_ops env) enc 0 (encoder_sources (audio_elements s)) of
             Aborted \<Rightarrow> Aborted
           | Returned enc' \<Rightarrow> Returned (OkStatus, s\<lparr>ambisonic_encoder := Some enc'\<rparr>))
      | None \<Rightarrow> Returned (FailedPreconditionError ''Ambisonic encoder not initialized.'', s))"

text \<open>
  \<^verbatim>\<open>InitializeDsp\<close>, in three parts: the checks and the reset, the encoder, and the
  rotator, filters, decoder and limiter. A status that is not OK is returned at once
  (\<^verbatim>\<open>RETURN_IF_NOT_OK\<close>), together with the state as it is at that point.
\<close>

definition InitializeEncoder ::
  "('r, 'dc) obr_env \<Rightarrow> ('r, 'dc) ObrImpl \<Rightarrow> nat \<Rightarrow> (Status \<times> ('r, 'dc) ObrImpl) outcome"
  where
  "InitializeEncoder env s order =
     (let indices = GetAmbisonicEncoderSourceChannelIndices s
      in if indices \<noteq> [] then
           (case AmbisonicEncoder_new (length indices) order of
              Aborted \<Rightarrow> Aborted
            | Returned enc \<Rightarrow>
                UpdateAmbisonicEncoder env
                  (s\<lparr>ambisonic_encoder_input_buffer :=
                        AudioBuffer_new (length indices) (buffer_size_per_channel s),
                      ambisonic_encoder := Some enc\<rparr>))
         else Returned (OkStatus, s))"

definition InitializeDecoder ::
  "('r, 'dc) obr_env \<Rightarrow> ('r, 'dc) ObrImpl \<Rightarrow> nat \<Rightarrow> (Status \<times> ('r, 'dc) ObrImpl) outcome"
  where
  "InitializeDecoder env s order =
     (let order_string = to_string order
      in case CreateShHrirsFromAssets env (order_string @ ''OA_L'') (sampling_rate s) of
           Aborted \<Rightarrow> Aborted
         | Returned hrirs_L \<Rightarrow>
             (case CreateShHrirsFromAssets env (order_string @ ''OA_R'') (sampling_rate s) of
                Aborted \<Rightarrow> Aborted
              | Returned hrirs_R \<Rightarrow>
                  if num_channels hrirs_L \<noteq> num_channels hrirs_R then Aborted
                  else if num_frames hrirs_L \<noteq> num_frames hrirs_R then Aborted
                  else
                    (case AmbisonicBinauralDecoder_new env hrirs_L hrirs_R
                            (buffer_size_per_channel s) of
                       Aborted \<Rightarrow> Aborted
                     | Returned decoder \<Rightarrow>
                         Returned (OkStatus,
                           s\<lparr>ambisonic_rotator := Some (AmbisonicRotator_new env order),
                             sh_hrirs_L := Some hrirs_L,
                             sh_hrirs_R := Some hrirs_R,
                             ambisonic_binaural_decoder := Some decoder,
                             peak_limiter :=
                               Some (PeakLimiter_new (limiter_ops env) (sampling_rate s) 50 (- 1 / 2))\<rparr>))))"

definition InitializeDsp ::
  "('r, 'dc) obr_env \<Rightarrow> ('r, 'dc) ObrImpl \<Rightarrow> (Status \<times> ('r, 'dc) ObrImpl) outcome" where
  "InitializeDsp env s =
     (if audio_elements s = [] then
        Returned (FailedPreconditionError
                    ''No audio elements configured. Can't initialize DSP.'', s)
      else
        let order = binaural_filters_ambisonic_order (audio_elements s ! 0)
        in if order = 0 then Aborted
           else if \<not> order \<ge> kMinSupportedAmbisonicOrder then Aborted
           else if \<not> order \<le> kMaxSupportedAmbisonicOrder then Aborted
           else if GetNumberOfInputChannels s = 0 then
             Returned (FailedPreconditionError
                         ''No input channels configured. Can't initialize DSP.'', s)
           else
             let s1 = snd (ResetDsp s);
                 s2 = s1\<lparr>ambisonic_mix_bed :=
                          AudioBuffer_new ((order + 1) * (order + 1)) (buffer_size_per_channel s1)\<rparr>
             in case InitializeEncoder env s2 order of
                  Aborted \<Rightarrow> Aborted
                | Returned (status, s3) \<Rightarrow>
                    if status \<noteq> OkStatus then Returned (status, s3)
                    else InitializeDecoder env s3 order)"

definition AddAudioElement ::
  "('r, 'dc) obr_env \<Rightarrow> ('r, 'dc) ObrImpl \<Rightarrow> AudioElementType
     \<Rightarrow> (Status \<times> ('r, 'dc) ObrImpl) outcome" where
  "AddAudioElement env s t =
     (if audio_elements s \<noteq> [] \<and> ae_type (last (audio_elements s)) \<noteq> t then
        Returned (FailedPreconditionError ''Only same-typed audio elements are supported.'', s)
      else
        case AudioElementConfig_new t of
          Aborted \<Rightarrow> Aborted
        | Returned cfg0 \<Rightarrow>
            let audio_element_config =
                  (if audio_elements s \<noteq> [] then
                     SetFirstChannelIndex cfg0
                       (first_channel_index (last (audio_elements s))
                          + ae_number_of_input_channels (last (audio_elements s)))
                   else cfg0)
            in if GetNumberOfInputChannels s
                    + ae_number_of_input_channels audio_element_config
                  > kMaxSupportedNumInputChannels env then
                 Returned (ResourceExhaustedError
                             ''More input channels requested than supported.'', s)
               else
                 InitializeDsp env (s\<lparr>audio_elements := audio_elements s @ [audio_element_config]\<rparr>))"

definition RemoveLastAudioElement ::
  "('r, 'dc) obr_env \<Rightarrow> ('r, 'dc) ObrImpl \<Rightarrow> (Status \<times> ('r, 'dc) ObrImpl) outcome" where
  "RemoveLastAudioElement env s =
     (if audio_elements s = [] then
        Returned (FailedPreconditionError ''No audio elements to remove.'', s)
      else
        let s1 = s\<lparr>audio_elements := butlast (audio_elements s)\<rparr>
        in if audio_elements s1 = [] then Returned (OkStatus, s1)
           else
             (case InitializeDsp env s1 of
                Aborted \<Rightarrow> Aborted
              | Returned (status, s2) \<Rightarrow>
                  if status \<noteq> OkStatus then Returned (status, s2)
                  else UpdateAmbisonicEncoder env s2))"

definition EnableHeadTracking :: "('r, 'dc) ObrImpl \<Rightarrow> bool \<Rightarrow> ('r, 'dc) ObrImpl" where
  "EnableHeadTracking s enable_head_tracking = s\<lparr>head_tracking_enabled := enable_head_tracking\<rparr>"

definition SetHeadRotation ::
  "('r, 'dc) ObrImpl \<Rightarrow> real \<Rightarrow> real \<Rightarrow> real \<Rightarrow> real \<Rightarrow> Status \<times> ('r, 'dc) ObrImpl" where
  "SetHeadRotation s w x y z = (OkStatus, s\<lparr>world_rotation := (w, x, y, z)\<rparr>)"

subsection \<open>Processing a block\<close>

text \<open>
  The encode stage of \<^verbatim>\<open>Process\<close>: the channels of loudspeaker and object elements go
  through the encoder into the mix bed (or the mix bed is cleared when there are none),
  and the channels of Ambisonic elements are added to the mix bed. An absent encoder
  (a null pointer) and a channel outside the mix bed end the program.
\<close>

definition copy_encoder_input ::
  "sample AudioBuffer \<Rightarrow> nat list \<Rightarrow> sample AudioBuffer \<Rightarrow> sample AudioBuffer" where
  "copy_encoder_input encoder_input indices input_buffer =
     encoder_input\<lparr>channel_views :=
       foldl (\<lambda>chs i. chs[i := channel_views input_buffer ! (indices ! i)])
             (channel_views encoder_input) [0..<length indices]\<rparr>"

definition add_ambisonic_channel ::
  "sample AudioBuffer \<Rightarrow> AudioElementConfig \<Rightarrow> sample AudioBuffer outcome
     \<Rightarrow> nat \<Rightarrow> sample AudioBuffer outcome" where
  "add_ambisonic_channel input_buffer audio_element acc channel =
     (case acc of
        Aborted \<Rightarrow> Aborted
      | Returned bed \<Rightarrow>
          if \<not> channel < num_channels bed then Aborted
          else if \<not> first_channel_index audio_element + channel < num_channels input_buffer
          then Aborted
          else Returned (bed\<lparr>channel_views := (channel_views bed)
                 [channel := ChannelView_add (channel_views bed ! channel)
                    (channel_views input_buffer
                       ! (first_channel_index audio_element + channel))]\<rparr>))"

definition add_ambisonic_element ::
  "sample AudioBuffer \<Rightarrow> sample AudioBuffer outcome \<Rightarrow> AudioElementConfig
     \<Rightarrow> sample AudioBuffer outcome" where
  "add_ambisonic_element input_buffer acc audio_element =
     (if IsAmbisonicsType (ae_type audio_element)
      then foldl (add_ambisonic_channel input_buffer audio_element) acc
             [0..<ae_number_of_input_channels audio_element]
      else acc)"

definition Process_encode_stage ::
  "('r, 'dc) ObrImpl \<Rightarrow> sample AudioBuffer \<Rightarrow> ('r, 'dc) ObrImpl outcome" where
  "Process_encode_stage s input_buffer =
     (let indices = GetAmbisonicEncoderSourceChannelIndices s;
          encoded =
            (if indices \<noteq> [] then
               (let encoder_input =
                      copy_encoder_input (ambisonic_encoder_input_buffer s) indices input_buffer
                in case ambisonic_encoder s of
                     None \<Rightarrow> Aborted
                   | Some enc \<Rightarrow>
                       (case ProcessPlanarAudioData enc encoder_input (ambisonic_mix_bed s) of
                          Aborted \<Rightarrow> Aborted
                        | Returned bed \<Rightarrow>
                            Returned (s\<lparr>ambisonic_encoder_input_buffer := encoder_input,
                                       ambisonic_mix_bed := bed\<rparr>)))
             else Returned (s\<lparr>ambisonic_mix_bed := AudioBuffer_Clear (ambisonic_mix_bed s)\<rparr>))
      in case encoded of
           Aborted \<Rightarrow> Aborted
         | Returned s1 \<Rightarrow>
             (case foldl (add_ambisonic_element input_buffer)
                     (Returned (ambisonic_mix_bed s1)) (audio_elements s1) of
                Aborted \<Rightarrow> Aborted
              | Returned bed \<Rightarrow> Returned (s1\<lparr>ambisonic_mix_bed := bed\<rparr>)))"

text \<open>The rotate stage: with head tracking on, the rotator gets the stored rotation.\<close>

definition Process_rotate_stage ::
  "('r, 'dc) obr_env \<Rightarrow> ('r, 'dc) ObrImpl \<Rightarrow> ('r, 'dc) ObrImpl outcome" where
  "Process_rotate_stage env s =
     (if head_tracking_enabled s then
        (case ambisonic_rotator s of
           None \<Rightarrow> Aborted
         | Some rotator \<Rightarrow>
             (let (rotator', bed) =
                    AmbisonicRotator_Process env rotator (world_rotation s) (ambisonic_mix_bed s)
              in Returned (s\<lparr>ambisonic_rotator := Some rotator', ambisonic_mix_bed := bed\<rparr>)))
      else Returned s)"

text \<open>The decoder and the limiter, the latter in place on the output.\<close>

definition Process_decode_stage ::
  "('r, 'dc) obr_env \<Rightarrow> ('r, 'dc) ObrImpl \<Rightarrow> sample AudioBuffer
     \<Rightarrow> (('r, 'dc) ObrImpl \<times> sample AudioBuffer) outcome" where
  "Process_decode_stage env s output_buffer =
     (case ambisonic_binaural_decoder s of
        None \<Rightarrow> Aborted
      | Some decoder \<Rightarrow>
          if num_frames (ambisonic_mix_bed s) \<noteq> num_frames output_buffer then Aborted
          else if num_channels output_buffer \<noteq> kNumBinauralChannels then Aborted
          else
            (let (decoder', decoded) =
                   PartitionedFilters_Process env decoder (ambisonic_mix_bed s) output_buffer
             in case peak_limiter s of
                  None \<Rightarrow> Aborted
                | Some limiter \<Rightarrow>
                    (case PeakLimiter_Process (limiter_ops env) limiter decoded decoded of
                       Aborted \<Rightarrow> Aborted
                     | Returned (limiter', limited) \<Rightarrow>
                         Returned (s\<lparr>ambisonic_binaural_decoder := Some decoder',
                                     peak_limiter := Some limiter'\<rparr>, limited))))"

definition Process ::
  "('r, 'dc) obr_env \<Rightarrow> ('r, 'dc) ObrImpl \<Rightarrow> sample AudioBuffer \<Rightarrow> sample AudioBuffer
     \<Rightarrow> (('r, 'dc) ObrImpl \<times> sample AudioBuffer) outcome" where
  "Process env s input_buffer output_buffer =
     (if num_channels input_buffer \<noteq> GetNumberOfInputChannels s then Aborted
      else if num_frames input_buffer \<noteq> buffer_size_per_channel s then Aborted
      else if num_channels output_buffer \<noteq> GetNumberOfOutputChannels then Aborted
      else if num_frames output_buffer \<noteq> buffer_size_per_channel s then Aborted
      else
        case Process_encode_stage s input_buffer of
          Aborted \<Rightarrow> Aborted
        | Returned s1 \<Rightarrow>
            (case Process_rotate_stage env s1 of
               Aborted \<Rightarrow> Aborted
             | Returned s2 \<Rightarrow> Process_decode_stage env s2 output_buffer))"

subsection \<open>A concrete environment and concrete renderers\<close>

text \<open>
  An environment for concrete runs: arithmetic without rounding, at most 128 input
  channels, embedded assets for the first order only, each a 48 kHz WAV of four channels and two silent frames, the
  sampling rate pairs of section 4.7, and a rotator and partitioned filters without
  state that leave the audio as it is.
\<close>

definition wav_1OA :: Wav where
  "wav_1OA = \<lparr> wav_num_channels = 4, wav_sample_rate = 48000,
                interleaved_samples = [0, 0, 0, 0, 0, 0, 0, 0] \<rparr>"

definition env1 :: "(unit, unit) obr_env" where
  "env1 = \<lparr> float_ops = exact_arith, limiter_ops = real_arith,
            kMaxSupportedNumInputChannels = 128,
            GetFile = (\<lambda>name. if name = ''1OA_L'' \<or> name = ''1OA_R'' then Some name else None),
            Wav_CreateOrNull = (\<lambda>data. Some wav_1OA),
            IsValidAmbisonicOrder = (\<lambda>n. n = 1 \<or> n = 4 \<or> n = 9 \<or> n = 16 \<or> n = 25
                                        \<or> n = 36 \<or> n = 49 \<or> n = 64),
            FillAudioBuffer = (\<lambda>samples n. AudioBuffer_new n (length samples div n)),
            AreSampleRatesSupported = (\<lambda>src dst. (src = 44100 \<and> dst = 48000)
                                        \<or> (src = 48000 \<and> dst = 44100)
                                        \<or> (src = 48000 \<and> dst = 48000)),
            Resample = (\<lambda>src dst b. b),
            AmbisonicRotator_new = (\<lambda>order. ()),
            AmbisonicRotator_Process = (\<lambda>rotator q bed. (rotator, bed)),
            PartitionedFilters_new = (\<lambda>l r n. ()),
            PartitionedFilters_Process = (\<lambda>decoder bed out. (decoder, out)) \<rparr>"

text \<open>
  The same environment with room for four input channels only, and the same environment
  without the asset of the right filters.
\<close>

definition env1_max4 :: "(unit, unit) obr_env" where
  "env1_max4 = env1\<lparr>kMaxSupportedNumInputChannels := 4\<rparr>"

definition env1_left_only :: "(unit, unit) obr_env" where
  "env1_left_only = env1\<lparr>GetFile := (\<lambda>name. if name = ''1OA_L'' then Some name else None)\<rparr>"

text \<open>
  A renderer for blocks of one frame at 48 kHz: as constructed, with one first-order
  Ambisonic element, and with two of them.
\<close>

definition obr_empty :: "(unit, unit) ObrImpl" where
  "obr_empty =
     \<lparr> buffer_size_per_channel = 1, sampling_rate = 48000, head_tracking_enabled = False,
       world_rotation = (1, 0, 0, 0), audio_elements = [],
       ambisonic_encoder = None, ambisonic_encoder_input_buffer = AudioBuffer_new 0 0,
       ambisonic_rotator = None, sh_hrirs_L = None, sh_hrirs_R = None,
       ambisonic_binaural_decoder = None, peak_limiter = None,
       ambisonic_mix_bed = AudioBuffer_new 0 0 \<rparr>"

definition element_1OA :: "nat \<Rightarrow> AudioElementConfig" where
  "element_1OA first =
     \<lparr> ae_type = k1OA, first_channel_index = first, ae_number_of_input_channels = 4,
       binaural_filters_ambisonic_order = 1,
       ambisonic_channels =
         [\<lparr> channel_id = ''kACN0'', input_channel_index = first \<rparr>,
          \<lparr> channel_id = ''kACN1'', input_channel_index = first + 1 \<rparr>,
          \<lparr> channel_id = ''kACN2'', input_channel_index = first + 2 \<rparr>,
          \<lparr> channel_id = ''kACN3'', input_channel_index = first + 3 \<rparr>],
       loudspeaker_channels = [], object_channels = [] \<rparr>"

definition obr_configured :: "AudioElementConfig list \<Rightarrow> (unit, unit) ObrImpl" where
  "obr_configured elements =
     obr_empty
       \<lparr> audio_elements := elements,
         ambisonic_rotator := Some (),
         sh_hrirs_L := Some (AudioBuffer_new 4 2),
         sh_hrirs_R := Some (AudioBuffer_new 4 2),
         ambisonic_binaural_decoder := Some (),
         peak_limiter := Some (PeakLimiter_new real_arith 48000 50 (- 1 / 2)),
         ambisonic_mix_bed := AudioBuffer_new 4 1 \<rparr>"

definition obr_1OA :: "(unit, unit) ObrImpl" where
  "obr_1OA = obr_configured [element_1OA 0]"


text \<open>The same renderer as constructed for a sampling rate of 12345 Hz.\<close>

definition obr_empty_12345 :: "(unit, unit) ObrImpl" where
  "obr_empty_12345 = obr_empty\<lparr>sampling_rate := 12345\<rparr>"

text \<open>The number of input channels of an element of a given type.\<close>

definition type_channel_count :: "AudioElementType \<Rightarrow> nat" where
  "type_channel_count t =
     (case AudioElementConfig_new t of
        Aborted \<Rightarrow> 0
      | Returned cfg \<Rightarrow> ae_number_of_input_channels cfg)"

text \<open>Input blocks of one frame, with four and with eight channels.\<close>

definition in4 :: "sample AudioBuffer" where
  "in4 = \<lparr> num_frames = 1, channel_views = [[1], [2], [3], [4]] \<rparr>"


text \<open>The renderer with one first-order Ambisonic element and head tracking on.\<close>

definition obr_1OA_tracking :: "(unit, unit) ObrImpl" where
  "obr_1OA_tracking = obr_1OA\<lparr>head_tracking_enabled := True\<rparr>"

subsection \<open>The Ambisonic part of the input, as a sum\<close>

text \<open>
  Sample \<open>f\<close> of channel \<open>c\<close> of the Ambisonic input: the samples of input channel
  \<open>first_channel_index e + c\<close> of the elements \<open>e\<close>, added up from zero in the
  order of the elements.
\<close>

definition ambisonic_input_sum ::
  "AudioElementConfig list \<Rightarrow> sample AudioBuffer \<Rightarrow> nat \<Rightarrow> nat \<Rightarrow> sample" where
  "ambisonic_input_sum elements input_buffer c f =
     foldl (\<lambda>acc e. acc + channel_views input_buffer ! (first_channel_index e + c) ! f)
           0 elements"

text \<open>
  A renderer that holds Ambisonic elements only, each with as many channels as the mix
  bed and with its channels inside the input block, and buffers whose channels have the
  length they declare.
\<close>

definition ambisonic_only :: "('r, 'dc) ObrImpl \<Rightarrow> sample AudioBuffer \<Rightarrow> bool" where
  "ambisonic_only s input_buffer =
     (list_all (\<lambda>e. IsAmbisonicsType (ae_type e)
                    \<and> ae_number_of_input_channels e = num_channels (ambisonic_mix_bed s)
                    \<and> first_channel_index e + ae_number_of_input_channels e
                          \<le> num_channels input_buffer) (audio_elements s)
      \<and> wf_buffer (ambisonic_mix_bed s) \<and> wf_buffer input_buffer
      \<and> num_frames input_buffer = num_frames (ambisonic_mix_bed s))"

section \<open>Properties\<close>

subsection \<open>Peak limiter\<close>

lemma foldl_max_samples_channel:
  "length acc = n \<Longrightarrow>
   foldl (max_samples_channel A n) acc chs =
   map (\<lambda>i. foldl (\<lambda>m ch. f_max A m (f_abs A (ch ! i))) (acc ! i) chs) [0..<n]"
proof (induction chs arbitrary: acc)
  case Nil
  then show ?case using map_nth [of acc] by simp
next
  case (Cons ch chs)
  have len: "length (max_samples_channel A n acc ch) = n"
    by (simp add: max_samples_channel_def)
  show ?case
    by (simp add: Cons.IH [OF len]) (simp add: max_samples_channel_def)
qed

lemma max_samples_of_peak_at:
  "max_samples_of A b = map (peak_at A (channel_views b)) [0..<num_frames b]"
  by (simp add: max_samples_of_def foldl_max_samples_channel peak_at_def)

lemma length_max_samples_of [simp]: "length (max_samples_of A b) = num_frames b"
  by (simp add: max_samples_of_peak_at)

lemma peak_at_slice:
  assumes "list_all (\<lambda>ch. length ch = n) chs" and "s + i < n" and "i < l"
  shows "foldl (\<lambda>m ch. f_max A m (f_abs A (ch ! i))) a (map (\<lambda>ch. take l (drop s ch)) chs)
       = foldl (\<lambda>m ch. f_max A m (f_abs A (ch ! (s + i)))) a chs"
  using assms by (induction chs arbitrary: a) simp_all

lemma max_samples_of_slice:
  assumes "wf_buffer b" and "s + l \<le> num_frames b"
  shows "max_samples_of A (slice_frames s l b) = take l (drop s (max_samples_of A b))"
proof (rule nth_equalityI)
  show "length (max_samples_of A (slice_frames s l b)) = length (take l (drop s (max_samples_of A b)))"
    using assms by (simp add: slice_frames_def)
next
  fix i assume "i < length (max_samples_of A (slice_frames s l b))"
  then have i: "i < l" by (simp add: slice_frames_def)
  with assms have "s + i < num_frames b" by simp
  then show "max_samples_of A (slice_frames s l b) ! i = take l (drop s (max_samples_of A b)) ! i"
    using i assms peak_at_slice [of "num_frames b" "channel_views b" s i l A "f_zero A"]
    by (simp add: max_samples_of_peak_at slice_frames_def peak_at_def wf_buffer_def)
qed

lemma limiter_env_loop_append:
  "limiter_env_loop A pl e (ms1 @ ms2) =
   (let (e1, o1) = limiter_env_loop A pl e ms1;
        (e2, o2) = limiter_env_loop A pl e1 ms2
    in (e2, o1 @ o2))"
  by (induction ms1 arbitrary: e) (simp_all add: Let_def split: prod.splits)

lemma length_limiter_env_loop [simp]:
  "length (snd (limiter_env_loop A pl e ms)) = length ms"
  by (induction ms arbitrary: e) (simp_all add: Let_def split_beta)

lemma env_step_env_update [simp]: "env_step A (pl\<lparr>pl_env := e\<rparr>) = env_step A pl"
  by (intro ext) (simp add: env_step_def GetMaximumRequiredGain_def Let_def)

lemma limiter_env_loop_env_update [simp]:
  "limiter_env_loop A (pl\<lparr>pl_env := e'\<rparr>) e ms = limiter_env_loop A pl e ms"
  by (induction ms arbitrary: e) simp_all

lemma apply_limiter_env_slice:
  assumes "wf_buffer b" and "length env = num_frames b" and "s + l \<le> num_frames b"
  shows "apply_limiter_env A (slice_frames s l b) (take l (drop s env))
       = slice_frames s l (apply_limiter_env A b env)"
proof -
  have "map (\<lambda>frame. f_mul A (take l (drop s ch) ! frame) (take l (drop s env) ! frame)) [0..<l]
      = take l (drop s (map (\<lambda>frame. f_mul A (ch ! frame) (env ! frame)) [0..<num_frames b]))"
    if "length ch = num_frames b" for ch
    using that assms by (intro nth_equalityI) (simp_all add: )
  then show ?thesis
    using assms(1)
    by (simp add: apply_limiter_env_def slice_frames_def wf_buffer_def list_all_iff)
qed

lemma wf_slice_frames: "wf_buffer b \<Longrightarrow> s + l \<le> num_frames b \<Longrightarrow> wf_buffer (slice_frames s l b)"
  by (simp add: wf_buffer_def slice_frames_def list_all_iff)

lemma PeakLimiter_Process_in_place:
  "PeakLimiter_Process A pl b b =
     Returned (pl\<lparr>pl_env := fst (limiter_env_loop A pl (pl_env pl) (max_samples_of A b))\<rparr>,
               apply_limiter_env A b (snd (limiter_env_loop A pl (pl_env pl) (max_samples_of A b))))"
  by (simp add: PeakLimiter_Process_def split_beta)

lemma process_blocks_split:
  assumes "wf_buffer x" and "sum_list sizes = num_frames x" and "length env = num_frames x"
    and "limiter_env_loop A pl e (max_samples_of A x) = (e', env)"
  shows "process_blocks A (pl\<lparr>pl_env := e\<rparr>) (split_blocks sizes x)
       = Returned (pl\<lparr>pl_env := e'\<rparr>, split_blocks sizes (apply_limiter_env A x env))"
  using assms
proof (induction sizes arbitrary: x e env)
  case Nil
  then have "max_samples_of A x = []" by (metis length_0_conv length_max_samples_of sum_list.Nil)
  with Nil show ?case by simp
next
  case (Cons n ns)
  let ?M = "max_samples_of A x"
  let ?N = "num_frames x"
  from Cons.prems have n: "n \<le> ?N" by simp
  obtain e1 o1 where l1: "limiter_env_loop A pl e (take n ?M) = (e1, o1)" by force
  obtain e2 o2 where l2: "limiter_env_loop A pl e1 (drop n ?M) = (e2, o2)" by force
  have "limiter_env_loop A pl e ?M = (e2, o1 @ o2)"
    using limiter_env_loop_append [of A pl e "take n ?M" "drop n ?M"] l1 l2 by simp
  with Cons.prems(4) have e': "e' = e2" and env: "env = o1 @ o2" by simp_all
  have lo1: "length o1 = n" using length_limiter_env_loop [of A pl e "take n ?M"] l1 n by simp
  have lo2: "length o2 = ?N - n" using length_limiter_env_loop [of A pl e1 "drop n ?M"] l2 by simp
  have M1: "max_samples_of A (slice_frames 0 n x) = take n ?M"
    using max_samples_of_slice [of x 0 n A] Cons.prems(1) n by simp
  have M2: "max_samples_of A (slice_frames n (?N - n) x) = drop n ?M"
    using max_samples_of_slice [of x n "?N - n" A] Cons.prems(1) n by simp
  have o1: "take n (drop 0 env) = o1" using env lo1 by simp
  have o2: "take (?N - n) (drop n env) = o2" using env lo1 lo2 by simp
  have out1: "apply_limiter_env A (slice_frames 0 n x) o1 = slice_frames 0 n (apply_limiter_env A x env)"
    using apply_limiter_env_slice [of x env 0 n A] Cons.prems(1,3) n o1 by simp
  have out2: "apply_limiter_env A (slice_frames n (?N - n) x) o2
            = slice_frames n (?N - n) (apply_limiter_env A x env)"
    using apply_limiter_env_slice [of x env n "?N - n" A] Cons.prems(1,3) n o2 by simp
  have nf: "num_frames (apply_limiter_env A x env) = ?N" by (simp add: apply_limiter_env_def)
  have IH: "process_blocks A (pl\<lparr>pl_env := e1\<rparr>) (split_blocks ns (slice_frames n (?N - n) x))
      = Returned (pl\<lparr>pl_env := e'\<rparr>,
          split_blocks ns (apply_limiter_env A (slice_frames n (?N - n) x) o2))"
  proof (rule Cons.IH)
    show "wf_buffer (slice_frames n (?N - n) x)"
      by (rule wf_slice_frames) (use Cons.prems(1) n in simp_all)
    show "sum_list ns = num_frames (slice_frames n (?N - n) x)"
      using Cons.prems(2) by (simp add: slice_frames_def)
    show "length o2 = num_frames (slice_frames n (?N - n) x)" using lo2 by (simp add: slice_frames_def)
    show "limiter_env_loop A pl e1 (max_samples_of A (slice_frames n (?N - n) x)) = (e', o2)"
      using M2 l2 e' by simp
  qed
  show ?case
    by (simp add: PeakLimiter_Process_in_place M1 l1 IH out1 out2 nf)
qed

text \<open>
  Claim C6. The output of the limiter does not depend on how the signal is cut into
  blocks: for any arithmetic \<open>A\<close>, any signal \<open>x\<close> and any list of block sizes that
  add up to its length, feeding the consecutive blocks through \<^verbatim>\<open>Process\<close> in order
  gives, block for block, the samples that one call on the whole signal gives, and
  leaves the same envelope behind.
\<close>

theorem limiter_block_partition_independent:
  assumes "wf_buffer x" and "sum_list sizes = num_frames x"
    and "PeakLimiter_Process A pl x x = Returned (pl', y)"
  shows "process_blocks A pl (split_blocks sizes x) = Returned (pl', split_blocks sizes y)"
proof -
  let ?r = "limiter_env_loop A pl (pl_env pl) (max_samples_of A x)"
  from assms(3) have pl': "pl' = pl\<lparr>pl_env := fst ?r\<rparr>" and y: "y = apply_limiter_env A x (snd ?r)"
    by (simp_all add: PeakLimiter_Process_in_place)
  have "process_blocks A (pl\<lparr>pl_env := pl_env pl\<rparr>) (split_blocks sizes x)
      = Returned (pl\<lparr>pl_env := fst ?r\<rparr>, split_blocks sizes (apply_limiter_env A x (snd ?r)))"
    by (rule process_blocks_split [OF assms(1,2)]) simp_all
  then show ?thesis by (simp add: pl' y)
qed

lemmas limiter_eval = PeakLimiter_Process_def max_samples_of_def max_samples_channel_def
  apply_limiter_env_def env_step_def GetMaximumRequiredGain_def real_arith_def
  num_channels_def slice_frames_def wf_buffer_def upt_conv_Cons Let_def

theorem limiter_block_partition_independent_witness:
  "wf_buffer x0 \<and> sum_list [1, 2] = num_frames x0 \<and>
   PeakLimiter_Process real_arith pl0 x0 x0
     = Returned (pl0\<lparr>pl_env := 13/16\<rparr>,
                 \<lparr> num_frames = 3, channel_views = [[1/2, 0, 13/32], [-1, 0, 0]] \<rparr>) \<and>
   process_blocks real_arith pl0 (split_blocks [1, 2] x0)
     = Returned (pl0\<lparr>pl_env := 13/16\<rparr>,
                 [\<lparr> num_frames = 1, channel_views = [[1/2], [-1]] \<rparr>,
                  \<lparr> num_frames = 2, channel_views = [[0, 13/32], [0, 0]] \<rparr>])"
proof -
  have h1: "wf_buffer x0" by (simp add: x0_def wf_buffer_def)
  have h2: "sum_list [1, 2] = num_frames x0" by (simp add: x0_def)
  have h3: "PeakLimiter_Process real_arith pl0 x0 x0
     = Returned (pl0\<lparr>pl_env := 13/16\<rparr>,
                 \<lparr> num_frames = 3, channel_views = [[1/2, 0, 13/32], [-1, 0, 0]] \<rparr>)"
    by (simp add: x0_def pl0_def limiter_eval)
  show ?thesis
    using h1 h2 h3 limiter_block_partition_independent [OF h1 h2 h3]
    by (simp add: slice_frames_def)
qed

lemma limiter_env_loop_fst:
  "fst (limiter_env_loop A pl e ms) = foldl (env_step A pl) e ms"
  by (induction ms arbitrary: e) (simp_all add: Let_def split_beta)

lemma limiter_env_loop_snd_nth:
  "i < length ms \<Longrightarrow>
   snd (limiter_env_loop A pl e ms) ! i = d_to_f A (foldl (env_step A pl) e (take (Suc i) ms))"
proof (induction ms arbitrary: e i)
  case Nil
  then show ?case by simp
next
  case (Cons m ms)
  then show ?case by (cases i) (simp_all add: Let_def split_beta)
qed

text \<open>
  In exact arithmetic the peak is the largest absolute value of the frame, and taking
  its absolute value once more changes nothing.
\<close>

lemma foldl_max_abs:
  "foldl (\<lambda>m ch. max m \<bar>ch ! i\<bar>) a chs = Max (insert (a::real) ((\<lambda>ch. \<bar>ch ! i\<bar>) ` set chs))"
proof (induction chs arbitrary: a)
  case Nil
  then show ?case by simp
next
  case (Cons c chs)
  have "Max (insert (max a \<bar>c ! i\<bar>) ((\<lambda>ch. \<bar>ch ! i\<bar>) ` set chs))
      = Max (insert a (insert \<bar>c ! i\<bar> ((\<lambda>ch. \<bar>ch ! i\<bar>) ` set chs)))"
    by (cases "chs = []") (simp_all add: max.assoc)
  then show ?case by (simp add: Cons.IH)
qed

lemma spec_peak_real:
  assumes "chs \<noteq> []"
  shows "spec_peak real_arith chs i = Max ((\<lambda>ch. \<bar>ch ! i\<bar>) ` set chs)"
proof -
  let ?S = "(\<lambda>ch. \<bar>ch ! i\<bar>) ` set chs"
  have fin: "finite ?S" and ne: "?S \<noteq> {}" using assms by simp_all
  obtain c where "c \<in> set chs" using assms by (cases chs) auto
  then have "\<bar>c ! i\<bar> \<in> ?S" by blast
  then have nonneg: "0 \<le> Max ?S" using fin by (meson Max_ge abs_ge_zero order_trans)
  then have "Max (insert 0 ?S) = Max ?S" using fin ne by simp
  then show ?thesis
    using nonneg by (simp add: spec_peak_def peak_at_def real_arith_def foldl_max_abs)
qed

text \<open>The second loop, frame by frame, is the envelope of the specification.\<close>

lemma env_step_spec:
  "env_step A pl e m
     = spec_env_update A (pl_release_time_constant pl) e
         (spec_required_gain A (pl_ceiling pl) (d_abs A (f_to_d A m)))"
  by (simp add: env_step_def GetMaximumRequiredGain_def spec_env_update_def
      spec_required_gain_def Let_def)

lemma foldl_env_step_spec:
  assumes "i < num_frames b"
  shows "foldl (env_step A pl) e (take (Suc i) (max_samples_of A b))
       = spec_envelope A (pl_ceiling pl) (pl_release_time_constant pl) e (channel_views b) i"
  using assms
proof (induction i)
  case 0
  then show ?case
    by (simp add: max_samples_of_peak_at take_Suc_conv_app_nth env_step_spec spec_peak_def)
next
  case (Suc i)
  then have "take (Suc (Suc i)) (max_samples_of A b)
      = take (Suc i) (max_samples_of A b) @ [peak_at A (channel_views b) (Suc i)]"
    by (simp add: take_Suc_conv_app_nth max_samples_of_peak_at)
  then show ?case
    using Suc by (simp add: env_step_spec spec_peak_def)
qed

text \<open>
  Claim C5. Whatever the arithmetic: the constructor sets the ceiling to
  \<open>c = 10\<^bsup>C/20\<^esup>\<close>, the release coefficient to \<open>\<alpha> = exp (-3 / (f\<^sub>s T\<^sub>r / 1000))\<close> and
  the envelope to 1; and \<^verbatim>\<open>Process\<close>, for every limiter and every block, returns and
  has computed for each frame \<open>i\<close> the peak \<open>m\<^sub>i\<close> across the channels, the gain
  \<open>g\<^sub>i = c / m\<^sub>i\<close> if \<open>m\<^sub>i > c\<close> and 1 otherwise, the envelope \<open>e := g\<^sub>i\<close> if
  \<open>g\<^sub>i < e\<close> and \<open>e := \<alpha> (e - g\<^sub>i) + g\<^sub>i\<close> otherwise, starting from the envelope the
  limiter holds, and has multiplied frame \<open>i\<close> of every channel by the updated envelope
  (converted to \<^verbatim>\<open>float\<close>); the limiter is left with the envelope of the last frame.
  Every operation is the one of the arithmetic, applied as the code applies it.
\<close>

theorem limiter_process_formula:
  assumes "num_channels output = num_channels input"
    and "num_frames output = num_frames input"
  shows "PeakLimiter_new A fs Tr C =
      \<lparr> pl_sampling_rate = fs, pl_ceiling = spec_ceiling A C,
        pl_release_time_constant = spec_release A fs Tr, pl_env = d_one A \<rparr> \<and>
    PeakLimiter_Process A pl input output
    = Returned
       (pl\<lparr>pl_env := (if num_frames input = 0 then pl_env pl
                      else spec_envelope A (pl_ceiling pl) (pl_release_time_constant pl)
                             (pl_env pl) (channel_views input) (num_frames input - 1))\<rparr>,
        \<lparr> num_frames = num_frames input,
          channel_views =
            map (\<lambda>ch. map (\<lambda>i. f_mul A (ch ! i)
                     (d_to_f A (spec_envelope A (pl_ceiling pl) (pl_release_time_constant pl)
                                  (pl_env pl) (channel_views input) i)))
                   [0..<num_frames input])
                (channel_views input) \<rparr>)"
proof
  show "PeakLimiter_new A fs Tr C =
      \<lparr> pl_sampling_rate = fs, pl_ceiling = spec_ceiling A C,
        pl_release_time_constant = spec_release A fs Tr, pl_env = d_one A \<rparr>"
    by (simp add: PeakLimiter_new_def spec_ceiling_def spec_release_def)
next
  let ?M = "max_samples_of A input"
  let ?r = "limiter_env_loop A pl (pl_env pl) ?M"
  let ?E = "spec_envelope A (pl_ceiling pl) (pl_release_time_constant pl) (pl_env pl)
              (channel_views input)"
  have env: "snd ?r ! i = d_to_f A (?E i)" if "i < num_frames input" for i
    using that limiter_env_loop_snd_nth [of i ?M A pl "pl_env pl"]
      foldl_env_step_spec [OF that, of A pl "pl_env pl"]
    by simp
  have fin: "fst ?r = (if num_frames input = 0 then pl_env pl else ?E (num_frames input - 1))"
  proof (cases "num_frames input")
    case 0
    then have "?M = []" by (metis length_0_conv length_max_samples_of)
    then show ?thesis using 0 by simp
  next
    case (Suc k)
    then have "take (Suc k) ?M = ?M" by simp
    then show ?thesis
      using foldl_env_step_spec [of k input A pl "pl_env pl"] Suc
      by (simp add: limiter_env_loop_fst)
  qed
  have out: "apply_limiter_env A input (snd ?r) =
      \<lparr> num_frames = num_frames input,
          channel_views =
            map (\<lambda>ch. map (\<lambda>i. f_mul A (ch ! i) (d_to_f A (?E i))) [0..<num_frames input])
                (channel_views input) \<rparr>"
    using env by (simp add: apply_limiter_env_def)
  show "PeakLimiter_Process A pl input output
    = Returned
       (pl\<lparr>pl_env := (if num_frames input = 0 then pl_env pl
                      else ?E (num_frames input - 1))\<rparr>,
        \<lparr> num_frames = num_frames input,
          channel_views =
            map (\<lambda>ch. map (\<lambda>i. f_mul A (ch ! i) (d_to_f A (?E i))) [0..<num_frames input])
                (channel_views input) \<rparr>)"
    using assms fin out by (simp add: PeakLimiter_Process_def split_beta)
qed

lemma spec_peak_x1:
  "spec_peak real_arith (channel_views x1) 0 = 2"
  "spec_peak real_arith (channel_views x1) (Suc 0) = 1"
  "spec_peak real_arith (channel_views x1) (Suc (Suc 0)) = 2"
  "spec_peak real_arith (channel_views x1) (Suc (Suc (Suc 0))) = 0"
  by (simp_all add: spec_peak_def peak_at_def real_arith_def x1_def)

lemma spec_envelope_x1:
  "spec_envelope real_arith 1 (1/2) 1 (channel_views x1) 0 = 1/2"
  "spec_envelope real_arith 1 (1/2) 1 (channel_views x1) (Suc 0) = 3/4"
  "spec_envelope real_arith 1 (1/2) 1 (channel_views x1) (Suc (Suc 0)) = 1/2"
  "spec_envelope real_arith 1 (1/2) 1 (channel_views x1) (Suc (Suc (Suc 0))) = 3/4"
  by (simp_all add: spec_peak_x1 spec_required_gain_def spec_env_update_def)
     (simp_all add: real_arith_def)

theorem limiter_process_formula_witness:
  "num_channels x1 = num_channels x1 \<and> num_frames x1 = num_frames x1 \<and>
   PeakLimiter_new real_arith 48000 50 (- 1 / 2) =
      \<lparr> pl_sampling_rate = 48000, pl_ceiling = 10 powr (- 1 / 2 / 20),
        pl_release_time_constant = exp (- 3 / (48000 * 50 / 1000)), pl_env = 1 \<rparr> \<and>
   PeakLimiter_Process real_arith pl0 x1 x1
    = Returned
       (pl0\<lparr>pl_env := 3/4\<rparr>,
        \<lparr> num_frames = 4,
          channel_views = [[1/2, 3/8, -1, 0], [-1, 3/16, 1/2, 0], [1/4, -3/4, 0, 0]] \<rparr>)"
proof -
  have h1: "num_channels x1 = num_channels x1" and h2: "num_frames x1 = num_frames x1"
    by simp_all
  have n: "num_frames x1 = 4" and pl: "pl_ceiling pl0 = 1" "pl_release_time_constant pl0 = 1/2"
    "pl_env pl0 = 1"
    by (simp_all add: x1_def pl0_def)
  have upt: "[0..<4] = [0, Suc 0, Suc (Suc 0), Suc (Suc (Suc 0))]"
    by (simp add: upt_conv_Cons)
  have three: "(4::nat) - 1 = Suc (Suc (Suc 0))" by simp
  note t = limiter_process_formula [OF h1 h2, of real_arith 48000 50 "- 1 / 2" pl0]
  have c: "PeakLimiter_new real_arith 48000 50 (- 1 / 2) =
      \<lparr> pl_sampling_rate = 48000, pl_ceiling = 10 powr (- 1 / 2 / 20),
        pl_release_time_constant = exp (- 3 / (48000 * 50 / 1000)), pl_env = 1 \<rparr>"
    using t [THEN conjunct1]
    by (simp add: spec_ceiling_def spec_release_def) (simp add: real_arith_def)
  have p: "PeakLimiter_Process real_arith pl0 x1 x1
    = Returned
       (pl0\<lparr>pl_env := 3/4\<rparr>,
        \<lparr> num_frames = 4,
          channel_views = [[1/2, 3/8, -1, 0], [-1, 3/16, 1/2, 0], [1/4, -3/4, 0, 0]] \<rparr>)"
    unfolding t [THEN conjunct2] n pl upt three
    by (simp add: spec_envelope_x1 del: spec_envelope.simps) (simp add: x1_def real_arith_def)
  show ?thesis using c p by simp
qed

subsection \<open>Sample type conversion\<close>

lemma pow2_pos: "0 < pow2 e" by (simp add: pow2_def)

lemma pow2_Suc: "pow2 (e + 1) = 2 * pow2 e"
proof (cases "0 \<le> e")
  case True
  then show ?thesis by (simp add: pow2_def nat_add_distrib)
next
  case False
  then have "nat (- e) = Suc (nat (- (e + 1)))" by simp
  then show ?thesis using False by (simp add: pow2_def)
qed

lemma pow2_add_nat: "pow2 (e + int n) = 2 ^ n * pow2 e"
proof (induction n)
  case 0
  then show ?case by simp
next
  case (Suc n)
  have "e + int (Suc n) = (e + int n) + 1" by simp
  then have "pow2 (e + int (Suc n)) = pow2 ((e + int n) + 1)" by (rule arg_cong)
  then show ?case by (simp add: pow2_Suc Suc)
qed

lemma pow2_mono: "a \<le> b \<Longrightarrow> pow2 a \<le> pow2 b"
proof -
  assume "a \<le> b"
  then obtain n where b: "b = a + int n" by (metis zle_iff_zadd)
  have "1 * pow2 a \<le> 2 ^ n * pow2 a"
    by (rule mult_right_mono) (simp_all add: pow2_pos less_imp_le)
  then show ?thesis by (simp add: b pow2_add_nat)
qed

lemma pow2_le_imp_le: "pow2 a \<le> x \<Longrightarrow> x < pow2 b \<Longrightarrow> a < b"
  using pow2_mono [of b a] by (cases "a < b") auto

lemma binade_unique:
  "pow2 t \<le> \<bar>x\<bar> \<Longrightarrow> \<bar>x\<bar> < pow2 (t + 1) \<Longrightarrow> t \<le> e \<Longrightarrow> e - int n \<le> t \<Longrightarrow> binade n e x = t"
proof (induction n arbitrary: e)
  case 0
  then show ?case by simp
next
  case (Suc n)
  show ?case
  proof (cases "pow2 e \<le> \<bar>x\<bar>")
    case True
    from True Suc.prems(2) have "e < t + 1" by (rule pow2_le_imp_le)
    with Suc.prems(3) True show ?thesis by simp
  next
    case False
    with Suc.prems(1) have "e \<noteq> t" by auto
    with Suc.prems have "binade n (e - 1) x = t" by (intro Suc.IH) simp_all
    with False show ?thesis by simp
  qed
qed

lemma f32_exponent_eqI:
  "pow2 t \<le> \<bar>x\<bar> \<Longrightarrow> \<bar>x\<bar> < pow2 (t + 1) \<Longrightarrow> - 126 \<le> t \<Longrightarrow> t \<le> 127 \<Longrightarrow> f32_exponent x = t"
  unfolding f32_exponent_def by (rule binade_unique) simp_all

lemma binade_less:
  "\<bar>x\<bar> < pow2 E \<Longrightarrow> e - int n < E \<Longrightarrow> binade n e x < E"
proof (induction n arbitrary: e)
  case 0
  then show ?case by simp
next
  case (Suc n)
  show ?case
  proof (cases "pow2 e \<le> \<bar>x\<bar>")
    case True
    then show ?thesis using Suc.prems(1) pow2_le_imp_le by simp
  next
    case False
    then show ?thesis using Suc by simp
  qed
qed

lemma f32_exponent_less: "\<bar>x\<bar> < pow2 E \<Longrightarrow> - 126 < E \<Longrightarrow> f32_exponent x < E"
  unfolding f32_exponent_def by (rule binade_less) simp_all

lemma round_half_even_error: "\<bar>of_int (round_half_even q) - q\<bar> \<le> 1 / 2"
  unfolding round_half_even_def Let_def by (auto simp: abs_le_iff)

lemma f32_round_error:
  assumes "\<bar>x\<bar> < pow2 E" and "- 126 < E"
  shows "\<bar>f32_round x - x\<bar> \<le> pow2 (E - 25)"
proof -
  let ?u = "pow2 (f32_exponent x - 23)"
  have u: "0 < ?u" by (rule pow2_pos)
  have "f32_round x - x = (of_int (round_half_even (x / ?u)) - x / ?u) * ?u"
    using u by (simp add: f32_round_def algebra_simps)
  then have "\<bar>f32_round x - x\<bar> = \<bar>of_int (round_half_even (x / ?u)) - x / ?u\<bar> * ?u"
    using u by (simp add: abs_mult)
  also have "\<dots> \<le> 1 / 2 * ?u"
    by (rule mult_right_mono [OF round_half_even_error]) (use u in simp)
  also have "\<dots> \<le> 1 / 2 * pow2 (E - 24)"
    using f32_exponent_less [OF assms] pow2_mono [of "f32_exponent x - 23" "E - 24"] by simp
  also have "\<dots> = pow2 (E - 25)"
    using pow2_Suc [of "E - 25"] by simp
  finally show ?thesis .
qed

lemma f32_round_eval:
  "pow2 t \<le> \<bar>x\<bar> \<Longrightarrow> \<bar>x\<bar> < pow2 (t + 1) \<Longrightarrow> - 126 \<le> t \<Longrightarrow> t \<le> 127 \<Longrightarrow>
   f32_round x = of_int (round_half_even (x / pow2 (t - 23))) * pow2 (t - 23)"
  by (simp add: f32_round_def f32_exponent_eqI)

lemma f32_round_0: "f32_round 0 = 0"
  by (simp add: f32_round_def round_half_even_def)

lemma kInt16ToFloat_value: "f32_div 1 32767 = 32769 / 1073741824"
  unfolding f32_div_def
  by (subst f32_round_eval [where t = "- 15"]) (simp_all add: pow2_def round_half_even_def Let_def)

lemma ConvertSampleToFloatFormat_rounded: "ConvertSampleToFloatFormat v = f32_round (of_int v * (32769 / 1073741824))"
  by (simp add: ConvertSampleToFloatFormat_def kInt16ToFloat_value f32_mul_def)

lemma to513: "ConvertSampleToFloatFormat 513 = 32833 / 2097152"
  unfolding ConvertSampleToFloatFormat_rounded
  by (subst f32_round_eval [where t = "- 6"]) (simp_all add: pow2_def round_half_even_def Let_def)

lemma from513: "f32_mul (32833 / 2097152) 32767 = 8404991 / 16384"
  unfolding f32_mul_def
  by (subst f32_round_eval [where t = 9]) (simp_all add: pow2_def round_half_even_def Let_def)

text \<open>
  Claim C9 as stated fails: 513 comes back as 512. (513 / 32767 is rounded down at a tie,
  the product with 32767 is 512.99994, and the cast discards the fraction.)
\<close>

theorem int16_roundtrip_counterexample:
  "ConvertSampleFromFloatFormat (ConvertSampleToFloatFormat 513) = 512"
  by (simp add: to513 ConvertSampleFromFloatFormat_def from513 truncate_to_int_def Let_def)

lemma roundtrip_near:
  assumes "- 32767 \<le> v" and "v \<le> 32767"
  shows "\<bar>f32_mul (ConvertSampleToFloatFormat v) 32767 - of_int v\<bar> < 1 / 128"
proof -
  let ?k = "32769 / 1073741824 :: real"
  let ?a = "ConvertSampleToFloatFormat v"
  let ?b = "f32_round (?a * 32767)"
  have p25: "pow2 (0 - 25) = 1 / 33554432" and p10: "pow2 (15 - 25) = 1 / 1024"
    by (simp_all add: pow2_def)
  have vlo: "- 32767 \<le> real_of_int v" and vhi: "real_of_int v \<le> 32767"
    using assms by linarith+
  have "\<bar>of_int v * ?k\<bar> < pow2 0"
    using vlo vhi by (simp add: pow2_def abs_less_iff)
  then have "\<bar>?a - of_int v * ?k\<bar> \<le> pow2 (0 - 25)"
    unfolding ConvertSampleToFloatFormat_rounded by (rule f32_round_error) simp
  then have "\<bar>?a - of_int v * ?k\<bar> \<le> 1 / 33554432"
    unfolding p25 .
  then have alo: "of_int v * ?k - 1 / 33554432 \<le> ?a" and ahi: "?a \<le> of_int v * ?k + 1 / 33554432"
    by linarith+
  have "\<bar>?a * 32767\<bar> < pow2 15"
    using alo ahi vlo vhi by (simp add: pow2_def abs_less_iff)
  then have "\<bar>?b - ?a * 32767\<bar> \<le> pow2 (15 - 25)"
    by (rule f32_round_error) simp
  then have "\<bar>?b - ?a * 32767\<bar> \<le> 1 / 1024"
    unfolding p10 .
  then have blo: "?a * 32767 - 1 / 1024 \<le> ?b" and bhi: "?b \<le> ?a * 32767 + 1 / 1024"
    by linarith+
  have "?b - of_int v < 1 / 128" using alo ahi vlo vhi blo bhi by simp
  moreover have "- (1 / 128) < ?b - of_int v" using alo ahi vlo vhi blo bhi by simp
  ultimately show ?thesis unfolding f32_mul_def by linarith
qed

lemma truncate_near_pos:
  assumes "1 \<le> real_of_int v" and "real_of_int v - 1 \<le> c" and "c < real_of_int v + 1"
  shows "truncate_to_int c = v \<or> truncate_to_int c = v - 1"
proof (cases "real_of_int v \<le> c")
  case True
  then have "\<lfloor>c\<rfloor> = v" using assms(3) by (intro floor_unique)
  then show ?thesis using True assms(1) by (simp add: truncate_to_int_def)
next
  case False
  have "real_of_int (v - 1) \<le> c" and "c < real_of_int (v - 1) + 1" using False assms(2) by simp_all
  then have "\<lfloor>c\<rfloor> = v - 1" by (rule floor_unique)
  then show ?thesis using assms(1,2) by (simp add: truncate_to_int_def)
qed

lemma truncate_near_neg:
  assumes "real_of_int v \<le> - 1" and "real_of_int v - 1 < c" and "c \<le> real_of_int v + 1"
  shows "truncate_to_int c = v \<or> truncate_to_int c = v + 1"
proof (cases "c \<le> real_of_int v")
  case True
  then have "\<lceil>c\<rceil> = v" using assms(2) by (intro ceiling_unique)
  then show ?thesis using True assms(1) by (simp add: truncate_to_int_def)
next
  case False
  have "real_of_int (v + 1) - 1 < c" and "c \<le> real_of_int (v + 1)" using False assms(3) by simp_all
  then have c: "\<lceil>c\<rceil> = v + 1" by (rule ceiling_unique)
  show ?thesis
  proof (cases "0 \<le> c")
    case True
    then have "c = 0" using assms(1,3) by linarith
    then show ?thesis using c by (simp add: truncate_to_int_def)
  next
    case False
    then show ?thesis using c by (simp add: truncate_to_int_def)
  qed
qed

text \<open>
  Claim C9, amended. For every integer \<open>v\<close> in \<open>[-0x7FFF, 0x7FFF]\<close>, converting \<open>v\<close> to
  \<^verbatim>\<open>float\<close> and back yields \<open>v\<close> or the integer next to \<open>v\<close> towards zero.
\<close>

theorem int16_roundtrip_within_one:
  assumes "- 32767 \<le> v" and "v \<le> 32767"
  shows "ConvertSampleFromFloatFormat (ConvertSampleToFloatFormat v) = v \<or>
         ConvertSampleFromFloatFormat (ConvertSampleToFloatFormat v) = v - sgn v"
proof -
  define b where "b = f32_mul (ConvertSampleToFloatFormat v) 32767"
  define c where "c = min 32767 (max (- 32767) b)"
  have near: "\<bar>b - of_int v\<bar> < 1 / 128" unfolding b_def using assms by (rule roundtrip_near)
  have r: "ConvertSampleFromFloatFormat (ConvertSampleToFloatFormat v) = truncate_to_int c"
    by (simp add: ConvertSampleFromFloatFormat_def Let_def c_def b_def)
  have vlo: "- 32767 \<le> real_of_int v" and vhi: "real_of_int v \<le> 32767"
    using assms by linarith+
  consider "v = 0" | "0 < v" | "v < 0" by linarith
  then show ?thesis
  proof cases
    case 1
    have "ConvertSampleToFloatFormat 0 = 0" by (simp add: ConvertSampleToFloatFormat_rounded f32_round_0)
    then have "b = 0" using 1 by (simp add: b_def f32_mul_def f32_round_0)
    then have "truncate_to_int c = 0" by (simp add: c_def truncate_to_int_def)
    then show ?thesis using r 1 by simp
  next
    case 2
    then have v1: "1 \<le> real_of_int v" by linarith
    have "real_of_int v - 1 \<le> c" and "c < real_of_int v + 1"
      unfolding c_def using near v1 vhi by linarith+
    with v1 have "truncate_to_int c = v \<or> truncate_to_int c = v - 1" by (rule truncate_near_pos)
    then show ?thesis using r 2 by simp
  next
    case 3
    then have v1: "real_of_int v \<le> - 1" by linarith
    have "real_of_int v - 1 < c" and "c \<le> real_of_int v + 1"
      unfolding c_def using near v1 vlo by linarith+
    with v1 have "truncate_to_int c = v \<or> truncate_to_int c = v + 1" by (rule truncate_near_neg)
    then show ?thesis using r 3 by simp
  qed
qed

theorem int16_roundtrip_within_one_witness:
  "- 32767 \<le> (1000::int) \<and> (1000::int) \<le> 32767 \<and>
   (ConvertSampleFromFloatFormat (ConvertSampleToFloatFormat 1000) = 1000 \<or>
    ConvertSampleFromFloatFormat (ConvertSampleToFloatFormat 1000) = 1000 - sgn 1000)"
  using int16_roundtrip_within_one [of 1000] by simp


subsection \<open>Ambisonic encoder\<close>

lemma AmbisonicEncoder_new_example: "AmbisonicEncoder_new 2 1 = Returned enc0"
  by (simp add: AmbisonicEncoder_new_def enc0_def numeral_2_eq_2)

text \<open>The loops of \<^verbatim>\<open>GetShCoeffs\<close>: which pairs are visited, and where they are stored.\<close>

lemma set_sh_loop_indices:
  "set (sh_loop_indices N) = {(l, m). 0 \<le> l \<and> l \<le> int N \<and> - l \<le> m \<and> m \<le> l}"
  by (auto simp: sh_loop_indices_def image_iff)

lemma acn_bounds:
  assumes "0 \<le> l" and "l \<le> int N" and "- l \<le> m" and "m \<le> l"
  shows "0 \<le> AcnSequence l m" and "nat (AcnSequence l m) < (N + 1) * (N + 1)"
proof -
  have sq: "0 \<le> l * l" by simp
  have acn: "AcnSequence l m = l * l + l + m" by (simp add: AcnSequence_def algebra_simps)
  show nonneg: "0 \<le> AcnSequence l m"
    unfolding acn using sq assms by linarith
  have "l + 1 \<le> int N + 1" using assms by simp
  then have "(l + 1) * (l + 1) \<le> (int N + 1) * (int N + 1)"
    using assms(1) by (intro mult_mono) simp_all
  moreover have "AcnSequence l m < (l + 1) * (l + 1)"
    using assms by (simp add: AcnSequence_def algebra_simps)
  ultimately have "AcnSequence l m < (int N + 1) * (int N + 1)" by linarith
  moreover have "int ((N + 1) * (N + 1)) = (int N + 1) * (int N + 1)"
    by (simp add: algebra_simps)
  ultimately have "AcnSequence l m < int ((N + 1) * (N + 1))" by linarith
  then show "nat (AcnSequence l m) < (N + 1) * (N + 1)" using nonneg by linarith
qed

lemma acn_degree_unique:
  assumes "0 \<le> l" "- l \<le> m" "m \<le> l" "0 \<le> l'" "- l' \<le> m'" "m' \<le> l'"
    and "AcnSequence l m = AcnSequence l' m'"
  shows "\<not> l < l'"
proof
  assume "l < l'"
  then have "l + 1 \<le> l'" by simp
  then have "(l + 1) * (l + 1) \<le> l' * l'"
    using assms(1) by (intro mult_mono) simp_all
  moreover have "AcnSequence l m < (l + 1) * (l + 1)"
    using assms by (simp add: AcnSequence_def algebra_simps)
  moreover have "l' * l' \<le> AcnSequence l' m'"
    using assms by (simp add: AcnSequence_def algebra_simps)
  ultimately show False using assms(7) by simp
qed

lemma acn_inj:
  assumes "0 \<le> l" "- l \<le> m" "m \<le> l" "0 \<le> l'" "- l' \<le> m'" "m' \<le> l'"
    and "AcnSequence l m = AcnSequence l' m'"
  shows "l = l' \<and> m = m'"
proof -
  have "\<not> l < l'" using assms by (rule acn_degree_unique)
  moreover have "\<not> l' < l" using assms(4-6) assms(1-3) assms(7) [symmetric] by (rule acn_degree_unique)
  ultimately have "l = l'" by simp
  then show ?thesis using assms(7) by (simp add: AcnSequence_def)
qed

lemma foldl_update_length [simp]:
  "length (foldl (\<lambda>xs p. xs[k p := v p]) xs ps) = length xs"
  by (induction ps arbitrary: xs) simp_all

lemma foldl_update_inj:
  assumes "inj_on k (set ps)" and "p \<in> set ps" and "k p < length xs"
  shows "foldl (\<lambda>xs p. xs[k p := v p]) xs ps ! k p = v p"
  using assms
proof (induction ps rule: rev_induct)
  case Nil
  then show ?case by simp
next
  case (snoc q ps)
  show ?case
  proof (cases "k q = k p")
    case True
    then have "q = p" using snoc.prems(1,2) by (auto dest: inj_onD)
    then show ?thesis using snoc.prems(3) by simp
  next
    case False
    have "inj_on k (set ps)" using snoc.prems(1) by (auto intro: inj_on_subset)
    moreover have "p \<in> set ps" using False snoc.prems(2) by auto
    ultimately have "foldl (\<lambda>xs p. xs[k p := v p]) xs ps ! k p = v p"
      using snoc.prems(3) by (rule snoc.IH)
    then show ?thesis using False by simp
  qed
qed

lemma foldl_sh_store:
  assumes "\<forall>p\<in>set ps. 0 \<le> AcnSequence (fst p) (snd p) \<and> nat (AcnSequence (fst p) (snd p)) < length xs"
  shows "foldl (sh_store F a x) (Returned xs) ps
       = Returned (foldl (\<lambda>xs p. xs[nat (AcnSequence (fst p) (snd p)) := sh_value F a x p]) xs ps)"
  using assms
proof (induction ps arbitrary: xs)
  case Nil
  then show ?case by simp
next
  case (Cons p ps)
  have "sh_store F a x (Returned xs) p = Returned (xs[nat (AcnSequence (fst p) (snd p)) := sh_value F a x p])"
    using Cons.prems by (auto simp: sh_store_def Let_def)
  then show ?case using Cons by simp
qed

lemma GetShCoeffs_returns:
  assumes "length coeffs = (N + 1) * (N + 1)"
  shows "GetShCoeffs F az el N coeffs
       = Returned (foldl (\<lambda>xs p. xs[nat (AcnSequence (fst p) (snd p)) :=
                     sh_value F (fl_mul F az (fl_kRadiansFromDegrees F)) (fl_sin F (fl_mul F el (fl_kRadiansFromDegrees F))) p])
                   coeffs (sh_loop_indices N))"
proof -
  have "\<forall>p\<in>set (sh_loop_indices N).
          0 \<le> AcnSequence (fst p) (snd p) \<and> nat (AcnSequence (fst p) (snd p)) < length coeffs"
  proof
    fix p assume "p \<in> set (sh_loop_indices N)"
    then have "0 \<le> fst p" "fst p \<le> int N" "- fst p \<le> snd p" "snd p \<le> fst p"
      by (auto simp: set_sh_loop_indices)
    then show "0 \<le> AcnSequence (fst p) (snd p) \<and> nat (AcnSequence (fst p) (snd p)) < length coeffs"
      using acn_bounds [of "fst p" N "snd p"] assms by simp
  qed
  then show ?thesis unfolding GetShCoeffs_def Let_def by (rule foldl_sh_store)
qed

lemma GetShCoeffs_nth:
  assumes "length coeffs = (N + 1) * (N + 1)"
    and "0 \<le> l" and "l \<le> int N" and "- l \<le> m" and "m \<le> l"
  shows "\<exists>sh. GetShCoeffs F az el N coeffs = Returned sh \<and> length sh = (N + 1) * (N + 1) \<and>
           sh ! nat (AcnSequence l m)
             = sh_value F (fl_mul F az (fl_kRadiansFromDegrees F)) (fl_sin F (fl_mul F el (fl_kRadiansFromDegrees F))) (l, m)"
proof -
  let ?k = "\<lambda>p. nat (AcnSequence (fst p) (snd p))"
  have inj: "inj_on ?k (set (sh_loop_indices N))"
  proof (rule inj_onI)
    fix p q assume p: "p \<in> set (sh_loop_indices N)" and q: "q \<in> set (sh_loop_indices N)"
      and e: "?k p = ?k q"
    obtain l m l' m' where pq: "p = (l, m)" "q = (l', m')" by (cases p, cases q) auto
    have b: "0 \<le> l" "- l \<le> m" "m \<le> l" "0 \<le> l'" "- l' \<le> m'" "m' \<le> l'" "l \<le> int N" "l' \<le> int N"
      using p q by (auto simp: pq set_sh_loop_indices)
    have "AcnSequence l m = AcnSequence l' m'"
      using e acn_bounds(1) [of l N m] acn_bounds(1) [of l' N m'] b by (simp add: pq)
    with b(1-6) have "l = l' \<and> m = m'" by (rule acn_inj)
    then show "p = q" by (simp add: pq)
  qed
  have mem: "(l, m) \<in> set (sh_loop_indices N)" using assms by (simp add: set_sh_loop_indices)
  have rng: "?k (l, m) < length coeffs" using assms acn_bounds(2) [of l N m] by simp
  show ?thesis
    using foldl_update_inj [OF inj mem rng] assms(1)
    by (simp add: GetShCoeffs_returns [OF assms(1)])
qed

text \<open>Writing a column of the matrix.\<close>

lemma set_col_zero_as_set_col:
  "set_col_zero m c = set_col m c (replicate (length m) 0)"
  unfolding set_col_zero_def set_col_def by (rule nth_equalityI) simp_all

lemma length_set_col [simp]: "length (set_col m c vs) = length m"
  by (simp add: set_col_def)

lemma row_lengths_set_col:
  "list_all (\<lambda>row. length row = n) m \<Longrightarrow> list_all (\<lambda>row. length row = n) (set_col m c vs)"
  by (simp add: set_col_def list_all_iff)

lemma matrix_col_set_col_same:
  assumes "list_all (\<lambda>row. length row = n) m" and "c < n" and "length vs = length m"
  shows "matrix_col (set_col m c vs) c = vs"
  unfolding matrix_col_def set_col_def
  by (rule nth_equalityI) (use assms in \<open>simp_all add: list_all_iff\<close>)

lemma matrix_col_set_col_other:
  "c' \<noteq> c \<Longrightarrow> matrix_col (set_col m c vs) c' = matrix_col m c'"
  unfolding matrix_col_def set_col_def by (rule nth_equalityI) simp_all

lemma GetShCoeffs_replicate:
  assumes "n = (N + 1) * (N + 1)"
  shows "\<exists>sh. GetShCoeffs F az el N (replicate n 0) = Returned sh \<and> length sh = n"
  using assms GetShCoeffs_returns [of "replicate n 0" N F az el] by simp

lemma source_column_eq:
  assumes n: "n = (N + 1) * (N + 1)"
    and sh: "GetShCoeffs F az el N (replicate n 0) = Returned sh"
  shows "source_column F N \<lparr> gain = g, azimuth = az, elevation = el, distance = d \<rparr> =
      (if fl_div F g (max d (1 / 2)) < fl_kNegative120dbInAmplitude F then replicate n 0
       else map (\<lambda>i. fl_mul F (sh ! i) (fl_div F g (max d (1 / 2)))) [0..<n])"
  unfolding source_column_def overall_gain_of_def Let_def n [symmetric]
  by (simp add: sh)

lemma length_source_column:
  assumes "n = (N + 1) * (N + 1)"
  shows "length (source_column F N s) = n"
proof -
  obtain sh where sh: "GetShCoeffs F (azimuth s) (elevation s) N (replicate n 0) = Returned sh"
    using GetShCoeffs_replicate [OF assms] by blast
  show ?thesis
  proof (cases s)
    case (fields g az el d)
    then have "source_column F N s =
        (if fl_div F g (max d (1 / 2)) < fl_kNegative120dbInAmplitude F then replicate n 0
         else map (\<lambda>i. fl_mul F (sh ! i) (fl_div F g (max d (1 / 2)))) [0..<n])"
      using source_column_eq [OF assms, of F az el sh g d] sh by simp
    then show ?thesis
      by (cases "fl_div F g (max d (1 / 2)) < fl_kNegative120dbInAmplitude F") simp_all
  qed
qed

lemma source_column_zero:
  assumes "n = (N + 1) * (N + 1)" and "zero_gain_muted F"
  shows "source_column F N \<lparr> gain = 0, azimuth = 0, elevation = 0, distance = 0 \<rparr> = replicate n 0"
  unfolding source_column_def overall_gain_of_def Let_def assms(1) [symmetric]
  using assms(2) by (simp add: zero_gain_muted_def)

text \<open>
  What \<^verbatim>\<open>SetSource\<close> does in a consistent state: nothing but completing the cache when
  the cached properties are the given ones, and otherwise it stores the properties and
  writes their column.
\<close>

lemma SetSource_write:
  assumes "number_of_input_channels enc \<noteq> 0" and "c < number_of_input_channels enc"
    and n: "number_of_output_channels enc = (ambisonic_order enc + 1) * (ambisonic_order enc + 1)"
    and len: "length (encoding_matrix enc) = number_of_output_channels enc"
    and neq: "\<not> (gain cur = g \<and> azimuth cur = az \<and> elevation cur = el \<and> distance cur = d)"
    and cur: "cur = the ((if sources enc c = None
                    then (sources enc)(c \<mapsto>
                           \<lparr> gain = 0, azimuth = 0, elevation = 0, distance = 0 \<rparr>)
                    else sources enc) c)"
  shows "SetSource F enc c g az el d =
     Returned (enc\<lparr>sources := (sources enc)(c \<mapsto>
                 \<lparr> gain = g, azimuth = az, elevation = el, distance = d \<rparr>),
               encoding_matrix := set_col (encoding_matrix enc) c
                 (source_column F (ambisonic_order enc)
                    \<lparr> gain = g, azimuth = az, elevation = el, distance = d \<rparr>)\<rparr>)"
proof -
  let ?n = "number_of_output_channels enc"
  have n0: "?n \<noteq> 0" using n by simp
  obtain sh where sh: "GetShCoeffs F az el (ambisonic_order enc) (replicate ?n 0) = Returned sh"
    using GetShCoeffs_replicate [OF n] by blast
  note col = source_column_eq [OF n sh, of g d]
  show ?thesis
  proof (cases "fl_div F g (max d (1 / 2)) < fl_kNegative120dbInAmplitude F")
    case True
    show ?thesis
      unfolding SetSource_def Let_def cur [symmetric] col
      by (simp add: assms(1,2) n0 neq True set_col_zero_as_set_col len)
  next
    case False
    show ?thesis
      unfolding SetSource_def Let_def cur [symmetric] col
      by (simp add: assms(1,2) n0 neq False sh)
  qed
qed

lemma SetSource_consistent_cases:
  assumes "encoder_consistent F enc" and "c < number_of_input_channels enc"
  shows "SetSource F enc c g az el d =
     Returned
       (if sources enc c = Some \<lparr> gain = g, azimuth = az, elevation = el, distance = d \<rparr>
        then enc
        else if sources enc c = None \<and> g = 0 \<and> az = 0 \<and> el = 0 \<and> d = 0
        then enc\<lparr>sources := (sources enc)(c \<mapsto>
                 \<lparr> gain = 0, azimuth = 0, elevation = 0, distance = 0 \<rparr>)\<rparr>
        else enc\<lparr>sources := (sources enc)(c \<mapsto>
                 \<lparr> gain = g, azimuth = az, elevation = el, distance = d \<rparr>),
               encoding_matrix := set_col (encoding_matrix enc) c
                 (source_column F (ambisonic_order enc)
                    \<lparr> gain = g, azimuth = az, elevation = el, distance = d \<rparr>)\<rparr>)"
proof -
  let ?t = "\<lparr> gain = g, azimuth = az, elevation = el, distance = d \<rparr>"
  have nin: "number_of_input_channels enc \<noteq> 0"
    and n: "number_of_output_channels enc = (ambisonic_order enc + 1) * (ambisonic_order enc + 1)"
    and len: "length (encoding_matrix enc) = number_of_output_channels enc"
    using assms(1) by (simp_all add: encoder_consistent_def)
  have n0: "number_of_output_channels enc \<noteq> 0" using n by simp
  show ?thesis
  proof (cases "sources enc c")
    case None
    show ?thesis
    proof (cases "g = 0 \<and> az = 0 \<and> el = 0 \<and> d = 0")
      case True
      then show ?thesis using None nin n0 assms(2) by (simp add: SetSource_def)
    next
      case False
      have "SetSource F enc c g az el d = Returned (enc\<lparr>sources := (sources enc)(c \<mapsto> ?t),
               encoding_matrix := set_col (encoding_matrix enc) c
                 (source_column F (ambisonic_order enc) ?t)\<rparr>)"
        by (rule SetSource_write [OF nin assms(2) n len _ refl]) (use None False in auto)
      then show ?thesis by (simp add: None False)
    qed
  next
    case (Some s)
    show ?thesis
    proof (cases "s = ?t")
      case True
      then show ?thesis using Some nin n0 assms(2) by (simp add: SetSource_def)
    next
      case False
      then have ne: "\<not> (gain s = g \<and> azimuth s = az \<and> elevation s = el \<and> distance s = d)"
        by (cases s) auto
      have "SetSource F enc c g az el d = Returned (enc\<lparr>sources := (sources enc)(c \<mapsto> ?t),
               encoding_matrix := set_col (encoding_matrix enc) c
                 (source_column F (ambisonic_order enc) ?t)\<rparr>)"
        by (rule SetSource_write [OF nin assms(2) n len _ refl]) (use Some ne in auto)
      then show ?thesis by (simp add: Some False)
    qed
  qed
qed

lemma encoder_consistentI:
  assumes "0 < number_of_input_channels e"
    and "number_of_output_channels e = (ambisonic_order e + 1) * (ambisonic_order e + 1)"
    and "length (encoding_matrix e) = number_of_output_channels e"
    and "list_all (\<lambda>row. length row = number_of_input_channels e) (encoding_matrix e)"
    and "\<And>c. c < number_of_input_channels e \<Longrightarrow>
           matrix_col (encoding_matrix e) c =
             (case sources e c of None \<Rightarrow> replicate (number_of_output_channels e) 0
              | Some s \<Rightarrow> source_column F (ambisonic_order e) s)"
  shows "encoder_consistent F e"
  unfolding encoder_consistent_def using assms by (simp add: list_all_iff)

lemma SetSource_consistent:
  assumes "encoder_consistent F enc" and "c < number_of_input_channels enc"
    and muted: "zero_gain_muted F"
  shows "\<exists>enc'. SetSource F enc c g az el d = Returned enc' \<and> encoder_consistent F enc' \<and>
           ambisonic_order enc' = ambisonic_order enc \<and>
           number_of_input_channels enc' = number_of_input_channels enc \<and>
           sources enc' c = Some \<lparr> gain = g, azimuth = az, elevation = el, distance = d \<rparr>"
proof -
  let ?N = "ambisonic_order enc"
  let ?n = "number_of_output_channels enc"
  let ?t = "\<lparr> gain = g, azimuth = az, elevation = el, distance = d \<rparr>"
  let ?z = "\<lparr> gain = 0, azimuth = 0, elevation = 0, distance = 0 \<rparr>"
  have nin: "0 < number_of_input_channels enc"
    and n: "?n = (?N + 1) * (?N + 1)"
    and len: "length (encoding_matrix enc) = ?n"
    and rows: "list_all (\<lambda>row. length row = number_of_input_channels enc) (encoding_matrix enc)"
    and cols: "\<And>c'. c' < number_of_input_channels enc \<Longrightarrow>
        matrix_col (encoding_matrix enc) c' =
          (case sources enc c' of None \<Rightarrow> replicate ?n 0 | Some s \<Rightarrow> source_column F ?N s)"
    using assms(1) unfolding encoder_consistent_def list_all_iff by auto
  note cases = SetSource_consistent_cases [OF assms(1,2), of g az el d]
  consider (same) "sources enc c = Some ?t"
    | (fresh) "sources enc c \<noteq> Some ?t" "sources enc c = None \<and> g = 0 \<and> az = 0 \<and> el = 0 \<and> d = 0"
    | (store) "sources enc c \<noteq> Some ?t" "\<not> (sources enc c = None \<and> g = 0 \<and> az = 0 \<and> el = 0 \<and> d = 0)"
    by blast
  then show ?thesis
  proof cases
    case same
    then show ?thesis using cases assms(1) by simp
  next
    case fresh
    let ?enc' = "enc\<lparr>sources := (sources enc)(c \<mapsto> ?z)\<rparr>"
    have "matrix_col (encoding_matrix enc) c' =
          (case ((sources enc)(c \<mapsto> ?z)) c' of None \<Rightarrow> replicate ?n 0
           | Some s \<Rightarrow> source_column F ?N s)"
      if "c' < number_of_input_channels enc" for c'
      using cols [OF that] fresh(2) source_column_zero [OF n muted] by (cases "c' = c") simp_all
    then have "encoder_consistent F ?enc'"
      using nin n len rows by (intro encoder_consistentI) (simp_all cong: option.case_cong)
    then show ?thesis using cases fresh by simp
  next
    case store
    let ?m' = "set_col (encoding_matrix enc) c (source_column F ?N ?t)"
    let ?enc' = "enc\<lparr>sources := (sources enc)(c \<mapsto> ?t), encoding_matrix := ?m'\<rparr>"
    have same_col: "matrix_col ?m' c = source_column F ?N ?t"
      using rows assms(2) by (rule matrix_col_set_col_same) (simp add: len length_source_column [OF n])
    have "matrix_col ?m' c' =
          (case ((sources enc)(c \<mapsto> ?t)) c' of None \<Rightarrow> replicate ?n 0
           | Some s \<Rightarrow> source_column F ?N s)"
      if "c' < number_of_input_channels enc" for c'
      using cols [OF that] same_col by (cases "c' = c") (simp_all add: matrix_col_set_col_other)
    moreover have "list_all (\<lambda>row. length row = number_of_input_channels enc) ?m'"
      using rows by (rule row_lengths_set_col)
    ultimately have "encoder_consistent F ?enc'"
      using nin n len by (intro encoder_consistentI) (simp_all cong: option.case_cong)
    then show ?thesis using cases store by simp
  qed
qed

lemma AmbisonicEncoder_new_consistent:
  "AmbisonicEncoder_new n_in order = Returned enc \<Longrightarrow> encoder_consistent F enc"
  by (auto simp: AmbisonicEncoder_new_def split: if_splits
      intro!: encoder_consistentI simp: matrix_col_def list_all_iff)

lemma RemoveSource_consistent:
  assumes "encoder_consistent F enc" and "c < number_of_input_channels enc"
  shows "encoder_consistent F (RemoveSource enc c)"
proof -
  let ?n = "number_of_output_channels enc"
  let ?m' = "set_col (encoding_matrix enc) c (replicate ?n 0)"
  have nin: "0 < number_of_input_channels enc"
    and n: "?n = (ambisonic_order enc + 1) * (ambisonic_order enc + 1)"
    and len: "length (encoding_matrix enc) = ?n"
    and rows: "list_all (\<lambda>row. length row = number_of_input_channels enc) (encoding_matrix enc)"
    and cols: "\<And>c'. c' < number_of_input_channels enc \<Longrightarrow>
        matrix_col (encoding_matrix enc) c' =
          (case sources enc c' of None \<Rightarrow> replicate ?n 0
           | Some s \<Rightarrow> source_column F (ambisonic_order enc) s)"
    using assms(1) unfolding encoder_consistent_def list_all_iff by auto
  have r: "RemoveSource enc c = enc\<lparr>sources := (sources enc)(c := None), encoding_matrix := ?m'\<rparr>"
    by (simp add: RemoveSource_def set_col_zero_as_set_col len)
  have same_col: "matrix_col ?m' c = replicate ?n 0"
    using rows assms(2) by (rule matrix_col_set_col_same) (simp add: len)
  have "matrix_col ?m' c' =
          (case ((sources enc)(c := None)) c' of None \<Rightarrow> replicate ?n 0
           | Some s \<Rightarrow> source_column F (ambisonic_order enc) s)"
    if "c' < number_of_input_channels enc" for c'
    using cols [OF that] same_col by (cases "c' = c") (simp_all add: matrix_col_set_col_other)
  moreover have "list_all (\<lambda>row. length row = number_of_input_channels enc) ?m'"
    using rows by (rule row_lengths_set_col)
  ultimately show ?thesis
    unfolding r using nin n len by (intro encoder_consistentI) (simp_all cong: option.case_cong)
qed

lemma source_column_nth:
  assumes "0 \<le> l" and "l \<le> int N" and "- l \<le> m" and "m \<le> l"
  shows "source_column F N \<lparr> gain = g, azimuth = az, elevation = el, distance = d \<rparr>
           ! nat (AcnSequence l m)
       = (if fl_div F g (max d (1 / 2)) < fl_kNegative120dbInAmplitude F then 0
          else fl_mul F (spherical_harmonic F l m az el) (fl_div F g (max d (1 / 2))))"
proof -
  define n where "n = (N + 1) * (N + 1)"
  obtain sh where sh: "GetShCoeffs F az el N (replicate n 0) = Returned sh"
    and v: "sh ! nat (AcnSequence l m)
             = sh_value F (fl_mul F az (fl_kRadiansFromDegrees F))
                 (fl_sin F (fl_mul F el (fl_kRadiansFromDegrees F))) (l, m)"
    using GetShCoeffs_nth [of "replicate n 0" N l m F az el] assms by (auto simp: n_def)
  have i: "nat (AcnSequence l m) < n" unfolding n_def using assms by (rule acn_bounds(2))
  have "sh_value F (fl_mul F az (fl_kRadiansFromDegrees F))
          (fl_sin F (fl_mul F el (fl_kRadiansFromDegrees F))) (l, m)
      = spherical_harmonic F l m az el"
    by (simp add: sh_value_def spherical_harmonic_def Let_def)
  then show ?thesis
    unfolding source_column_eq [OF n_def sh] using i v by simp
qed

text \<open>
  Claim C3. Whatever the rounding of the operations: in every state of the encoder in
  which the matrix agrees with the cached source properties (the constructor gives one,
  \<^verbatim>\<open>SetSource\<close> and \<^verbatim>\<open>RemoveSource\<close> keep it), \<^verbatim>\<open>SetSource\<close> on an input channel
  \<open>c\<close> returns, and afterwards column \<open>c\<close> of the encoding matrix holds, in the row of
  ACN index \<open>\<ell>(\<ell> + 1) + m\<close> for every degree \<open>\<ell>\<close> up to the order and every \<open>m\<close> from
  \<open>-\<ell>\<close> to \<open>\<ell>\<close>: zero if the overall gain \<open>g = gain / max distance 0.5\<close> is below the
  threshold of -120 dB, and otherwise the SN3D-normalised real spherical harmonic of
  (azimuth, elevation), the angles being given in degrees, times \<open>g\<close>. The quotient,
  the products, the sine and the cosine are the operations of the arithmetic, applied
  as the code applies them.
\<close>

theorem SetSource_writes_scaled_sh_column:
  assumes "encoder_consistent F enc" and "zero_gain_muted F"
    and "c < number_of_input_channels enc"
    and "0 \<le> l" and "l \<le> int (ambisonic_order enc)" and "- l \<le> m" and "m \<le> l"
  shows "\<exists>enc'. SetSource F enc c g az el d = Returned enc' \<and>
      encoder_consistent F enc' \<and>
      encoding_matrix enc' ! nat (AcnSequence l m) ! c =
        (if fl_div F g (max d (1 / 2)) < fl_kNegative120dbInAmplitude F then 0
         else fl_mul F
                (fl_mul F
                   (fl_mul F (fl_Sn3dNormalization F l m)
                      (fl_AssociatedLegendre F (nat l) (nat \<bar>m\<bar>)
                         (fl_sin F (fl_mul F el (fl_kRadiansFromDegrees F)))))
                   (if 0 \<le> m
                    then fl_cos F (fl_mul F (fl_of_int F m)
                                     (fl_mul F az (fl_kRadiansFromDegrees F)))
                    else fl_sin F (fl_mul F (fl_of_int F (- m))
                                     (fl_mul F az (fl_kRadiansFromDegrees F)))))
                (fl_div F g (max d (1 / 2))))"
proof -
  let ?t = "\<lparr> gain = g, azimuth = az, elevation = el, distance = d \<rparr>"
  obtain enc' where r: "SetSource F enc c g az el d = Returned enc'"
    and cons: "encoder_consistent F enc'"
    and N: "ambisonic_order enc' = ambisonic_order enc"
    and nin: "number_of_input_channels enc' = number_of_input_channels enc"
    and src: "sources enc' c = Some ?t"
    using SetSource_consistent [OF assms(1,3,2), of g az el d] by blast
  have len: "length (encoding_matrix enc') = (ambisonic_order enc + 1) * (ambisonic_order enc + 1)"
    and col: "matrix_col (encoding_matrix enc') c = source_column F (ambisonic_order enc) ?t"
    using cons assms(3) src unfolding encoder_consistent_def list_all_iff N nin by auto
  have i: "nat (AcnSequence l m) < length (encoding_matrix enc')"
    unfolding len using assms(4-7) by (rule acn_bounds(2))
  have "encoding_matrix enc' ! nat (AcnSequence l m) ! c
      = matrix_col (encoding_matrix enc') c ! nat (AcnSequence l m)"
    using i by (simp add: matrix_col_def)
  also have "\<dots> = (if fl_div F g (max d (1 / 2)) < fl_kNegative120dbInAmplitude F then 0
          else fl_mul F (spherical_harmonic F l m az el) (fl_div F g (max d (1 / 2))))"
    unfolding col using assms(4-7) by (rule source_column_nth)
  finally show ?thesis
    using r cons by (simp add: spherical_harmonic_def)
qed

lemma zero_gain_muted_exact: "zero_gain_muted exact_arith"
  by (simp add: zero_gain_muted_def exact_arith_def kNegative120dbInAmplitude_def)

lemma encoder_consistent_enc0: "encoder_consistent F enc0"
  using AmbisonicEncoder_new_consistent [OF AmbisonicEncoder_new_example] .

lemma sh_loop_indices_1: "sh_loop_indices 1 = [(0, 0), (1, - 1), (1, 0), (1, 1)]"
  by (simp add: sh_loop_indices_def upto.simps)

lemma GetShCoeffs_example_60:
  "GetShCoeffs exact_arith 60 0 1 (replicate 4 0) = Returned [1, sqrt 3 / 2, 0, 1 / 2]"
proof -
  have r: "replicate 4 (0::real) = [0, 0, 0, 0]" by (simp add: numeral_eq_Suc)
  show ?thesis
    unfolding GetShCoeffs_def Let_def sh_loop_indices_1 r
    by (simp add: sh_store_def sh_value_def AcnSequence_def Sn3dNormalization_def Let_def
        exact_arith_def kRadiansFromDegrees_def cos_60 sin_60)
qed

lemma SetSource_example_60: "SetSource exact_arith enc0 1 2 60 0 4 = Returned enc2"
proof -
  have sh: "GetShCoeffs exact_arith 60 0 (Suc 0) (replicate 4 0)
          = Returned [1, sqrt 3 / 2, 0, 1 / 2]"
    using GetShCoeffs_example_60 by simp
  have k: "fl_kNegative120dbInAmplitude exact_arith = 1 / 1000000"
    "fl_div exact_arith = (/)" "fl_mul exact_arith = (*)"
    by (simp_all add: exact_arith_def kNegative120dbInAmplitude_def)
  show ?thesis
    by (simp add: SetSource_def enc0_def enc2_def sh k set_col_def upt_conv_Cons Let_def)
qed

theorem SetSource_writes_scaled_sh_column_witness:
  "encoder_consistent exact_arith enc0 \<and> zero_gain_muted exact_arith \<and>
   (1::nat) < number_of_input_channels enc0 \<and> (1::int) \<le> int (ambisonic_order enc0) \<and>
   SetSource exact_arith enc0 1 2 60 0 4 = Returned enc2 \<and>
   encoder_consistent exact_arith enc2 \<and>
   encoding_matrix enc2 ! 3 ! 1 = 1 / 4 \<and>
   encoding_matrix enc2 ! 1 ! 1 = sqrt 3 / 4 \<and>
   (\<exists>enc'. SetSource exact_arith enc2 0 (1 / 4000000) 60 0 (1 / 4) = Returned enc' \<and>
      encoder_consistent exact_arith enc' \<and> encoding_matrix enc' ! 3 ! 0 = 0)"
proof -
  have h1: "encoder_consistent exact_arith enc0" by (rule encoder_consistent_enc0)
  have h2: "zero_gain_muted exact_arith" by (rule zero_gain_muted_exact)
  have h3: "(1::nat) < number_of_input_channels enc0" by (simp add: enc0_def)
  have h4: "(1::int) \<le> int (ambisonic_order enc0)" by (simp add: enc0_def)
  have h5: "(0::nat) < number_of_input_channels enc2" "(1::int) \<le> int (ambisonic_order enc2)"
    by (simp_all add: enc2_def)
  have ex: "fl_kNegative120dbInAmplitude exact_arith = 1 / 1000000"
    "fl_div exact_arith = (/)" "fl_mul exact_arith = (*)" "fl_sin exact_arith = sin"
    "fl_cos exact_arith = cos" "fl_of_int exact_arith = of_int"
    "fl_kRadiansFromDegrees exact_arith = pi / 180"
    "fl_Sn3dNormalization exact_arith = Sn3dNormalization"
    "fl_AssociatedLegendre exact_arith = AssociatedLegendre"
    by (simp_all add: exact_arith_def kNegative120dbInAmplitude_def kRadiansFromDegrees_def)
  note t1 = SetSource_writes_scaled_sh_column
    [OF h1 h2 h3, of 1 1, OF _ h4, of 2 60 0 4, unfolded SetSource_example_60]
  have c1: "encoder_consistent exact_arith enc2 \<and> encoding_matrix enc2 ! 3 ! 1 = 1 / 4"
    using t1 by (simp add: AcnSequence_def ex Sn3dNormalization_def cos_60)
  note t2 = SetSource_writes_scaled_sh_column
    [OF h1 h2 h3, of 1 "- 1", OF _ h4, of 2 60 0 4, unfolded SetSource_example_60]
  have c2: "encoding_matrix enc2 ! 1 ! 1 = sqrt 3 / 4"
    using t2 by (simp add: AcnSequence_def ex Sn3dNormalization_def sin_60)
  note t3 = SetSource_writes_scaled_sh_column
    [OF conjunct1 [OF c1] h2 h5(1), of 1 1, OF _ h5(2), of "1 / 4000000" 60 0 "1 / 4"]
  have c3: "\<exists>enc'. SetSource exact_arith enc2 0 (1 / 4000000) 60 0 (1 / 4) = Returned enc' \<and>
      encoder_consistent exact_arith enc' \<and> encoding_matrix enc' ! 3 ! 0 = 0"
    using t3 by (simp add: AcnSequence_def ex)
  show ?thesis
    using h1 h2 h3 h4 SetSource_example_60 c1 c2 c3 by blast
qed

text \<open>After a call of \<^verbatim>\<open>SetSource\<close> that returns, the cache holds the given properties.\<close>

lemma SetSource_Returned:
  assumes "SetSource F enc c g az el d = Returned enc'"
  shows "number_of_input_channels enc' = number_of_input_channels enc"
    and "number_of_output_channels enc' = number_of_output_channels enc"
    and "number_of_input_channels enc \<noteq> 0" and "number_of_output_channels enc \<noteq> 0"
    and "c < number_of_input_channels enc"
    and "sources enc' c = Some \<lparr> gain = g, azimuth = az, elevation = el, distance = d \<rparr>"
proof -
  have chk: "number_of_input_channels enc \<noteq> 0 \<and> number_of_output_channels enc \<noteq> 0 \<and>
             c < number_of_input_channels enc"
    using assms by (simp add: SetSource_def split: if_splits)
  then show "number_of_input_channels enc \<noteq> 0" "number_of_output_channels enc \<noteq> 0"
    "c < number_of_input_channels enc" by simp_all
  define srcs where "srcs = (if sources enc c = None
                    then (sources enc)(c \<mapsto>
                           \<lparr> gain = 0, azimuth = 0, elevation = 0, distance = 0 \<rparr>)
                    else sources enc)"
  define cur where "cur = the (srcs c)"
  have cur: "srcs c = Some cur" by (auto simp: srcs_def cur_def)
  show "number_of_input_channels enc' = number_of_input_channels enc"
    "number_of_output_channels enc' = number_of_output_channels enc"
    "sources enc' c = Some \<lparr> gain = g, azimuth = az, elevation = el, distance = d \<rparr>"
  proof (atomize (full), cases "gain cur = g \<and> azimuth cur = az \<and> elevation cur = el \<and> distance cur = d")
    case True
    then have "cur = \<lparr> gain = g, azimuth = az, elevation = el, distance = d \<rparr>" by (cases cur) simp
    moreover have "enc' = enc\<lparr>sources := srcs\<rparr>"
      using assms unfolding SetSource_def Let_def srcs_def [symmetric] cur_def [symmetric]
      by (simp add: chk True)
    ultimately show "number_of_input_channels enc' = number_of_input_channels enc \<and>
      number_of_output_channels enc' = number_of_output_channels enc \<and>
      sources enc' c = Some \<lparr> gain = g, azimuth = az, elevation = el, distance = d \<rparr>"
      using cur by simp
  next
    case False
    have "SetSource F enc c g az el d =
      (let srcs' = srcs(c \<mapsto> \<lparr> gain = g, azimuth = az, elevation = el, distance = d \<rparr>);
           overall_gain = fl_div F g (max d (1 / 2))
       in if overall_gain < fl_kNegative120dbInAmplitude F
          then Returned (enc\<lparr>sources := srcs',
                  encoding_matrix := set_col_zero (encoding_matrix enc) c\<rparr>)
          else
            (case GetShCoeffs F az el (ambisonic_order enc)
                    (replicate (number_of_output_channels enc) 0) of
               Aborted \<Rightarrow> Aborted
             | Returned sh_coeffs \<Rightarrow>
                 Returned (enc\<lparr>sources := srcs',
                   encoding_matrix :=
                     set_col (encoding_matrix enc) c
                       (map (\<lambda>i. fl_mul F (sh_coeffs ! i) overall_gain)
                            [0..<number_of_output_channels enc])\<rparr>)))"
      unfolding SetSource_def Let_def srcs_def [symmetric] cur_def [symmetric]
      by (simp add: chk False)
    with assms show "number_of_input_channels enc' = number_of_input_channels enc \<and>
      number_of_output_channels enc' = number_of_output_channels enc \<and>
      sources enc' c = Some \<lparr> gain = g, azimuth = az, elevation = el, distance = d \<rparr>"
      by (auto simp: Let_def split: if_splits outcome.splits)
  qed
qed

lemma SetSource_cached:
  assumes "sources enc c = Some \<lparr> gain = g, azimuth = az, elevation = el, distance = d \<rparr>"
    and "c < number_of_input_channels enc" and "number_of_output_channels enc \<noteq> 0"
  shows "SetSource F enc c g az el d = Returned enc"
  using assms by (simp add: SetSource_def)

text \<open>
  Claim C7. \<^verbatim>\<open>SetSource\<close> is idempotent: once a call for a channel has returned, the
  cache holds the given properties, and a second call with the same properties returns
  the very same encoder state (sources, matrix and all), so that whatever is processed
  next is processed with the same state.
\<close>

theorem SetSource_idempotent:
  assumes "SetSource F enc c g az el d = Returned enc'"
  shows "sources enc' c = Some \<lparr> gain = g, azimuth = az, elevation = el, distance = d \<rparr> \<and>
         SetSource F enc' c g az el d = Returned enc' \<and>
         ProcessPlanarAudioData enc' input output
           = (case SetSource F enc' c g az el d of
                Aborted \<Rightarrow> Aborted
              | Returned enc'' \<Rightarrow> ProcessPlanarAudioData enc'' input output)"
proof -
  note r = SetSource_Returned [OF assms]
  have "SetSource F enc' c g az el d = Returned enc'"
    by (rule SetSource_cached) (simp_all add: r)
  then show ?thesis using r(6) by simp
qed

lemma GetShCoeffs_example: "GetShCoeffs exact_arith 0 0 1 (replicate 4 0) = Returned [1, 0, 0, 1]"
proof -
  have r: "replicate 4 (0::real) = [0, 0, 0, 0]" by (simp add: numeral_eq_Suc)
  show ?thesis
    unfolding GetShCoeffs_def Let_def sh_loop_indices_1 r
    by (simp add: sh_store_def sh_value_def AcnSequence_def Sn3dNormalization_def Let_def
        exact_arith_def kRadiansFromDegrees_def)
qed

lemma SetSource_example: "SetSource exact_arith enc0 0 1 0 0 1 = Returned enc1"
proof -
  have sh: "GetShCoeffs exact_arith 0 0 (Suc 0) (replicate 4 0) = Returned [1, 0, 0, 1]"
    using GetShCoeffs_example by simp
  have k: "fl_kNegative120dbInAmplitude exact_arith = 1 / 1000000"
    "fl_div exact_arith = (/)" "fl_mul exact_arith = (*)"
    by (simp_all add: exact_arith_def kNegative120dbInAmplitude_def)
  show ?thesis
    by (simp add: SetSource_def enc0_def enc1_def sh k set_col_def upt_conv_Cons Let_def)
qed

theorem SetSource_idempotent_witness:
  "SetSource exact_arith enc0 0 1 0 0 1 = Returned enc1 \<and>
   sources enc1 0 = Some \<lparr> gain = 1, azimuth = 0, elevation = 0, distance = 1 \<rparr> \<and>
   SetSource exact_arith enc1 0 1 0 0 1 = Returned enc1 \<and>
   ProcessPlanarAudioData enc1 x0 out0
     = (case SetSource exact_arith enc1 0 1 0 0 1 of
          Aborted \<Rightarrow> Aborted
        | Returned enc'' \<Rightarrow> ProcessPlanarAudioData enc'' x0 out0)"
  by (rule conjI [OF SetSource_example SetSource_idempotent [OF SetSource_example, of x0 out0]])

subsection \<open>The renderer\<close>

lemma to_string_digit: "n < 10 \<Longrightarrow> to_string n = [''0123456789'' ! n]"
  by simp

declare to_string.simps [simp del]

lemma ObrImpl_new_example: "ObrImpl_new 1 48000 = Returned obr_empty"
  by (simp add: ObrImpl_new_def obr_empty_def)

lemma ObrImpl_new_example_12345: "ObrImpl_new 1 12345 = Returned obr_empty_12345"
  by (simp add: ObrImpl_new_def obr_empty_def obr_empty_12345_def)

lemma AudioElementConfig_new_1OA: "AudioElementConfig_new k1OA = Returned (element_1OA 0)"
  by (simp add: AudioElementConfig_new_def IsAmbisonicsType_def kMinSupportedAmbisonicOrder_def
      kMaxSupportedAmbisonicOrder_def SetFirstChannelIndex_def set_channel_indices_def
      AmbisonicSceneInputChannel_new_def element_1OA_def upt_conv_Cons to_string_digit)


lemma CreateShHrirsFromAssets_env1:
  "name = ''1OA_L'' \<or> name = ''1OA_R'' \<Longrightarrow>
   CreateShHrirsFromAssets env1 name 48000 = Returned (AudioBuffer_new 4 2)"
  by (auto simp: CreateShHrirsFromAssets_def CreateShHrirsFromWav_def env1_def wav_1OA_def Let_def)

lemma indices_of_ambisonic:
  "list_all (\<lambda>e. IsAmbisonicsType (ae_type e)) els \<Longrightarrow>
   concat (map (\<lambda>audio_element.
                    if IsLoudspeakerLayoutType (ae_type audio_element)
                       \<or> IsObjectType (ae_type audio_element)
                    then map (\<lambda>i. first_channel_index audio_element + i)
                             [0..<ae_number_of_input_channels audio_element]
                    else []) els) = []"
  by (induction els) (auto simp: IsLoudspeakerLayoutType_def IsObjectType_def IsAmbisonicsType_def)

lemma indices_ambisonic:
  "list_all (\<lambda>e. IsAmbisonicsType (ae_type e)) (audio_elements s) \<Longrightarrow>
   GetAmbisonicEncoderSourceChannelIndices s = []"
  unfolding GetAmbisonicEncoderSourceChannelIndices_def by (rule indices_of_ambisonic)

lemma InitializeEncoder_no_sources:
  "GetAmbisonicEncoderSourceChannelIndices s = [] \<Longrightarrow>
   InitializeEncoder env s order = Returned (OkStatus, s)"
  by (simp add: InitializeEncoder_def)

lemma element_1OA_simps [simp]:
  "ae_type (element_1OA n) = k1OA"
  "first_channel_index (element_1OA n) = n"
  "ae_number_of_input_channels (element_1OA n) = 4"
  "binaural_filters_ambisonic_order (element_1OA n) = 1"
  by (simp_all add: element_1OA_def)

lemma InitializeDecoder_env1:
  assumes "sampling_rate s = 48000" and "buffer_size_per_channel s = 1"
  shows "InitializeDecoder env1 s 1 =
     Returned (OkStatus,
       s\<lparr>ambisonic_rotator := Some (),
         sh_hrirs_L := Some (AudioBuffer_new 4 2),
         sh_hrirs_R := Some (AudioBuffer_new 4 2),
         ambisonic_binaural_decoder := Some (),
         peak_limiter := Some (PeakLimiter_new real_arith 48000 50 (- 1 / 2))\<rparr>)"
proof -
  have "AmbisonicBinauralDecoder_new env1 (AudioBuffer_new 4 2) (AudioBuffer_new 4 2) 1
      = Returned ()"
    by (simp add: AmbisonicBinauralDecoder_new_def AudioBuffer_new_def num_channels_def)
  moreover have "limiter_ops env1 = real_arith" by (simp add: env1_def)
  ultimately show ?thesis
    by (simp add: InitializeDecoder_def to_string_digit CreateShHrirsFromAssets_env1 assms)
qed

lemma InitializeDsp_1OA:
  assumes els: "elements = [element_1OA 0] \<or> elements = [element_1OA 0, element_1OA 4]"
    and s: "s = obr_configured prev \<or> s = obr_empty"
  shows "InitializeDsp env1 (s\<lparr>audio_elements := elements\<rparr>)
       = Returned (OkStatus, obr_configured elements)"
proof -
  let ?s = "s\<lparr>audio_elements := elements\<rparr>"
  let ?s2 = "(snd (ResetDsp ?s))\<lparr>ambisonic_mix_bed := AudioBuffer_new 4 1\<rparr>"
  have four: "(1 + 1) * (1 + 1) = (4::nat)" by simp
  have ne: "audio_elements ?s \<noteq> []" and order: "binaural_filters_ambisonic_order (audio_elements ?s ! 0) = 1"
    and n: "GetNumberOfInputChannels ?s \<noteq> 0"
    and amb: "list_all (\<lambda>e. IsAmbisonicsType (ae_type e)) elements"
    using els by (auto simp: GetNumberOfInputChannels_def IsAmbisonicsType_def)
  have b: "buffer_size_per_channel (snd (ResetDsp ?s)) = 1" and r: "sampling_rate ?s2 = 48000"
    and b2: "buffer_size_per_channel ?s2 = 1"
    using s by (auto simp: ResetDsp_def obr_configured_def obr_empty_def)
  have enc: "InitializeEncoder env1 ?s2 1 = Returned (OkStatus, ?s2)"
    by (rule InitializeEncoder_no_sources, rule indices_ambisonic) (simp add: ResetDsp_def amb)
  have fin: "?s2\<lparr>ambisonic_rotator := Some (),
         sh_hrirs_L := Some (AudioBuffer_new 4 2),
         sh_hrirs_R := Some (AudioBuffer_new 4 2),
         ambisonic_binaural_decoder := Some (),
         peak_limiter := Some (PeakLimiter_new real_arith 48000 50 (- 1 / 2))\<rparr> = obr_configured elements"
    using s by (auto simp: ResetDsp_def obr_configured_def obr_empty_def)
  have "InitializeDsp env1 ?s =
      (case InitializeEncoder env1 ?s2 1 of
         Aborted \<Rightarrow> Aborted
       | Returned (status, s3) \<Rightarrow>
           if status \<noteq> OkStatus then Returned (status, s3) else InitializeDecoder env1 s3 1)"
    unfolding InitializeDsp_def Let_def order b four
    using ne n by (simp add: kMinSupportedAmbisonicOrder_def kMaxSupportedAmbisonicOrder_def)
  then have "InitializeDsp env1 ?s = InitializeDecoder env1 ?s2 1"
    unfolding enc by simp
  also have "\<dots> = Returned (OkStatus, ?s2\<lparr>ambisonic_rotator := Some (),
         sh_hrirs_L := Some (AudioBuffer_new 4 2),
         sh_hrirs_R := Some (AudioBuffer_new 4 2),
         ambisonic_binaural_decoder := Some (),
         peak_limiter := Some (PeakLimiter_new real_arith 48000 50 (- 1 / 2))\<rparr>)"
    by (rule InitializeDecoder_env1 [OF r b2])
  finally show ?thesis unfolding fin .
qed

lemma AddAudioElement_first_1OA: "AddAudioElement env1 obr_empty k1OA = Returned (OkStatus, obr_1OA)"
proof -
  have "InitializeDsp env1 (obr_empty\<lparr>audio_elements := [element_1OA 0]\<rparr>)
      = Returned (OkStatus, obr_configured [element_1OA 0])"
    by (rule InitializeDsp_1OA) simp_all
  moreover have "audio_elements obr_empty = []" by (simp add: obr_empty_def)
  moreover have "kMaxSupportedNumInputChannels env1 = 128" by (simp add: env1_def)
  ultimately show ?thesis
    by (simp add: AddAudioElement_def AudioElementConfig_new_1OA obr_1OA_def
        GetNumberOfInputChannels_def)
qed

lemma audio_elements_obr_configured [simp]: "audio_elements (obr_configured els) = els"
  by (simp add: obr_configured_def)


text \<open>Every element type gives a configuration, and it has at least one input channel.\<close>

lemma SetFirstChannelIndex_simps [simp]:
  "ae_number_of_input_channels (SetFirstChannelIndex cfg n) = ae_number_of_input_channels cfg"
  "ae_type (SetFirstChannelIndex cfg n) = ae_type cfg"
  "binaural_filters_ambisonic_order (SetFirstChannelIndex cfg n)
     = binaural_filters_ambisonic_order cfg"
  "first_channel_index (SetFirstChannelIndex cfg n) = n"
  by (simp_all add: SetFirstChannelIndex_def)

lemma AudioElementConfig_new_returns:
  "\<exists>cfg. AudioElementConfig_new t = Returned cfg \<and> ae_type cfg = t \<and>
         0 < ae_number_of_input_channels cfg"
  by (cases t)
     (simp_all add: AudioElementConfig_new_def IsAmbisonicsType_def IsObjectType_def
       IsLoudspeakerLayoutType_def kMinSupportedAmbisonicOrder_def
       kMaxSupportedAmbisonicOrder_def getLoudspeakerLayout_def Let_def)

lemma type_channel_count:
  "AudioElementConfig_new t = Returned cfg \<Longrightarrow> ae_number_of_input_channels cfg = type_channel_count t"
  by (simp add: type_channel_count_def)

text \<open>Once it has passed its two early returns, the initialisation returns OK or not at all.\<close>

lemma UpdateAmbisonicEncoder_status:
  "UpdateAmbisonicEncoder env s = Returned (st, s') \<Longrightarrow> ambisonic_encoder s \<noteq> None \<Longrightarrow>
   st = OkStatus \<and> sampling_rate s' = sampling_rate s"
  by (auto simp: UpdateAmbisonicEncoder_def split: option.splits outcome.splits)

lemma InitializeEncoder_status:
  "InitializeEncoder env s order = Returned (st, s') \<Longrightarrow>
   st = OkStatus \<and> sampling_rate s' = sampling_rate s"
  by (auto simp: InitializeEncoder_def Let_def split: if_splits outcome.splits
      dest!: UpdateAmbisonicEncoder_status)

lemma InitializeDecoder_status:
  "InitializeDecoder env s order = Returned (st, s') \<Longrightarrow> st = OkStatus"
  by (auto simp: InitializeDecoder_def Let_def split: if_splits outcome.splits)

lemma InitializeDsp_status:
  assumes "InitializeDsp env s = Returned (st, s')"
    and "audio_elements s \<noteq> []" and "GetNumberOfInputChannels s \<noteq> 0"
  shows "st = OkStatus"
  using assms
  by (auto simp: InitializeDsp_def Let_def split: if_splits outcome.splits
      dest: InitializeEncoder_status InitializeDecoder_status)

lemma AddAudioElement_cases:
  obtains (mismatch) "audio_elements s \<noteq> []" "ae_type (last (audio_elements s)) \<noteq> t"
      "AddAudioElement env s t =
         Returned (FailedPreconditionError ''Only same-typed audio elements are supported.'', s)"
  | (budget) "\<not> (audio_elements s \<noteq> [] \<and> ae_type (last (audio_elements s)) \<noteq> t)"
      "GetNumberOfInputChannels s + type_channel_count t > kMaxSupportedNumInputChannels env"
      "AddAudioElement env s t =
         Returned (ResourceExhaustedError ''More input channels requested than supported.'', s)"
  | (init) cfg where
      "\<not> (audio_elements s \<noteq> [] \<and> ae_type (last (audio_elements s)) \<noteq> t)"
      "\<not> GetNumberOfInputChannels s + type_channel_count t > kMaxSupportedNumInputChannels env"
      "ae_type cfg = t" "ae_number_of_input_channels cfg = type_channel_count t"
      "0 < type_channel_count t"
      "AddAudioElement env s t = InitializeDsp env (s\<lparr>audio_elements := audio_elements s @ [cfg]\<rparr>)"
      "\<exists>cfg0. AudioElementConfig_new t = Returned cfg0 \<and>
         binaural_filters_ambisonic_order cfg = binaural_filters_ambisonic_order cfg0"
proof -
  obtain cfg0 where cfg0: "AudioElementConfig_new t = Returned cfg0" "ae_type cfg0 = t"
    "0 < ae_number_of_input_channels cfg0"
    using AudioElementConfig_new_returns by blast
  note n = type_channel_count [OF cfg0(1)]
  define cfg where "cfg = (if audio_elements s \<noteq> [] then
                     SetFirstChannelIndex cfg0
                       (first_channel_index (last (audio_elements s))
                          + ae_number_of_input_channels (last (audio_elements s)))
                   else cfg0)"
  have c: "ae_type cfg = t" "ae_number_of_input_channels cfg = type_channel_count t"
    "\<exists>cfg0. AudioElementConfig_new t = Returned cfg0 \<and>
         binaural_filters_ambisonic_order cfg = binaural_filters_ambisonic_order cfg0"
    using cfg0(1,2) n by (simp_all add: cfg_def)
  show ?thesis
  proof (cases "audio_elements s \<noteq> [] \<and> ae_type (last (audio_elements s)) \<noteq> t")
    case True
    then show ?thesis by (intro mismatch) (simp_all add: AddAudioElement_def)
  next
    case False
    have unfold: "AddAudioElement env s t =
        (if GetNumberOfInputChannels s + ae_number_of_input_channels cfg
              > kMaxSupportedNumInputChannels env
         then Returned (ResourceExhaustedError
                          ''More input channels requested than supported.'', s)
         else InitializeDsp env (s\<lparr>audio_elements := audio_elements s @ [cfg]\<rparr>))"
      by (simp add: AddAudioElement_def cfg0(1) Let_def False cfg_def)
    show ?thesis
    proof (cases "GetNumberOfInputChannels s + type_channel_count t > kMaxSupportedNumInputChannels env")
      case True
      then show ?thesis using False unfold c by (intro budget) simp_all
    next
      case nb: False
      show ?thesis
        by (rule init [of cfg]) (use False nb unfold c cfg0(3) n in simp_all)
    qed
  qed
qed

text \<open>
  Claim C2. Whatever the environment, the state of the renderer and the element type: a
  call of \<^verbatim>\<open>AddAudioElement\<close> that returns an error returns the state it was given,
  with its element list, encoder, rotator, filters, decoder, limiter and mix bed. (The
  errors are returned before anything is changed; once the element has been appended,
  the initialisation of the DSP returns OK or ends the program.)
\<close>

theorem AddAudioElement_error_keeps_state:
  assumes "AddAudioElement env s t = Returned (st, s')" and "st \<noteq> OkStatus"
  shows "s' = s"
proof (cases rule: AddAudioElement_cases [of s t env])
  case mismatch
  then show ?thesis using assms by simp
next
  case budget
  then show ?thesis using assms by simp
next
  case (init cfg)
  let ?s1 = "s\<lparr>audio_elements := audio_elements s @ [cfg]\<rparr>"
  have "GetNumberOfInputChannels ?s1 \<noteq> 0"
    using init(4,5) by (simp add: GetNumberOfInputChannels_def)
  moreover have "audio_elements ?s1 \<noteq> []" by simp
  moreover have "InitializeDsp env ?s1 = Returned (st, s')" using assms(1) init(6) by simp
  ultimately have "st = OkStatus" using InitializeDsp_status by blast
  then show ?thesis using assms(2) by simp
qed

theorem AddAudioElement_error_keeps_state_witness:
  "AddAudioElement env1 obr_1OA k3OA
     = Returned (FailedPreconditionError ''Only same-typed audio elements are supported.'', obr_1OA)
   \<and> FailedPreconditionError ''Only same-typed audio elements are supported.'' \<noteq> OkStatus
   \<and> obr_1OA = obr_1OA"
proof -
  have h1: "AddAudioElement env1 obr_1OA k3OA
     = Returned (FailedPreconditionError ''Only same-typed audio elements are supported.'', obr_1OA)"
    by (simp add: AddAudioElement_def obr_1OA_def)
  have h2: "FailedPreconditionError ''Only same-typed audio elements are supported.'' \<noteq> OkStatus"
    by simp
  show ?thesis using h1 h2 AddAudioElement_error_keeps_state [OF h1 h2] by blast
qed

text \<open>
  Claim C8 as stated fails: after a first-order Ambisonic element, a third-order one is
  refused. The two elements are of the same kind, but the renderer compares the element
  types themselves.
\<close>

theorem AddAudioElement_other_order_counterexample:
  "AddAudioElement env1 obr_empty k1OA = Returned (OkStatus, obr_1OA) \<and>
   AddAudioElement env1 obr_1OA k3OA
     = Returned (FailedPreconditionError ''Only same-typed audio elements are supported.'', obr_1OA)"
  by (simp add: AddAudioElement_first_1OA) (simp add: AddAudioElement_def obr_1OA_def)

text \<open>
  Claim C8, amended. \<^verbatim>\<open>AddAudioElement\<close> returns an error exactly when there are
  elements already and the type of the new element (for Ambisonics: including its
  order) differs from the type of the last one, or when the new total number of input
  channels would exceed the maximum.
\<close>

theorem AddAudioElement_fails_iff:
  "(\<exists>st s'. AddAudioElement env s t = Returned (st, s') \<and> st \<noteq> OkStatus) \<longleftrightarrow>
   (audio_elements s \<noteq> [] \<and> ae_type (last (audio_elements s)) \<noteq> t) \<or>
   GetNumberOfInputChannels s + type_channel_count t > kMaxSupportedNumInputChannels env"
proof (cases rule: AddAudioElement_cases [of s t env])
  case mismatch
  then show ?thesis by simp
next
  case budget
  then show ?thesis by simp
next
  case (init cfg)
  let ?s1 = "s\<lparr>audio_elements := audio_elements s @ [cfg]\<rparr>"
  have "GetNumberOfInputChannels ?s1 \<noteq> 0"
    using init(4,5) by (simp add: GetNumberOfInputChannels_def)
  moreover have "audio_elements ?s1 \<noteq> []" by simp
  ultimately have "st = OkStatus" if "InitializeDsp env ?s1 = Returned (st, s')" for st s'
    using that InitializeDsp_status by blast
  then show ?thesis using init(1,2,6) by auto
qed

theorem AddAudioElement_fails_iff_witness:
  "(\<exists>st s'. AddAudioElement env1 obr_1OA k3OA = Returned (st, s') \<and> st \<noteq> OkStatus) \<and>
   audio_elements obr_1OA \<noteq> [] \<and> ae_type (last (audio_elements obr_1OA)) \<noteq> k3OA"
proof -
  have "audio_elements obr_1OA \<noteq> [] \<and> ae_type (last (audio_elements obr_1OA)) \<noteq> k3OA"
    by (simp add: obr_1OA_def)
  then show ?thesis using AddAudioElement_fails_iff [of env1 obr_1OA k3OA] by blast
qed

text \<open>The HRIR loaders stop the program; the renderer hands that on.\<close>

lemma InitializeDsp_aborts_with_left_filters:
  assumes "audio_elements s \<noteq> []" and "GetNumberOfInputChannels s \<noteq> 0"
    and "CreateShHrirsFromAssets env
           (to_string (binaural_filters_ambisonic_order (audio_elements s ! 0)) @ ''OA_L'')
           (sampling_rate s) = Aborted"
  shows "InitializeDsp env s = Aborted"
proof -
  let ?order = "binaural_filters_ambisonic_order (audio_elements s ! 0)"
  let ?s2 = "(snd (ResetDsp s))\<lparr>ambisonic_mix_bed :=
               AudioBuffer_new ((?order + 1) * (?order + 1)) (buffer_size_per_channel (snd (ResetDsp s)))\<rparr>"
  have rate: "sampling_rate ?s2 = sampling_rate s" by (simp add: ResetDsp_def)
  have dec: "InitializeDecoder env s3 ?order = Aborted" if "sampling_rate s3 = sampling_rate s" for s3
    using assms(3) that by (simp add: InitializeDecoder_def)
  show ?thesis
  proof (cases "InitializeEncoder env ?s2 ?order")
    case Aborted
    then show ?thesis using assms(1,2) by (simp add: InitializeDsp_def Let_def)
  next
    case (Returned r)
    obtain st s3 where r: "r = (st, s3)" by (cases r)
    have "st = OkStatus" "sampling_rate s3 = sampling_rate s"
      using InitializeEncoder_status [of env ?s2 ?order st s3] Returned r rate by simp_all
    then show ?thesis
      using assms(1,2) Returned r dec [of s3] by (simp add: InitializeDsp_def Let_def)
  qed
qed

lemma InitializeDsp_aborts_with_filters:
  assumes "audio_elements s \<noteq> []" and "GetNumberOfInputChannels s \<noteq> 0"
    and "CreateShHrirsFromAssets env
           (to_string (binaural_filters_ambisonic_order (audio_elements s ! 0)) @ ''OA_L'')
           (sampling_rate s) = Aborted \<or>
         CreateShHrirsFromAssets env
           (to_string (binaural_filters_ambisonic_order (audio_elements s ! 0)) @ ''OA_R'')
           (sampling_rate s) = Aborted"
  shows "InitializeDsp env s = Aborted"
proof -
  let ?order = "binaural_filters_ambisonic_order (audio_elements s ! 0)"
  let ?s2 = "(snd (ResetDsp s))\<lparr>ambisonic_mix_bed :=
               AudioBuffer_new ((?order + 1) * (?order + 1)) (buffer_size_per_channel (snd (ResetDsp s)))\<rparr>"
  have rate: "sampling_rate ?s2 = sampling_rate s" by (simp add: ResetDsp_def)
  have dec: "InitializeDecoder env s3 ?order = Aborted" if "sampling_rate s3 = sampling_rate s" for s3
    using assms(3) by (auto simp: InitializeDecoder_def Let_def that split: outcome.splits)
  show ?thesis
  proof (cases "InitializeEncoder env ?s2 ?order")
    case Aborted
    then show ?thesis using assms(1,2) by (simp add: InitializeDsp_def Let_def)
  next
    case (Returned r)
    obtain st s3 where r: "r = (st, s3)" by (cases r)
    have "st = OkStatus" "sampling_rate s3 = sampling_rate s"
      using InitializeEncoder_status [of env ?s2 ?order st s3] Returned r rate by simp_all
    then show ?thesis
      using assms(1,2) Returned r dec [of s3] by (simp add: InitializeDsp_def Let_def)
  qed
qed

text \<open>
  Claim C1 as stated fails: with a renderer constructed for 12345 Hz, adding an element
  finds the 48 kHz filters, the pair of rates is not supported, and the program is ended
  by \<^verbatim>\<open>LOG(FATAL)\<close>; no error is returned.
\<close>

theorem AddAudioElement_unsupported_rate_counterexample:
  "ObrImpl_new 1 12345 = Returned obr_empty_12345 \<and>
   AddAudioElement env1 obr_empty_12345 k1OA = Aborted"
proof -
  let ?s1 = "obr_empty_12345\<lparr>audio_elements := audio_elements obr_empty_12345 @ [element_1OA 0]\<rparr>"
  have "CreateShHrirsFromAssets env1 ''1OA_L'' 12345 = Aborted"
    by (simp add: CreateShHrirsFromAssets_def CreateShHrirsFromWav_def env1_def wav_1OA_def Let_def)
  then have "InitializeDsp env1 ?s1 = Aborted"
    by (intro InitializeDsp_aborts_with_left_filters)
       (simp_all add: GetNumberOfInputChannels_def obr_empty_12345_def obr_empty_def to_string_digit)
  moreover have "audio_elements obr_empty_12345 = []"
    by (simp add: obr_empty_12345_def obr_empty_def)
  moreover have "kMaxSupportedNumInputChannels env1 = 128" by (simp add: env1_def)
  ultimately show ?thesis
    by (simp add: ObrImpl_new_example_12345 AddAudioElement_def AudioElementConfig_new_1OA
        GetNumberOfInputChannels_def)
qed

text \<open>
  Claim C1, amended. \<^verbatim>\<open>AddAudioElement\<close> returns two errors, each typed and with its
  message: \<^verbatim>\<open>FailedPrecondition\<close> when the type of the new element differs from the
  configured one, and otherwise \<^verbatim>\<open>ResourceExhausted\<close> when the channel budget would be
  exceeded; an error that it returns is one of the two, and comes with its cause. A
  missing HRIR asset and an unsupported pair of HRIR sampling rates are not returned as
  errors: the loaders end the program, and so does every call of \<^verbatim>\<open>AddAudioElement\<close>
  that gets past the two checks and whose load of the left or of the right filters ends
  the program.
\<close>

theorem configuration_errors_typed_or_fatal:
  "(audio_elements s \<noteq> [] \<and> ae_type (last (audio_elements s)) \<noteq> t \<longrightarrow>
      AddAudioElement env s t =
        Returned (FailedPreconditionError ''Only same-typed audio elements are supported.'', s)) \<and>
   (\<not> (audio_elements s \<noteq> [] \<and> ae_type (last (audio_elements s)) \<noteq> t) \<longrightarrow>
    GetNumberOfInputChannels s + type_channel_count t > kMaxSupportedNumInputChannels env \<longrightarrow>
      AddAudioElement env s t =
        Returned (ResourceExhaustedError ''More input channels requested than supported.'', s)) \<and>
   (AddAudioElement env s t = Returned (st, s') \<longrightarrow> st \<noteq> OkStatus \<longrightarrow>
      (st = FailedPreconditionError ''Only same-typed audio elements are supported.'' \<and>
       audio_elements s \<noteq> [] \<and> ae_type (last (audio_elements s)) \<noteq> t) \<or>
      (st = ResourceExhaustedError ''More input channels requested than supported.'' \<and>
       \<not> (audio_elements s \<noteq> [] \<and> ae_type (last (audio_elements s)) \<noteq> t) \<and>
       GetNumberOfInputChannels s + type_channel_count t > kMaxSupportedNumInputChannels env)) \<and>
   (GetFile env filename = None \<longrightarrow> CreateShHrirsFromAssets env filename rate = Aborted) \<and>
   (wav_sample_rate wav \<noteq> rate \<longrightarrow> \<not> AreSampleRatesSupported env (wav_sample_rate wav) rate \<longrightarrow>
      CreateShHrirsFromWav env wav rate = Aborted) \<and>
   (GetFile env filename = Some data \<longrightarrow> Wav_CreateOrNull env data = Some wav \<longrightarrow>
    wav_sample_rate wav \<noteq> rate \<longrightarrow> \<not> AreSampleRatesSupported env (wav_sample_rate wav) rate \<longrightarrow>
      CreateShHrirsFromAssets env filename rate = Aborted) \<and>
   (AudioElementConfig_new t = Returned cfg \<longrightarrow>
    \<not> (audio_elements s \<noteq> [] \<and> ae_type (last (audio_elements s)) \<noteq> t) \<longrightarrow>
    \<not> GetNumberOfInputChannels s + type_channel_count t > kMaxSupportedNumInputChannels env \<longrightarrow>
    CreateShHrirsFromAssets env
      (to_string (binaural_filters_ambisonic_order ((audio_elements s @ [cfg]) ! 0)) @ ''OA_L'')
      (sampling_rate s) = Aborted \<or>
    CreateShHrirsFromAssets env
      (to_string (binaural_filters_ambisonic_order ((audio_elements s @ [cfg]) ! 0)) @ ''OA_R'')
      (sampling_rate s) = Aborted \<longrightarrow>
    AddAudioElement env s t = Aborted)"
proof (intro conjI impI)
  assume "audio_elements s \<noteq> [] \<and> ae_type (last (audio_elements s)) \<noteq> t"
  then show "AddAudioElement env s t =
        Returned (FailedPreconditionError ''Only same-typed audio elements are supported.'', s)"
    by (simp add: AddAudioElement_def)
next
  assume a: "\<not> (audio_elements s \<noteq> [] \<and> ae_type (last (audio_elements s)) \<noteq> t)"
    and b: "GetNumberOfInputChannels s + type_channel_count t > kMaxSupportedNumInputChannels env"
  show "AddAudioElement env s t =
        Returned (ResourceExhaustedError ''More input channels requested than supported.'', s)"
  proof (cases rule: AddAudioElement_cases [of s t env])
    case mismatch
    then show ?thesis using a by simp
  next
    case budget
    then show ?thesis by simp
  next
    case (init c)
    then show ?thesis using b by simp
  qed
next
  assume r: "AddAudioElement env s t = Returned (st, s')" and ne: "st \<noteq> OkStatus"
  show "(st = FailedPreconditionError ''Only same-typed audio elements are supported.'' \<and>
       audio_elements s \<noteq> [] \<and> ae_type (last (audio_elements s)) \<noteq> t) \<or>
      (st = ResourceExhaustedError ''More input channels requested than supported.'' \<and>
       \<not> (audio_elements s \<noteq> [] \<and> ae_type (last (audio_elements s)) \<noteq> t) \<and>
       GetNumberOfInputChannels s + type_channel_count t > kMaxSupportedNumInputChannels env)"
  proof (cases rule: AddAudioElement_cases [of s t env])
    case mismatch
    then show ?thesis using r by simp
  next
    case budget
    then show ?thesis using r by simp
  next
    case (init c)
    let ?s1 = "s\<lparr>audio_elements := audio_elements s @ [c]\<rparr>"
    have "GetNumberOfInputChannels ?s1 \<noteq> 0"
      using init(4,5) by (simp add: GetNumberOfInputChannels_def)
    moreover have "audio_elements ?s1 \<noteq> []" by simp
    moreover have "InitializeDsp env ?s1 = Returned (st, s')" using r init(6) by simp
    ultimately have "st = OkStatus" using InitializeDsp_status by blast
    then show ?thesis using ne by simp
  qed
next
  assume "GetFile env filename = None"
  then show "CreateShHrirsFromAssets env filename rate = Aborted"
    by (simp add: CreateShHrirsFromAssets_def)
next
  assume "wav_sample_rate wav \<noteq> rate" "\<not> AreSampleRatesSupported env (wav_sample_rate wav) rate"
  then show "CreateShHrirsFromWav env wav rate = Aborted"
    by (simp add: CreateShHrirsFromWav_def Let_def)
next
  assume "GetFile env filename = Some data" "Wav_CreateOrNull env data = Some wav"
    "wav_sample_rate wav \<noteq> rate" "\<not> AreSampleRatesSupported env (wav_sample_rate wav) rate"
  then show "CreateShHrirsFromAssets env filename rate = Aborted"
    by (simp add: CreateShHrirsFromAssets_def CreateShHrirsFromWav_def Let_def)
next
  assume cfg: "AudioElementConfig_new t = Returned cfg"
    and a: "\<not> (audio_elements s \<noteq> [] \<and> ae_type (last (audio_elements s)) \<noteq> t)"
    and b: "\<not> GetNumberOfInputChannels s + type_channel_count t > kMaxSupportedNumInputChannels env"
    and l: "CreateShHrirsFromAssets env
      (to_string (binaural_filters_ambisonic_order ((audio_elements s @ [cfg]) ! 0)) @ ''OA_L'')
      (sampling_rate s) = Aborted \<or>
    CreateShHrirsFromAssets env
      (to_string (binaural_filters_ambisonic_order ((audio_elements s @ [cfg]) ! 0)) @ ''OA_R'')
      (sampling_rate s) = Aborted"
  show "AddAudioElement env s t = Aborted"
  proof (cases rule: AddAudioElement_cases [of s t env])
    case mismatch
    then show ?thesis using a by simp
  next
    case budget
    then show ?thesis using b by simp
  next
    case (init c)
    let ?s1 = "s\<lparr>audio_elements := audio_elements s @ [c]\<rparr>"
    have "binaural_filters_ambisonic_order c = binaural_filters_ambisonic_order cfg"
      using init(7) cfg by auto
    then have o: "binaural_filters_ambisonic_order ((audio_elements s @ [c]) ! 0)
          = binaural_filters_ambisonic_order ((audio_elements s @ [cfg]) ! 0)"
      by (simp add: nth_append)
    have "InitializeDsp env ?s1 = Aborted"
      by (rule InitializeDsp_aborts_with_filters)
         (use init(4,5) l o in \<open>simp_all add: GetNumberOfInputChannels_def\<close>)
    then show ?thesis using init(6) by simp
  qed
qed

lemma CreateShHrirsFromAssets_left_only:
  "CreateShHrirsFromAssets env1_left_only ''1OA_L'' 48000 = Returned (AudioBuffer_new 4 2)"
  "CreateShHrirsFromAssets env1_left_only ''1OA_R'' 48000 = Aborted"
  by (simp_all add: CreateShHrirsFromAssets_def CreateShHrirsFromWav_def env1_left_only_def
      env1_def wav_1OA_def Let_def)

theorem configuration_errors_typed_or_fatal_witness:
  "AddAudioElement env1 obr_1OA k3OA
     = Returned (FailedPreconditionError ''Only same-typed audio elements are supported.'', obr_1OA) \<and>
   AddAudioElement env1_max4 obr_1OA k1OA
     = Returned (ResourceExhaustedError ''More input channels requested than supported.'', obr_1OA) \<and>
   GetFile env1 ''7OA_L'' = None \<and>
   CreateShHrirsFromAssets env1 ''7OA_L'' 48000 = Aborted \<and>
   CreateShHrirsFromWav env1 wav_1OA 12345 = Aborted \<and>
   CreateShHrirsFromAssets env1 ''1OA_L'' 12345 = Aborted \<and>
   AddAudioElement env1 obr_empty_12345 k1OA = Aborted \<and>
   CreateShHrirsFromAssets env1_left_only ''1OA_L'' 48000 = Returned (AudioBuffer_new 4 2) \<and>
   AddAudioElement env1_left_only obr_empty k1OA = Aborted"
proof -
  note T = configuration_errors_typed_or_fatal
  have els: "audio_elements obr_1OA = [element_1OA 0]"
    "audio_elements obr_empty = []" "sampling_rate obr_empty = 48000"
    "audio_elements obr_empty_12345 = []" "sampling_rate obr_empty_12345 = 12345"
    by (simp_all add: obr_1OA_def obr_empty_12345_def obr_empty_def)
  have n: "type_channel_count k1OA = 4"
    by (simp add: type_channel_count_def AudioElementConfig_new_1OA)
  have a1: "AddAudioElement env1 obr_1OA k3OA
     = Returned (FailedPreconditionError ''Only same-typed audio elements are supported.'', obr_1OA)"
    using T [where env = env1 and s = obr_1OA and t = k3OA, THEN conjunct1]
    by (simp add: els)
  have a2: "AddAudioElement env1_max4 obr_1OA k1OA
     = Returned (ResourceExhaustedError ''More input channels requested than supported.'', obr_1OA)"
    using T [where env = env1_max4 and s = obr_1OA and t = k1OA, THEN conjunct2, THEN conjunct1]
    by (simp add: els n GetNumberOfInputChannels_def env1_max4_def)
  have b0: "GetFile env1 ''7OA_L'' = None" by (simp add: env1_def)
  have b1: "CreateShHrirsFromAssets env1 ''7OA_L'' 48000 = Aborted"
    using T [where env = env1 and filename = "''7OA_L''" and rate = 48000,
        THEN conjunct2, THEN conjunct2, THEN conjunct2, THEN conjunct1] b0
    by simp
  have u: "wav_sample_rate wav_1OA \<noteq> 12345"
    "\<not> AreSampleRatesSupported env1 (wav_sample_rate wav_1OA) 12345"
    "GetFile env1 ''1OA_L'' = Some ''1OA_L''" "Wav_CreateOrNull env1 ''1OA_L'' = Some wav_1OA"
    by (simp_all add: env1_def wav_1OA_def)
  have b2: "CreateShHrirsFromWav env1 wav_1OA 12345 = Aborted"
    using T [where env = env1 and wav = wav_1OA and rate = 12345,
        THEN conjunct2, THEN conjunct2, THEN conjunct2, THEN conjunct2, THEN conjunct1] u(1,2)
    by blast
  have b3: "CreateShHrirsFromAssets env1 ''1OA_L'' 12345 = Aborted"
    using T [where env = env1 and wav = wav_1OA and rate = 12345 and filename = "''1OA_L''"
          and data = "''1OA_L''",
        THEN conjunct2, THEN conjunct2, THEN conjunct2, THEN conjunct2, THEN conjunct2,
        THEN conjunct1] u
    by blast
  have k: "kMaxSupportedNumInputChannels env1 = 128"
    "kMaxSupportedNumInputChannels env1_left_only = 128"
    by (simp_all add: env1_def env1_left_only_def)
  have c1: "AddAudioElement env1 obr_empty_12345 k1OA = Aborted"
    using T [where env = env1 and s = obr_empty_12345 and t = k1OA and cfg = "element_1OA 0",
        THEN conjunct2, THEN conjunct2, THEN conjunct2, THEN conjunct2, THEN conjunct2,
        THEN conjunct2] b3
    by (simp add: els n k GetNumberOfInputChannels_def AudioElementConfig_new_1OA to_string_digit)
  have c2: "AddAudioElement env1_left_only obr_empty k1OA = Aborted"
    using T [where env = env1_left_only and s = obr_empty and t = k1OA and cfg = "element_1OA 0",
        THEN conjunct2, THEN conjunct2, THEN conjunct2, THEN conjunct2, THEN conjunct2,
        THEN conjunct2] CreateShHrirsFromAssets_left_only(2)
    by (simp add: els n k GetNumberOfInputChannels_def AudioElementConfig_new_1OA to_string_digit)
  show ?thesis
    using a1 a2 b0 b1 b2 b3 c1 c2 CreateShHrirsFromAssets_left_only(1) by simp
qed

text \<open>The encode stage leaves the head tracking state alone.\<close>

lemma Process_encode_stage_keeps:
  assumes "Process_encode_stage s input_buffer = Returned s1"
  shows "world_rotation s1 = world_rotation s"
    and "head_tracking_enabled s1 = head_tracking_enabled s"
    and "ambisonic_rotator s1 = ambisonic_rotator s"
  using assms
  by (auto simp: Process_encode_stage_def Let_def split: if_splits option.splits outcome.splits)

text \<open>
  Claim C10. \<^verbatim>\<open>SetHeadRotation\<close> returns OK for every four numbers, the all-zero
  quaternion and quaternions that are not of unit length included; the state it returns
  is the given one with the stored rotation replaced by exactly these four numbers; and
  in the next call of \<^verbatim>\<open>Process\<close>, when head tracking is on, the rotator is called
  with exactly these four numbers on the mix bed that the encode stage has produced.
\<close>

theorem SetHeadRotation_stores_as_given:
  "fst (SetHeadRotation s w x y z) = OkStatus \<and>
   snd (SetHeadRotation s w x y z) = s\<lparr>world_rotation := (w, x, y, z)\<rparr> \<and>
   (Process_encode_stage (snd (SetHeadRotation s w x y z)) input_buffer = Returned s1 \<longrightarrow>
    head_tracking_enabled s \<longrightarrow> ambisonic_rotator s = Some rotator \<longrightarrow>
    Process_rotate_stage env s1 =
      Returned (s1\<lparr>ambisonic_rotator :=
                     Some (fst (AmbisonicRotator_Process env rotator (w, x, y, z)
                                  (ambisonic_mix_bed s1))),
                   ambisonic_mix_bed :=
                     snd (AmbisonicRotator_Process env rotator (w, x, y, z)
                            (ambisonic_mix_bed s1))\<rparr>))"
proof (intro conjI impI)
  show "fst (SetHeadRotation s w x y z) = OkStatus" by (simp add: SetHeadRotation_def)
  show "snd (SetHeadRotation s w x y z) = s\<lparr>world_rotation := (w, x, y, z)\<rparr>"
    by (simp add: SetHeadRotation_def)
next
  assume e: "Process_encode_stage (snd (SetHeadRotation s w x y z)) input_buffer = Returned s1"
    and h: "head_tracking_enabled s" and r: "ambisonic_rotator s = Some rotator"
  have "world_rotation s1 = (w, x, y, z)" "head_tracking_enabled s1" "ambisonic_rotator s1 = Some rotator"
    using Process_encode_stage_keeps [OF e] h r by (simp_all add: SetHeadRotation_def)
  then show "Process_rotate_stage env s1 =
      Returned (s1\<lparr>ambisonic_rotator :=
                     Some (fst (AmbisonicRotator_Process env rotator (w, x, y, z)
                                  (ambisonic_mix_bed s1))),
                   ambisonic_mix_bed :=
                     snd (AmbisonicRotator_Process env rotator (w, x, y, z)
                            (ambisonic_mix_bed s1))\<rparr>)"
    by (simp add: Process_rotate_stage_def split_beta)
qed

subsection \<open>The encode stage for Ambisonic input\<close>

lemma map_update_at:
  assumes "k < n"
  shows "(map g [0..<n])[k := v] = map (\<lambda>c. if c = k then v else g c) [0..<n]"
  by (rule nth_equalityI) (simp_all add: nth_list_update)

lemma add_ambisonic_channel_loop:
  assumes "k \<le> num_channels bed" "first_channel_index e + k \<le> num_channels input_buffer"
  shows "foldl (add_ambisonic_channel input_buffer e) (Returned bed) [0..<k]
       = Returned (bed\<lparr>channel_views :=
           map (\<lambda>c. if c < k
                    then ChannelView_add (channel_views bed ! c)
                           (channel_views input_buffer ! (first_channel_index e + c))
                    else channel_views bed ! c) [0..<num_channels bed]\<rparr>)"
  using assms
proof (induction k)
  case 0
  have "map (\<lambda>c. channel_views bed ! c) [0..<num_channels bed] = channel_views bed"
    unfolding num_channels_def by (rule map_nth)
  then show ?case by simp
next
  case (Suc k)
  have k: "k < num_channels bed" "first_channel_index e + k < num_channels input_buffer"
    using Suc.prems by simp_all
  have ih: "foldl (add_ambisonic_channel input_buffer e) (Returned bed) [0..<k]
       = Returned (bed\<lparr>channel_views :=
           map (\<lambda>c. if c < k
                    then ChannelView_add (channel_views bed ! c)
                           (channel_views input_buffer ! (first_channel_index e + c))
                    else channel_views bed ! c) [0..<num_channels bed]\<rparr>)"
    using Suc by simp
  have less: "\<And>c. (c < Suc k) = (c = k \<or> c < k)" by auto
  have "foldl (add_ambisonic_channel input_buffer e) (Returned bed) [0..<Suc k]
      = add_ambisonic_channel input_buffer e
          (foldl (add_ambisonic_channel input_buffer e) (Returned bed) [0..<k]) k"
    by simp
  also have "\<dots> = Returned (bed\<lparr>channel_views :=
           map (\<lambda>c. if c < Suc k
                    then ChannelView_add (channel_views bed ! c)
                           (channel_views input_buffer ! (first_channel_index e + c))
                    else channel_views bed ! c) [0..<num_channels bed]\<rparr>)"
    unfolding ih using k
    by (simp add: add_ambisonic_channel_def num_channels_def map_update_at less
        cong: if_cong)
  finally show ?case .
qed

lemma add_ambisonic_element_ambisonic:
  assumes "IsAmbisonicsType (ae_type e)"
    and "ae_number_of_input_channels e = num_channels bed"
    and "first_channel_index e + ae_number_of_input_channels e \<le> num_channels input_buffer"
  shows "add_ambisonic_element input_buffer (Returned bed) e
       = Returned (bed\<lparr>channel_views :=
           map (\<lambda>c. ChannelView_add (channel_views bed ! c)
                      (channel_views input_buffer ! (first_channel_index e + c)))
               [0..<num_channels bed]\<rparr>)"
  using assms add_ambisonic_channel_loop [of "num_channels bed" bed e input_buffer]
  by (simp add: add_ambisonic_element_def cong: map_cong)

lemma add_ambisonic_elements_loop:
  assumes "list_all (\<lambda>e. IsAmbisonicsType (ae_type e)
                    \<and> ae_number_of_input_channels e = n
                    \<and> first_channel_index e + ae_number_of_input_channels e
                          \<le> num_channels input_buffer) els"
  shows "foldl (add_ambisonic_element input_buffer)
           (Returned (bed\<lparr>channel_views := map (\<lambda>c. map (g c) [0..<B]) [0..<n]\<rparr>)) els
       = Returned (bed\<lparr>channel_views :=
           map (\<lambda>c. map (\<lambda>f. foldl (\<lambda>acc e. acc + channel_views input_buffer
                                                   ! (first_channel_index e + c) ! f)
                                   (g c f) els) [0..<B]) [0..<n]\<rparr>)"
  using assms
proof (induction els arbitrary: g)
  case Nil
  show ?case by simp
next
  case (Cons e els)
  let ?bed = "bed\<lparr>channel_views := map (\<lambda>c. map (g c) [0..<B]) [0..<n]\<rparr>"
  let ?g = "\<lambda>c f. g c f + channel_views input_buffer ! (first_channel_index e + c) ! f"
  have e: "IsAmbisonicsType (ae_type e)" "ae_number_of_input_channels e = num_channels ?bed"
    "first_channel_index e + ae_number_of_input_channels e \<le> num_channels input_buffer"
    using Cons.prems by (simp_all add: num_channels_def)
  have "add_ambisonic_element input_buffer (Returned ?bed) e
      = Returned (bed\<lparr>channel_views := map (\<lambda>c. map (?g c) [0..<B]) [0..<n]\<rparr>)"
    unfolding add_ambisonic_element_ambisonic [OF e]
    by (simp add: num_channels_def ChannelView_add_def cong: map_cong)
  moreover have "list_all (\<lambda>e. IsAmbisonicsType (ae_type e)
                    \<and> ae_number_of_input_channels e = n
                    \<and> first_channel_index e + ae_number_of_input_channels e
                          \<le> num_channels input_buffer) els"
    using Cons.prems by simp
  ultimately show ?case using Cons.IH [of ?g] by simp
qed

lemma AudioBuffer_Clear_wf:
  assumes "wf_buffer b"
  shows "AudioBuffer_Clear b
       = b\<lparr>channel_views := map (\<lambda>c. map (\<lambda>f. 0) [0..<num_frames b]) [0..<num_channels b]\<rparr>"
proof -
  have "map (\<lambda>ch. replicate (length ch) (0::sample)) (channel_views b)
      = map (\<lambda>c. map (\<lambda>f. 0) [0..<num_frames b]) [0..<num_channels b]"
    using assms
    by (intro nth_equalityI)
       (simp_all add: wf_buffer_def num_channels_def list_all_length map_replicate_const)
  then show ?thesis unfolding AudioBuffer_Clear_def by (simp only:)
qed

lemma Process_encode_stage_ambisonic:
  assumes "ambisonic_only s input_buffer"
  shows "Process_encode_stage s input_buffer
       = Returned (s\<lparr>ambisonic_mix_bed := (ambisonic_mix_bed s)\<lparr>channel_views :=
           map (\<lambda>c. map (\<lambda>f. ambisonic_input_sum (audio_elements s) input_buffer c f)
                      [0..<num_frames (ambisonic_mix_bed s)])
               [0..<num_channels (ambisonic_mix_bed s)]\<rparr>\<rparr>)"
proof -
  let ?n = "num_channels (ambisonic_mix_bed s)"
  have els: "list_all (\<lambda>e. IsAmbisonicsType (ae_type e)
                    \<and> ae_number_of_input_channels e = ?n
                    \<and> first_channel_index e + ae_number_of_input_channels e
                          \<le> num_channels input_buffer) (audio_elements s)"
    and wf: "wf_buffer (ambisonic_mix_bed s)"
    using assms by (simp_all add: ambisonic_only_def)
  have "list_all (\<lambda>e. IsAmbisonicsType (ae_type e)) (audio_elements s)"
    using els by (simp add: list_all_iff)
  then have ind: "GetAmbisonicEncoderSourceChannelIndices s = []" by (rule indices_ambisonic)
  show ?thesis
    unfolding Process_encode_stage_def
    by (simp add: ind AudioBuffer_Clear_wf [OF wf] add_ambisonic_elements_loop [OF els]
        ambisonic_input_sum_def)
qed

lemma ambisonic_only_1OA:
  "ambisonic_only (obr_1OA\<lparr>head_tracking_enabled := h, world_rotation := q\<rparr>) in4"
  by (simp add: ambisonic_only_def obr_1OA_def obr_configured_def obr_empty_def in4_def
      AudioBuffer_new_def IsAmbisonicsType_def num_channels_def wf_buffer_def list_all_iff)


lemma upt_4: "[0..<4] = [0, 1, 2, 3]"
  by (simp add: upt_conv_Cons)



theorem SetHeadRotation_stores_as_given_witness:
  "fst (SetHeadRotation obr_1OA_tracking 0 0 0 0) = OkStatus \<and>
   snd (SetHeadRotation obr_1OA_tracking 0 0 0 0)
     = obr_1OA_tracking\<lparr>world_rotation := (0, 0, 0, 0)\<rparr> \<and>
   Process_encode_stage (snd (SetHeadRotation obr_1OA_tracking 0 0 0 0)) in4
     = Returned (obr_1OA_tracking\<lparr>world_rotation := (0, 0, 0, 0), ambisonic_mix_bed := in4\<rparr>) \<and>
   head_tracking_enabled obr_1OA_tracking \<and>
   ambisonic_rotator obr_1OA_tracking = Some () \<and>
   Process_rotate_stage env1
       (obr_1OA_tracking\<lparr>world_rotation := (0, 0, 0, 0), ambisonic_mix_bed := in4\<rparr>)
     = Returned (obr_1OA_tracking
         \<lparr>world_rotation := (0, 0, 0, 0), ambisonic_mix_bed := in4,
          ambisonic_rotator := Some (fst (AmbisonicRotator_Process env1 () (0, 0, 0, 0) in4)),
          ambisonic_mix_bed := snd (AmbisonicRotator_Process env1 () (0, 0, 0, 0) in4)\<rparr>)"
proof -
  let ?s1 = "obr_1OA_tracking\<lparr>world_rotation := (0, 0, 0, 0), ambisonic_mix_bed := in4\<rparr>"
  have set: "snd (SetHeadRotation obr_1OA_tracking 0 0 0 0)
     = obr_1OA\<lparr>head_tracking_enabled := True, world_rotation := (0, 0, 0, 0)\<rparr>"
    by (simp add: SetHeadRotation_def obr_1OA_tracking_def)
  have enc: "Process_encode_stage (snd (SetHeadRotation obr_1OA_tracking 0 0 0 0)) in4
     = Returned ?s1"
    unfolding set Process_encode_stage_ambisonic [OF ambisonic_only_1OA]
    by (simp add: obr_1OA_tracking_def obr_1OA_def obr_configured_def obr_empty_def
        AudioBuffer_new_def num_channels_def upt_4 ambisonic_input_sum_def in4_def)
  have h: "head_tracking_enabled obr_1OA_tracking"
    "ambisonic_rotator obr_1OA_tracking = Some ()"
    by (simp_all add: obr_1OA_tracking_def obr_1OA_def obr_configured_def)
  have ambisonic_mix_bed: "ambisonic_mix_bed ?s1 = in4" by simp
  show ?thesis
    using SetHeadRotation_stores_as_given
      [of obr_1OA_tracking 0 0 0 0 in4 ?s1 "()" env1] enc h
    by (simp add: SetHeadRotation_def)
qed




end
